theory Spec2Isabelle
  imports Complex_Main "HOL-Library.Option_ord"
begin

section \<open>JavaScript values\<close>

text \<open>
  The normalisers of \<^verbatim>\<open>planetState.ts\<close> and \<^verbatim>\<open>saveSlots.ts\<close> take values of type
  \<^verbatim>\<open>unknown\<close>. They are modelled as trees of plain data. A number is a double: a finite
  one is the real it denotes, with the negative zero apart, so that \<open>Finite 0\<close> is the
  positive zero. The normalisers only compare, floor, clamp and take minima and maxima of
  numbers, which is exact on doubles, so rounding plays no part there. An object is the list
  of its own properties; a property read takes the first entry with the key and yields
  \<open>Undefined\<close> when there is none. A string is a list of code units below 256.
\<close>

datatype number = Finite real | NegZero | NaN | PosInfinity | NegInfinity

text \<open>\<^verbatim>\<open>Number.isFinite\<close>, and the real that a finite number denotes: comparing two finite
  numbers with \<^verbatim>\<open><\<close> or \<^verbatim>\<open>>\<close> compares these reals, the two zeros being equal.\<close>

fun isFinite :: "number \<Rightarrow> bool" where
  "isFinite (Finite r) = True"
| "isFinite NegZero = True"
| "isFinite _ = False"

fun numval :: "number \<Rightarrow> real" where
  "numval (Finite r) = r"
| "numval _ = 0"

text \<open>\<^verbatim>\<open>Math.floor\<close> keeps the negative zero; the floor of a number between 0 and 1 is the
  positive zero.\<close>

fun Math_floor :: "number \<Rightarrow> number" where
  "Math_floor (Finite r) = Finite (of_int \<lfloor>r\<rfloor>)"
| "Math_floor n = n"

text \<open>\<^verbatim>\<open>Math.max\<close> and \<^verbatim>\<open>Math.min\<close> of two numbers: \<^verbatim>\<open>NaN\<close> as soon as one is, and the
  positive zero counts as larger than the negative one.\<close>

fun Math_max :: "number \<Rightarrow> number \<Rightarrow> number" where
  "Math_max NaN y = NaN"
| "Math_max x NaN = NaN"
| "Math_max PosInfinity y = PosInfinity"
| "Math_max x PosInfinity = PosInfinity"
| "Math_max NegInfinity y = y"
| "Math_max x NegInfinity = x"
| "Math_max NegZero NegZero = NegZero"
| "Math_max NegZero (Finite b) = (if 0 \<le> b then Finite b else NegZero)"
| "Math_max (Finite a) NegZero = (if 0 \<le> a then Finite a else NegZero)"
| "Math_max (Finite a) (Finite b) = Finite (max a b)"

fun Math_min :: "number \<Rightarrow> number \<Rightarrow> number" where
  "Math_min NaN y = NaN"
| "Math_min x NaN = NaN"
| "Math_min NegInfinity y = NegInfinity"
| "Math_min x NegInfinity = NegInfinity"
| "Math_min PosInfinity y = y"
| "Math_min x PosInfinity = x"
| "Math_min NegZero NegZero = NegZero"
| "Math_min NegZero (Finite b) = (if b < 0 then Finite b else NegZero)"
| "Math_min (Finite a) NegZero = (if a < 0 then Finite a else NegZero)"
| "Math_min (Finite a) (Finite b) = Finite (min a b)"

text \<open>\<^verbatim>\<open>===\<close> on two numbers: \<^verbatim>\<open>NaN\<close> equals nothing, and the two zeros are equal.\<close>

fun strictEquals :: "number \<Rightarrow> number \<Rightarrow> bool" where
  "strictEquals NaN y = False"
| "strictEquals x NaN = False"
| "strictEquals NegZero y = (y = NegZero \<or> y = Finite 0)"
| "strictEquals x NegZero = (x = Finite 0)"
| "strictEquals x y = (x = y)"

datatype jsvalue =
    Undefined
  | Null
  | Bool bool
  | Num number
  | Str string
  | Arr "jsvalue list"
  | Obj "(string \<times> jsvalue) list"

fun getProp :: "jsvalue \<Rightarrow> string \<Rightarrow> jsvalue" where
  "getProp (Obj fs) k = (case map_of fs k of Some x \<Rightarrow> x | None \<Rightarrow> Undefined)"
| "getProp _ k = Undefined"

fun hasProp :: "string \<Rightarrow> jsvalue \<Rightarrow> bool" where
  "hasProp k (Obj fs) = (k \<in> fst ` set fs)"
| "hasProp k _ = False"

text \<open>
  What \<^verbatim>\<open>JSON.parse\<close> reads back from the text that \<^verbatim>\<open>JSON.stringify\<close> prints for a value
  (ECMAScript, \<^verbatim>\<open>SerializeJSONProperty\<close>): a finite number is printed exactly, but the
  negative zero is printed as \<^verbatim>\<open>0\<close>; \<^verbatim>\<open>NaN\<close> and the infinities are printed as \<^verbatim>\<open>null\<close>; a
  property that is \<^verbatim>\<open>undefined\<close> is left out, and an array element that is \<^verbatim>\<open>undefined\<close>
  is printed as \<^verbatim>\<open>null\<close>. The module prints objects only.
\<close>

fun positiveZero :: "number \<Rightarrow> number" where
  "positiveZero NegZero = Finite 0"
| "positiveZero n = n"

fun jsonImage :: "jsvalue \<Rightarrow> jsvalue"
  and jsonElements :: "jsvalue list \<Rightarrow> jsvalue list"
  and jsonProperties :: "(string \<times> jsvalue) list \<Rightarrow> (string \<times> jsvalue) list" where
  "jsonImage (Num n) = (if isFinite n then Num (positiveZero n) else Null)"
| "jsonImage (Arr xs) = Arr (jsonElements xs)"
| "jsonImage (Obj fs) = Obj (jsonProperties fs)"
| "jsonImage Undefined = Undefined"
| "jsonImage Null = Null"
| "jsonImage (Bool b) = Bool b"
| "jsonImage (Str s) = Str s"
| "jsonElements [] = []"
| "jsonElements (x # xs) =
     (if x = Undefined then Null else jsonImage x) # jsonElements xs"
| "jsonProperties [] = []"
| "jsonProperties ((k, x) # fs) =
     (if x = Undefined then jsonProperties fs else (k, jsonImage x) # jsonProperties fs)"

text \<open>Errors raised inside \<^verbatim>\<open>planetState.ts\<close>: the \<^verbatim>\<open>RangeError\<close> of an array
  constructor given a length of \<open>2^32\<close> or more, the \<^verbatim>\<open>SyntaxError\<close> of \<^verbatim>\<open>JSON.parse\<close>, and
  the \<^verbatim>\<open>Error\<close> thrown by \<^verbatim>\<open>migratePlanetState\<close>.\<close>

datatype state_error =
    InvalidArrayLength
  | JsonSyntaxError
  | UnsupportedPlanetStateVersion int

section \<open>The platform\<close>

text \<open>
  \<^verbatim>\<open>JSON.parse\<close>, \<^verbatim>\<open>JSON.stringify\<close>, \<^verbatim>\<open>Date.parse\<close>, \<^verbatim>\<open>Date.prototype.toISOString\<close> and
  the clock belong to the host, not to the repository: they are parameters of the model.
  \<open>JSON_parse\<close> is \<open>None\<close> where the host raises a \<^verbatim>\<open>SyntaxError\<close>; \<open>Date_parse\<close> is \<open>None\<close>
  where the host returns \<^verbatim>\<open>NaN\<close>, and a time value is a number of milliseconds since the
  epoch; \<open>Date_now\<close> is the reading of \<^verbatim>\<open>new Date()\<close>. Of a host's JSON functions the
  theorems ask, for the value \<open>v\<close> that is printed, that
  \<open>JSON_parse (JSON_stringify v) = Some (jsonImage v)\<close>. \<open>Storage_accepts items key text\<close>
  tells whether the host's \<^verbatim>\<open>localStorage\<close>, holding \<open>items\<close>, accepts the write of \<open>text\<close>
  under \<open>key\<close>; where it does not, \<^verbatim>\<open>setItem\<close> raises a \<^verbatim>\<open>QuotaExceededError\<close>.
\<close>

record platform =
  JSON_parse :: "string \<Rightarrow> jsvalue option"
  JSON_stringify :: "jsvalue \<Rightarrow> string"
  Date_parse :: "string \<Rightarrow> int option"
  toISOString :: "int \<Rightarrow> string"
  Date_now :: int
  Storage_accepts :: "(string \<Rightarrow> string option) \<Rightarrow> string \<Rightarrow> string \<Rightarrow> bool"

section \<open>Planet state: data model (planetState.ts)\<close>

definition PLANET_STATE_VERSION :: int where
  "PLANET_STATE_VERSION = 1"

record AtmosphericGasComposition =
  gas :: string
  percentage :: number

record AtmosphereState =
  gases :: "AtmosphericGasComposition list"
  surfacePressureKPa :: number
  greenhouseCoefficient :: number

datatype TectonicPlateType = continental | oceanic

record TectonicPlateState =
  plate_id :: string
  plate_name :: string
  plate_type :: TectonicPlateType
  areaFraction :: number
  driftRateCmPerYear :: number

datatype HeightUnit = meters

record HeightFieldState =
  hf_width :: int
  hf_height :: int
  hf_unit :: HeightUnit
  hf_values :: "number list"

record GeologyState =
  plates :: "TectonicPlateState list"
  heightField :: HeightFieldState
  volcanismIndex :: number

record Coordinates =
  latitude :: number
  longitude :: number

record RiverSystemState =
  river_id :: string
  river_name :: string
  lengthKm :: number
  river_source :: Coordinates
  river_mouth :: Coordinates

record RiverNetworkState =
  rivers_seed :: "number option"
  systems :: "RiverSystemState list"

record IceCapsState =
  northCoverageFraction :: number
  southCoverageFraction :: number

record HydrologyState =
  oceanCoverage :: number
  rivers :: RiverNetworkState
  iceCaps :: IceCapsState

record BiomeCellState =
  biome :: string
  biodiversity :: number

record BiomeMapState =
  bm_width :: int
  bm_height :: int
  cells :: "BiomeCellState list"

record BiosphereState =
  biomeMap :: BiomeMapState
  biodiversityIndex :: number

datatype CivilizationPopulationKind = outpost | settlement | city

datatype CivilizationTechLevel =
  none | tribal | agrarian | industrial | digital | spacefaring

record PopulationCenterState =
  pop_id :: string
  pop_name :: string
  population :: number
  pop_kind :: CivilizationPopulationKind
  coordinates :: Coordinates

record CivilizationState =
  populations :: "PopulationCenterState list"
  techLevel :: CivilizationTechLevel
  pollutionIndex :: number

record ClimateState =
  axialTiltDegrees :: number
  albedo :: number
  greenhouseMultiplier :: number
  currentTime :: number
  yearLength :: number

record PlanetState =
  version :: int
  atmosphere :: AtmosphereState
  geology :: GeologyState
  hydrology :: HydrologyState
  biosphere :: BiosphereState
  civilization :: CivilizationState
  climate :: ClimateState

section \<open>Planet state: helpers\<close>

definition DEFAULT_HEIGHT_FIELD_WIDTH :: int where "DEFAULT_HEIGHT_FIELD_WIDTH = 64"
definition DEFAULT_HEIGHT_FIELD_HEIGHT :: int where "DEFAULT_HEIGHT_FIELD_HEIGHT = 32"
definition DEFAULT_BIOME_MAP_WIDTH :: int where "DEFAULT_BIOME_MAP_WIDTH = 64"
definition DEFAULT_BIOME_MAP_HEIGHT :: int where "DEFAULT_BIOME_MAP_HEIGHT = 32"

fun isNumber :: "jsvalue \<Rightarrow> bool" where
  "isNumber (Num n) = isFinite n"
| "isNumber _ = False"

fun isString :: "jsvalue \<Rightarrow> bool" where
  "isString (Str s) = True"
| "isString _ = False"

fun isRecord :: "jsvalue \<Rightarrow> bool" where
  "isRecord (Obj fs) = True"
| "isRecord _ = False"

fun isArray :: "jsvalue \<Rightarrow> bool" where
  "isArray (Arr xs) = True"
| "isArray _ = False"

fun ensureNumber :: "jsvalue \<Rightarrow> number \<Rightarrow> number" where
  "ensureNumber (Num n) fallback = (if isFinite n then n else fallback)"
| "ensureNumber _ fallback = fallback"

text \<open>The default \<^verbatim>\<open>minimum = 1\<close> of the source is written at every call. The floor of a
  finite number is finite, and a result that is at least 1 is an integer that is not a zero:
  it is kept as an integer.\<close>

fun ensurePositiveInteger :: "jsvalue \<Rightarrow> int \<Rightarrow> int \<Rightarrow> int" where
  "ensurePositiveInteger (Num n) fallback minimum =
     (if \<not> isFinite n then fallback
      else let rounded = \<lfloor>numval n\<rfloor> in if rounded < minimum then fallback else rounded)"
| "ensurePositiveInteger _ fallback minimum = fallback"

text \<open>\<^verbatim>\<open>String.prototype.trim\<close> removes white space and line terminators; among the code
  units below 256 these are the tab, the line feed, the vertical tab, the form feed, the
  carriage return, the space and the no-break space.\<close>

definition isWhiteSpace :: "char \<Rightarrow> bool" where
  "isWhiteSpace c =
     (c \<in> set [CHR 0x09, CHR 0x0A, CHR 0x0B, CHR 0x0C, CHR 0x0D, CHR '' '', CHR 0xA0])"

definition trim :: "string \<Rightarrow> string" where
  "trim s = rev (dropWhile isWhiteSpace (rev (dropWhile isWhiteSpace s)))"

fun ensureString :: "jsvalue \<Rightarrow> string \<Rightarrow> string" where
  "ensureString (Str s) fallback = (if length (trim s) > 0 then s else fallback)"
| "ensureString _ fallback = fallback"

text \<open>The clamps: a negative zero is not below 0 and is returned as it is.\<close>

definition clamp01 :: "number \<Rightarrow> number" where
  "clamp01 v =
     (if \<not> isFinite v then Finite 0
      else if numval v < 0 then Finite 0
      else if numval v > 1 then Finite 1
      else v)"

definition clampPercentage :: "number \<Rightarrow> number" where
  "clampPercentage v =
     (if \<not> isFinite v then Finite 0
      else if numval v < 0 then Finite 0
      else if numval v > 100 then Finite 100
      else v)"

definition clampLatitude :: "number \<Rightarrow> number" where
  "clampLatitude v =
     (if \<not> isFinite v then Finite 0
      else if numval v < - 90 then Finite (- 90)
      else if numval v > 90 then Finite 90
      else v)"

definition clampLongitude :: "number \<Rightarrow> number" where
  "clampLongitude v =
     (if \<not> isFinite v then Finite 0
      else if numval v < - 180 then Finite (- 180)
      else if numval v > 180 then Finite 180
      else v)"

text \<open>
  \<^verbatim>\<open>Array.from({ length }, () => x)\<close>: the array constructor raises a \<^verbatim>\<open>RangeError\<close>
  (invalid array length) when the length is \<open>2^32\<close> or more; a length below one gives the
  empty array. The normalisers append the padding with \<^verbatim>\<open>push(...pad)\<close>; the limit that an
  engine puts on the number of arguments of a call, which is lower and differs between
  engines, is not part of the model.
\<close>

definition arrayFromLength :: "int \<Rightarrow> 'a \<Rightarrow> state_error + 'a list" where
  "arrayFromLength len x =
     (if len \<ge> 2 ^ 32 then Inl InvalidArrayLength else Inr (replicate (nat len) x))"

definition padArray :: "int \<Rightarrow> state_error + number list" where
  "padArray len = arrayFromLength len (Finite 0)"

definition padBiomeCells :: "int \<Rightarrow> state_error + BiomeCellState list" where
  "padBiomeCells len =
     arrayFromLength len \<lparr> biome = ''ocean'', biodiversity = Finite 0 \<rparr>"

section \<open>Planet state: defaults\<close>

definition createDefaultAtmosphereState :: AtmosphereState where
  "createDefaultAtmosphereState = \<lparr>
     gases = [
       \<lparr> gas = ''nitrogen'', percentage = Finite 78 \<rparr>,
       \<lparr> gas = ''oxygen'', percentage = Finite 21 \<rparr>,
       \<lparr> gas = ''argon'', percentage = Finite (9 / 10) \<rparr>,
       \<lparr> gas = ''carbon-dioxide'', percentage = Finite (4 / 100) \<rparr>],
     surfacePressureKPa = Finite (101325 / 1000),
     greenhouseCoefficient = Finite (3 / 10) \<rparr>"

text \<open>The two default grids have 2048 entries, below the array length limit, so
  \<open>padArray\<close> and \<open>padBiomeCells\<close> return there.\<close>

definition createDefaultHeightFieldState :: HeightFieldState where
  "createDefaultHeightFieldState = \<lparr>
     hf_width = DEFAULT_HEIGHT_FIELD_WIDTH,
     hf_height = DEFAULT_HEIGHT_FIELD_HEIGHT,
     hf_unit = meters,
     hf_values = projr (padArray (DEFAULT_HEIGHT_FIELD_WIDTH * DEFAULT_HEIGHT_FIELD_HEIGHT)) \<rparr>"

definition createDefaultTectonicPlates :: "TectonicPlateState list" where
  "createDefaultTectonicPlates = []"

definition createDefaultGeologyState :: GeologyState where
  "createDefaultGeologyState = \<lparr>
     plates = createDefaultTectonicPlates,
     heightField = createDefaultHeightFieldState,
     volcanismIndex = Finite 0 \<rparr>"

definition createDefaultRiverNetworkState :: RiverNetworkState where
  "createDefaultRiverNetworkState = \<lparr> rivers_seed = None, systems = [] \<rparr>"

definition createDefaultIceCapsState :: IceCapsState where
  "createDefaultIceCapsState =
     \<lparr> northCoverageFraction = Finite (5 / 100), southCoverageFraction = Finite (4 / 100) \<rparr>"

definition createDefaultHydrologyState :: HydrologyState where
  "createDefaultHydrologyState = \<lparr>
     oceanCoverage = Finite (72 / 100),
     rivers = createDefaultRiverNetworkState,
     iceCaps = createDefaultIceCapsState \<rparr>"

definition createDefaultBiomeMapState :: BiomeMapState where
  "createDefaultBiomeMapState = \<lparr>
     bm_width = DEFAULT_BIOME_MAP_WIDTH,
     bm_height = DEFAULT_BIOME_MAP_HEIGHT,
     cells = projr (padBiomeCells (DEFAULT_BIOME_MAP_WIDTH * DEFAULT_BIOME_MAP_HEIGHT)) \<rparr>"

definition createDefaultBiosphereState :: BiosphereState where
  "createDefaultBiosphereState =
     \<lparr> biomeMap = createDefaultBiomeMapState, biodiversityIndex = Finite (1 / 10) \<rparr>"

definition createDefaultCivilizationState :: CivilizationState where
  "createDefaultCivilizationState =
     \<lparr> populations = [], techLevel = none, pollutionIndex = Finite 0 \<rparr>"

definition createDefaultClimateState :: ClimateState where
  "createDefaultClimateState = \<lparr>
     axialTiltDegrees = Finite (235 / 10),
     albedo = Finite (3 / 10),
     greenhouseMultiplier = Finite 1,
     currentTime = Finite 0,
     yearLength = Finite 365 \<rparr>"

definition createDefaultPlanetState :: PlanetState where
  "createDefaultPlanetState = \<lparr>
     version = PLANET_STATE_VERSION,
     atmosphere = createDefaultAtmosphereState,
     geology = createDefaultGeologyState,
     hydrology = createDefaultHydrologyState,
     biosphere = createDefaultBiosphereState,
     civilization = createDefaultCivilizationState,
     climate = createDefaultClimateState \<rparr>"

section \<open>Planet state: normalisation\<close>

text \<open>A normaliser of a list entry returns \<open>None\<close> for \<^verbatim>\<open>null\<close>; \<^verbatim>\<open>.map(f).filter(Boolean)\<close>
  is \<open>List.map_filter f\<close>.\<close>

definition normalizeAtmosphericGas :: "jsvalue \<Rightarrow> AtmosphericGasComposition option" where
  "normalizeAtmosphericGas v =
     (if \<not> isRecord v then None
      else let g = ensureString (getProp v ''gas'') '''' in
        if length g = 0 then None
        else (case getProp v ''percentage'' of
                Num p \<Rightarrow>
                  if isFinite p then Some \<lparr> gas = g, percentage = clampPercentage p \<rparr>
                  else None
              | _ \<Rightarrow> None))"

definition normalizeAtmosphere :: "jsvalue \<Rightarrow> AtmosphereState" where
  "normalizeAtmosphere v =
     (let defaults = createDefaultAtmosphereState in
      if \<not> isRecord v then defaults
      else
        let gasesRaw = (case getProp v ''gases'' of Arr xs \<Rightarrow> Some xs | _ \<Rightarrow> None);
            gs = map_option (List.map_filter normalizeAtmosphericGas) gasesRaw
        in \<lparr> gases = (case gs of
                         Some l \<Rightarrow> if length l > 0 then l else gases defaults
                       | None \<Rightarrow> gases defaults),
             surfacePressureKPa =
               ensureNumber (getProp v ''surfacePressureKPa'') (surfacePressureKPa defaults),
             greenhouseCoefficient =
               ensureNumber (getProp v ''greenhouseCoefficient'')
                 (greenhouseCoefficient defaults) \<rparr>)"

definition normalizeTectonicPlate :: "jsvalue \<Rightarrow> TectonicPlateState option" where
  "normalizeTectonicPlate v =
     (if \<not> isRecord v then None
      else let i = ensureString (getProp v ''id'') '''' in
        if length i = 0 then None
        else Some \<lparr>
          plate_id = i,
          plate_name = ensureString (getProp v ''name'') i,
          plate_type = (if getProp v ''type'' = Str ''oceanic'' then oceanic else continental),
          areaFraction = clamp01 (ensureNumber (getProp v ''areaFraction'') (Finite 0)),
          driftRateCmPerYear =
            ensureNumber (getProp v ''driftRateCmPerYear'') (Finite 0) \<rparr>)"

definition normalizeHeightField :: "jsvalue \<Rightarrow> state_error + HeightFieldState" where
  "normalizeHeightField v =
     (let defaults = createDefaultHeightFieldState in
      if \<not> isRecord v then Inr defaults
      else
        let w = ensurePositiveInteger (getProp v ''width'') (hf_width defaults) 1;
            h = ensurePositiveInteger (getProp v ''height'') (hf_height defaults) 1;
            expectedLength = w * h;
            valuesRaw = (case getProp v ''values'' of Arr xs \<Rightarrow> xs | _ \<Rightarrow> []);
            vals = take (nat expectedLength)
                     (map (\<lambda>entry. ensureNumber entry (Finite 0)) valuesRaw)
        in if int (length vals) < expectedLength
           then (case padArray (expectedLength - int (length vals)) of
                   Inl e \<Rightarrow> Inl e
                 | Inr pad \<Rightarrow>
                     Inr \<lparr> hf_width = w, hf_height = h, hf_unit = meters,
                           hf_values = vals @ pad \<rparr>)
           else Inr \<lparr> hf_width = w, hf_height = h, hf_unit = meters, hf_values = vals \<rparr>)"

definition normalizeGeology :: "jsvalue \<Rightarrow> state_error + GeologyState" where
  "normalizeGeology v =
     (let defaults = createDefaultGeologyState in
      if \<not> isRecord v then Inr defaults
      else
        let platesRaw = (case getProp v ''plates'' of Arr xs \<Rightarrow> Some xs | _ \<Rightarrow> None);
            ps = map_option (List.map_filter normalizeTectonicPlate) platesRaw
        in case normalizeHeightField (getProp v ''heightField'') of
             Inl e \<Rightarrow> Inl e
           | Inr hf \<Rightarrow> Inr \<lparr>
               plates = (case ps of Some l \<Rightarrow> l | None \<Rightarrow> plates defaults),
               heightField = hf,
               volcanismIndex =
                 clamp01 (ensureNumber (getProp v ''volcanismIndex'') (volcanismIndex defaults)) \<rparr>)"

definition normalizeCoordinates :: "jsvalue \<Rightarrow> Coordinates" where
  "normalizeCoordinates v =
     (if \<not> isRecord v then \<lparr> latitude = Finite 0, longitude = Finite 0 \<rparr>
      else \<lparr> latitude = clampLatitude (ensureNumber (getProp v ''latitude'') (Finite 0)),
             longitude =
               clampLongitude (ensureNumber (getProp v ''longitude'') (Finite 0)) \<rparr>)"

definition normalizeRiverSystem :: "jsvalue \<Rightarrow> RiverSystemState option" where
  "normalizeRiverSystem v =
     (if \<not> isRecord v then None
      else let i = ensureString (getProp v ''id'') '''' in
        if length i = 0 then None
        else Some \<lparr>
          river_id = i,
          river_name = ensureString (getProp v ''name'') i,
          lengthKm = ensureNumber (getProp v ''lengthKm'') (Finite 0),
          river_source = normalizeCoordinates (getProp v ''source''),
          river_mouth = normalizeCoordinates (getProp v ''mouth'') \<rparr>)"

definition normalizeRiverNetwork :: "jsvalue \<Rightarrow> RiverNetworkState" where
  "normalizeRiverNetwork v =
     (let defaults = createDefaultRiverNetworkState in
      if \<not> isRecord v then defaults
      else
        let systemsRaw = (case getProp v ''systems'' of Arr xs \<Rightarrow> Some xs | _ \<Rightarrow> None);
            ss = map_option (List.map_filter normalizeRiverSystem) systemsRaw
        in \<lparr> rivers_seed = (case getProp v ''seed'' of
                               Num r \<Rightarrow> if isFinite r then Some r else rivers_seed defaults
                             | _ \<Rightarrow> rivers_seed defaults),
             systems = (case ss of Some l \<Rightarrow> l | None \<Rightarrow> systems defaults) \<rparr>)"

definition normalizeIceCaps :: "jsvalue \<Rightarrow> IceCapsState" where
  "normalizeIceCaps v =
     (let defaults = createDefaultIceCapsState in
      if \<not> isRecord v then defaults
      else \<lparr>
        northCoverageFraction =
          clamp01 (ensureNumber (getProp v ''northCoverageFraction'')
                     (northCoverageFraction defaults)),
        southCoverageFraction =
          clamp01 (ensureNumber (getProp v ''southCoverageFraction'')
                     (southCoverageFraction defaults)) \<rparr>)"

definition normalizeHydrology :: "jsvalue \<Rightarrow> HydrologyState" where
  "normalizeHydrology v =
     (let defaults = createDefaultHydrologyState in
      if \<not> isRecord v then defaults
      else \<lparr>
        oceanCoverage =
          clamp01 (ensureNumber (getProp v ''oceanCoverage'') (oceanCoverage defaults)),
        rivers = normalizeRiverNetwork (getProp v ''rivers''),
        iceCaps = normalizeIceCaps (getProp v ''iceCaps'') \<rparr>)"

definition normalizeBiomeCell :: "jsvalue \<Rightarrow> BiomeCellState option" where
  "normalizeBiomeCell v =
     (if \<not> isRecord v then None
      else let b = ensureString (getProp v ''biome'') '''' in
        if length b = 0 then None
        else Some \<lparr> biome = b,
                    biodiversity =
                      clamp01 (ensureNumber (getProp v ''biodiversity'') (Finite 0)) \<rparr>)"

definition normalizeBiomeMap :: "jsvalue \<Rightarrow> state_error + BiomeMapState" where
  "normalizeBiomeMap v =
     (let defaults = createDefaultBiomeMapState in
      if \<not> isRecord v then Inr defaults
      else
        let w = ensurePositiveInteger (getProp v ''width'') (bm_width defaults) 1;
            h = ensurePositiveInteger (getProp v ''height'') (bm_height defaults) 1;
            expectedLength = w * h;
            rawCells = (case getProp v ''cells'' of Arr xs \<Rightarrow> xs | _ \<Rightarrow> []);
            cs = take (nat expectedLength) (List.map_filter normalizeBiomeCell rawCells)
        in if int (length cs) < expectedLength
           then (case padBiomeCells (expectedLength - int (length cs)) of
                   Inl e \<Rightarrow> Inl e
                 | Inr pad \<Rightarrow> Inr \<lparr> bm_width = w, bm_height = h, cells = cs @ pad \<rparr>)
           else Inr \<lparr> bm_width = w, bm_height = h, cells = cs \<rparr>)"

definition normalizeBiosphere :: "jsvalue \<Rightarrow> state_error + BiosphereState" where
  "normalizeBiosphere v =
     (let defaults = createDefaultBiosphereState in
      if \<not> isRecord v then Inr defaults
      else case normalizeBiomeMap (getProp v ''biomeMap'') of
             Inl e \<Rightarrow> Inl e
           | Inr bm \<Rightarrow> Inr \<lparr>
               biomeMap = bm,
               biodiversityIndex =
                 clamp01 (ensureNumber (getProp v ''biodiversityIndex'')
                            (biodiversityIndex defaults)) \<rparr>)"

definition normalizePopulationCenter :: "jsvalue \<Rightarrow> PopulationCenterState option" where
  "normalizePopulationCenter v =
     (if \<not> isRecord v then None
      else let i = ensureString (getProp v ''id'') '''' in
        if length i = 0 then None
        else Some \<lparr>
          pop_id = i,
          pop_name = ensureString (getProp v ''name'') i,
          population = Math_max (Finite 0) (ensureNumber (getProp v ''population'') (Finite 0)),
          pop_kind = (if getProp v ''kind'' = Str ''settlement'' then settlement
                      else if getProp v ''kind'' = Str ''city'' then city
                      else outpost),
          coordinates = normalizeCoordinates (getProp v ''coordinates'') \<rparr>)"

definition normalizeCivilization :: "jsvalue \<Rightarrow> CivilizationState" where
  "normalizeCivilization v =
     (let defaults = createDefaultCivilizationState in
      if \<not> isRecord v then defaults
      else
        let populationsRaw =
              (case getProp v ''populations'' of Arr xs \<Rightarrow> Some xs | _ \<Rightarrow> None);
            ps = map_option (List.map_filter normalizePopulationCenter) populationsRaw;
            tl = getProp v ''techLevel'';
            normalizedTechLevel =
              (if tl = Str ''tribal'' then tribal
               else if tl = Str ''agrarian'' then agrarian
               else if tl = Str ''industrial'' then industrial
               else if tl = Str ''digital'' then digital
               else if tl = Str ''spacefaring'' then spacefaring
               else none)
        in \<lparr> populations = (case ps of Some l \<Rightarrow> l | None \<Rightarrow> populations defaults),
             techLevel = normalizedTechLevel,
             pollutionIndex =
               clamp01 (ensureNumber (getProp v ''pollutionIndex'') (pollutionIndex defaults)) \<rparr>)"

definition normalizeClimate :: "jsvalue \<Rightarrow> ClimateState" where
  "normalizeClimate v =
     (let defaults = createDefaultClimateState in
      if \<not> isRecord v then defaults
      else \<lparr>
        axialTiltDegrees =
          Math_min
            (Math_max
               (ensureNumber (getProp v ''axialTiltDegrees'') (axialTiltDegrees defaults))
               (Finite 0))
            (Finite 90),
        albedo = clamp01 (ensureNumber (getProp v ''albedo'') (albedo defaults)),
        greenhouseMultiplier =
          Math_max (Finite 0)
            (ensureNumber (getProp v ''greenhouseMultiplier'') (greenhouseMultiplier defaults)),
        currentTime =
          Math_max (Finite 0)
            (ensureNumber (getProp v ''currentTime'') (currentTime defaults)),
        yearLength =
          Math_max (Finite 1)
            (ensureNumber (getProp v ''yearLength'') (yearLength defaults)) \<rparr>)"

text \<open>The fields of the object literal are evaluated in order, so an error of the geology
  section is raised before the biosphere section is looked at.\<close>

definition normalizePlanetStateV1 :: "jsvalue \<Rightarrow> state_error + PlanetState" where
  "normalizePlanetStateV1 v =
     (case normalizeGeology (getProp v ''geology'') of
        Inl e \<Rightarrow> Inl e
      | Inr geo \<Rightarrow>
          (case normalizeBiosphere (getProp v ''biosphere'') of
             Inl e \<Rightarrow> Inl e
           | Inr bio \<Rightarrow> Inr \<lparr>
               version = PLANET_STATE_VERSION,
               atmosphere = normalizeAtmosphere (getProp v ''atmosphere''),
               geology = geo,
               hydrology = normalizeHydrology (getProp v ''hydrology''),
               biosphere = bio,
               civilization = normalizeCivilization (getProp v ''civilization''),
               climate = normalizeClimate (getProp v ''climate'') \<rparr>))"

definition PLANET_STATE_NORMALIZERS ::
    "int \<Rightarrow> (jsvalue \<Rightarrow> state_error + PlanetState) option" where
  "PLANET_STATE_NORMALIZERS = Map.empty(PLANET_STATE_VERSION \<mapsto> normalizePlanetStateV1)"

definition migratePlanetState :: "jsvalue \<Rightarrow> state_error + PlanetState" where
  "migratePlanetState v =
     (if \<not> isRecord v then Inr createDefaultPlanetState
      else
        let ver = ensurePositiveInteger (getProp v ''version'') PLANET_STATE_VERSION 1 in
        case PLANET_STATE_NORMALIZERS ver of
          None \<Rightarrow> Inl (UnsupportedPlanetStateVersion ver)
        | Some normalizer \<Rightarrow> normalizer v)"

section \<open>Planet state: serialisation\<close>

text \<open>A typed state handed to \<^verbatim>\<open>JSON.stringify\<close>, or to a function taking \<^verbatim>\<open>unknown\<close>, is the
  object with the properties of its type, in the order of the type's declaration.\<close>

definition numJS :: "real \<Rightarrow> jsvalue" where
  "numJS r = Num (Finite r)"

definition gasJS :: "AtmosphericGasComposition \<Rightarrow> jsvalue" where
  "gasJS g = Obj [(''gas'', Str (gas g)), (''percentage'', Num (percentage g))]"

definition atmosphereJS :: "AtmosphereState \<Rightarrow> jsvalue" where
  "atmosphereJS a = Obj [
     (''gases'', Arr (map gasJS (gases a))),
     (''surfacePressureKPa'', Num (surfacePressureKPa a)),
     (''greenhouseCoefficient'', Num (greenhouseCoefficient a))]"

definition plateJS :: "TectonicPlateState \<Rightarrow> jsvalue" where
  "plateJS p = Obj [
     (''id'', Str (plate_id p)),
     (''name'', Str (plate_name p)),
     (''type'', Str (case plate_type p of continental \<Rightarrow> ''continental''
                                         | oceanic \<Rightarrow> ''oceanic'')),
     (''areaFraction'', Num (areaFraction p)),
     (''driftRateCmPerYear'', Num (driftRateCmPerYear p))]"

definition heightFieldJS :: "HeightFieldState \<Rightarrow> jsvalue" where
  "heightFieldJS hf = Obj [
     (''width'', numJS (of_int (hf_width hf))),
     (''height'', numJS (of_int (hf_height hf))),
     (''unit'', Str ''meters''),
     (''values'', Arr (map Num (hf_values hf)))]"

definition geologyJS :: "GeologyState \<Rightarrow> jsvalue" where
  "geologyJS g = Obj [
     (''plates'', Arr (map plateJS (plates g))),
     (''heightField'', heightFieldJS (heightField g)),
     (''volcanismIndex'', Num (volcanismIndex g))]"

definition coordinatesJS :: "Coordinates \<Rightarrow> jsvalue" where
  "coordinatesJS c = Obj [
     (''latitude'', Num (latitude c)), (''longitude'', Num (longitude c))]"

definition riverSystemJS :: "RiverSystemState \<Rightarrow> jsvalue" where
  "riverSystemJS r = Obj [
     (''id'', Str (river_id r)),
     (''name'', Str (river_name r)),
     (''lengthKm'', Num (lengthKm r)),
     (''source'', coordinatesJS (river_source r)),
     (''mouth'', coordinatesJS (river_mouth r))]"

definition riverNetworkJS :: "RiverNetworkState \<Rightarrow> jsvalue" where
  "riverNetworkJS n = Obj [
     (''seed'', (case rivers_seed n of None \<Rightarrow> Null | Some r \<Rightarrow> Num r)),
     (''systems'', Arr (map riverSystemJS (systems n)))]"

definition iceCapsJS :: "IceCapsState \<Rightarrow> jsvalue" where
  "iceCapsJS i = Obj [
     (''northCoverageFraction'', Num (northCoverageFraction i)),
     (''southCoverageFraction'', Num (southCoverageFraction i))]"

definition hydrologyJS :: "HydrologyState \<Rightarrow> jsvalue" where
  "hydrologyJS h = Obj [
     (''oceanCoverage'', Num (oceanCoverage h)),
     (''rivers'', riverNetworkJS (rivers h)),
     (''iceCaps'', iceCapsJS (iceCaps h))]"

definition biomeCellJS :: "BiomeCellState \<Rightarrow> jsvalue" where
  "biomeCellJS c = Obj [
     (''biome'', Str (biome c)), (''biodiversity'', Num (biodiversity c))]"

definition biomeMapJS :: "BiomeMapState \<Rightarrow> jsvalue" where
  "biomeMapJS m = Obj [
     (''width'', numJS (of_int (bm_width m))),
     (''height'', numJS (of_int (bm_height m))),
     (''cells'', Arr (map biomeCellJS (cells m)))]"

definition biosphereJS :: "BiosphereState \<Rightarrow> jsvalue" where
  "biosphereJS b = Obj [
     (''biomeMap'', biomeMapJS (biomeMap b)),
     (''biodiversityIndex'', Num (biodiversityIndex b))]"

definition populationCenterJS :: "PopulationCenterState \<Rightarrow> jsvalue" where
  "populationCenterJS p = Obj [
     (''id'', Str (pop_id p)),
     (''name'', Str (pop_name p)),
     (''population'', Num (population p)),
     (''kind'', Str (case pop_kind p of outpost \<Rightarrow> ''outpost''
                                       | settlement \<Rightarrow> ''settlement''
                                       | city \<Rightarrow> ''city'')),
     (''coordinates'', coordinatesJS (coordinates p))]"

definition techLevelJS :: "CivilizationTechLevel \<Rightarrow> jsvalue" where
  "techLevelJS t = Str (case t of
       none \<Rightarrow> ''none'' | tribal \<Rightarrow> ''tribal'' | agrarian \<Rightarrow> ''agrarian''
     | industrial \<Rightarrow> ''industrial'' | digital \<Rightarrow> ''digital''
     | spacefaring \<Rightarrow> ''spacefaring'')"

definition civilizationJS :: "CivilizationState \<Rightarrow> jsvalue" where
  "civilizationJS c = Obj [
     (''populations'', Arr (map populationCenterJS (populations c))),
     (''techLevel'', techLevelJS (techLevel c)),
     (''pollutionIndex'', Num (pollutionIndex c))]"

definition climateJS :: "ClimateState \<Rightarrow> jsvalue" where
  "climateJS c = Obj [
     (''axialTiltDegrees'', Num (axialTiltDegrees c)),
     (''albedo'', Num (albedo c)),
     (''greenhouseMultiplier'', Num (greenhouseMultiplier c)),
     (''currentTime'', Num (currentTime c)),
     (''yearLength'', Num (yearLength c))]"

definition planetStateJS :: "PlanetState \<Rightarrow> jsvalue" where
  "planetStateJS s = Obj [
     (''version'', numJS (of_int (version s))),
     (''atmosphere'', atmosphereJS (atmosphere s)),
     (''geology'', geologyJS (geology s)),
     (''hydrology'', hydrologyJS (hydrology s)),
     (''biosphere'', biosphereJS (biosphere s)),
     (''civilization'', civilizationJS (civilization s)),
     (''climate'', climateJS (climate s))]"

definition serializePlanetState :: "platform \<Rightarrow> PlanetState \<Rightarrow> string" where
  "serializePlanetState E state = JSON_stringify E (planetStateJS state)"

definition deserializePlanetState :: "platform \<Rightarrow> jsvalue \<Rightarrow> state_error + PlanetState" where
  "deserializePlanetState E payload =
     (case payload of
        Str text \<Rightarrow>
          (case JSON_parse E text of
             None \<Rightarrow> Inl JsonSyntaxError
           | Some parsed \<Rightarrow> migratePlanetState parsed)
      | _ \<Rightarrow> migratePlanetState payload)"

section \<open>Save slots: data model (saveSlots.ts)\<close>

definition PLANET_SAVE_FORMAT_VERSION :: int where "PLANET_SAVE_FORMAT_VERSION = 1"
definition SAVE_SLOT_COUNT :: int where "SAVE_SLOT_COUNT = 3"
definition SAVE_SLOT_KEY_PREFIX :: string where "SAVE_SLOT_KEY_PREFIX = ''planet-save-slot-''"
definition MAX_LABEL_LENGTH :: nat where "MAX_LABEL_LENGTH = 64"

definition ISO_EPOCH :: "platform \<Rightarrow> string" where
  "ISO_EPOCH E = toISOString E 0"

text \<open>The message of an error is kept as a term: the text of the source with its
  interpolated values as arguments.\<close>

datatype message =
    MetadataMissingOrInvalid
  | SlotInvalid
  | SlotMissing
  | SlotMismatch number number
  | PlanetStateVersionMissing
  | PlanetStateVersionInvalid
  | PlanetStateVersionNewer int int
  | PlanetStateDataMissing
  | PlanetStateFailure state_error
  | NotValidJSON
  | MustBeAnObject
  | FormatVersionMissing
  | FormatVersionInvalid
  | FormatVersionUnsupported jsvalue
  | SlotIsEmpty int

text \<open>The four error classes of the module, the two \<^verbatim>\<open>RangeError\<close>s its functions can
  raise (an invalid slot index, and \<^verbatim>\<open>toISOString\<close> on an invalid date), and the error of a
  write that the host's storage refuses.\<close>

datatype save_error =
    PlanetSaveSlotEmptyError message
  | PlanetSaveCorruptedError message
  | PlanetSaveUnsupportedVersionError message
  | PlanetSaveIncompatibleError message
  | InvalidSlotIndex number
  | InvalidTimeValue
  | QuotaExceededError

fun error_message :: "save_error \<Rightarrow> message option" where
  "error_message (PlanetSaveSlotEmptyError m) = Some m"
| "error_message (PlanetSaveCorruptedError m) = Some m"
| "error_message (PlanetSaveUnsupportedVersionError m) = Some m"
| "error_message (PlanetSaveIncompatibleError m) = Some m"
| "error_message _ = None"

record PlanetSaveMetadata =
  slot :: number
  label :: string
  createdAt :: string
  updatedAt :: string

record PlanetSave =
  formatVersion :: int
  metadata :: PlanetSaveMetadata
  planetStateVersion :: int
  planetState :: PlanetState

record AvailableSummary =
  av_slot :: int
  av_label :: string
  av_metadata :: PlanetSaveMetadata
  av_planetStateVersion :: int

datatype PlanetSaveSlotSummary =
    empty int string
  | available AvailableSummary
  | corrupted int string message
  | incompatible int string message

datatype slot_status = status_empty | status_available | status_corrupted | status_incompatible

fun status :: "PlanetSaveSlotSummary \<Rightarrow> slot_status" where
  "status (empty s l) = status_empty"
| "status (available a) = status_available"
| "status (corrupted s l r) = status_corrupted"
| "status (incompatible s l r) = status_incompatible"

fun isPlanetSaveSlotAvailable :: "PlanetSaveSlotSummary \<Rightarrow> bool" where
  "isPlanetSaveSlotAvailable (available a) = True"
| "isPlanetSaveSlotAvailable _ = False"

text \<open>A \<^verbatim>\<open>Date\<close> object holds a time value or is invalid.\<close>

datatype JSDate = ValidDate int | InvalidDate

record SavePlanetStateOptions =
  opt_label :: "string option"
  opt_timestamp :: "JSDate option"

text \<open>
  \<^verbatim>\<open>resolveStorage\<close> (\<^verbatim>\<open>utils/storage.ts\<close>) returns the host's \<^verbatim>\<open>localStorage\<close> or, on a
  host without one, \<^verbatim>\<open>noopStorage\<close>, whose \<^verbatim>\<open>getItem\<close> returns \<^verbatim>\<open>null\<close> for every key and
  whose \<^verbatim>\<open>setItem\<close> and \<^verbatim>\<open>removeItem\<close> do nothing. A \<^verbatim>\<open>localStorage\<close> is a map from keys to
  texts; it keeps a text that it accepts, and raises on a write that it refuses. The storage
  that \<^verbatim>\<open>resolveStorage\<close> returns is passed to the functions of the module, and returned by
  those that write. Where reading \<^verbatim>\<open>globalThis.localStorage\<close> raises, \<^verbatim>\<open>resolveStorage\<close>
  raises and the function that called it ends there: the functions below start from the
  storage that was returned.
\<close>

datatype Storage = LocalStorage "string \<Rightarrow> string option" | NoopStorage

fun getItem :: "Storage \<Rightarrow> string \<Rightarrow> string option" where
  "getItem (LocalStorage items) key = items key"
| "getItem NoopStorage key = None"

fun setItem :: "platform \<Rightarrow> Storage \<Rightarrow> string \<Rightarrow> string \<Rightarrow> save_error + Storage" where
  "setItem E (LocalStorage items) key v =
     (if Storage_accepts E items key v then Inr (LocalStorage (items(key \<mapsto> v)))
      else Inl QuotaExceededError)"
| "setItem E NoopStorage key v = Inr NoopStorage"

fun removeItem :: "Storage \<Rightarrow> string \<Rightarrow> Storage" where
  "removeItem (LocalStorage items) key = LocalStorage (items(key := None))"
| "removeItem NoopStorage key = NoopStorage"

section \<open>Save slots: helpers\<close>

text \<open>\<^verbatim>\<open>saveSlots.ts\<close> has helpers of its own under the names of those of
  \<^verbatim>\<open>planetState.ts\<close>; they carry the prefix \<open>save_\<close> here.\<close>

fun save_ensureString :: "jsvalue \<Rightarrow> string \<Rightarrow> string" where
  "save_ensureString (Str s) fallback = (if length (trim s) > 0 then trim s else fallback)"
| "save_ensureString _ fallback = fallback"

text \<open>A result above 0 is an integer that is not a zero: it is kept as an integer.\<close>

fun save_ensurePositiveInteger :: "jsvalue \<Rightarrow> int option" where
  "save_ensurePositiveInteger (Num n) =
     (if \<not> isFinite n then None
      else let rounded = \<lfloor>numval n\<rfloor> in if rounded > 0 then Some rounded else None)"
| "save_ensurePositiveInteger _ = None"

text \<open>A slot index is a number: the floor of the negative zero is the negative zero, which
  is neither below 0 nor at least \<open>SAVE_SLOT_COUNT\<close>.\<close>

fun ensureSlotIndex :: "jsvalue \<Rightarrow> number option" where
  "ensureSlotIndex (Num n) =
     (if \<not> isFinite n then None
      else let rounded = Math_floor n in
        if numval rounded < 0 \<or> numval rounded \<ge> of_int SAVE_SLOT_COUNT then None
        else Some rounded)"
| "ensureSlotIndex _ = None"

definition ensureISODate :: "platform \<Rightarrow> jsvalue \<Rightarrow> string \<Rightarrow> string" where
  "ensureISODate E v fallback =
     (case v of
        Str s \<Rightarrow> (case Date_parse E s of Some parsed \<Rightarrow> toISOString E parsed | None \<Rightarrow> fallback)
      | _ \<Rightarrow> fallback)"

definition sanitizeLabel :: "jsvalue \<Rightarrow> string \<Rightarrow> string" where
  "sanitizeLabel v fallback =
     (let l = save_ensureString v fallback in
      if length l > MAX_LABEL_LENGTH then take MAX_LABEL_LENGTH l else l)"

text \<open>The decimal digits of an integer, as a template literal prints it.\<close>

fun digitsOf :: "nat \<Rightarrow> string" where
  "digitsOf n =
     (if n < 10 then [''0123456789'' ! n]
      else digitsOf (n div 10) @ [''0123456789'' ! (n mod 10)])"

definition intToString :: "int \<Rightarrow> string" where
  "intToString i = (if i < 0 then CHR ''-'' # digitsOf (nat (- i)) else digitsOf (nat i))"

definition defaultSlotLabel :: "int \<Rightarrow> string" where
  "defaultSlotLabel s = ''Slot '' @ intToString (s + 1)"

definition getSlotKey :: "int \<Rightarrow> string" where
  "getSlotKey s = SAVE_SLOT_KEY_PREFIX @ intToString s"

text \<open>\<^verbatim>\<open>Number.isInteger\<close>; the negative zero is an integer.\<close>

definition isInteger :: "number \<Rightarrow> bool" where
  "isInteger n = (isFinite n \<and> of_int \<lfloor>numval n\<rfloor> = numval n)"

definition assertValidSlotIndex :: "number \<Rightarrow> save_error + unit" where
  "assertValidSlotIndex s =
     (if \<not> isInteger s \<or> numval s < 0 \<or> numval s \<ge> of_int SAVE_SLOT_COUNT
      then Inl (InvalidSlotIndex s)
      else Inr ())"

text \<open>A slot index that \<open>ensureSlotIndex\<close> returned or \<open>assertValidSlotIndex\<close> accepted is an
  integer from 0 to 2, the zero of either sign. \<^verbatim>\<open>slot + 1\<close> and the template literals of
  the key and the label read the integer it denotes, which a negative zero prints as
  \<^verbatim>\<open>0\<close>.\<close>

definition integerOf :: "number \<Rightarrow> int" where
  "integerOf n = \<lfloor>numval n\<rfloor>"

text \<open>\<^verbatim>\<open>a < b\<close> on the results of \<^verbatim>\<open>Date.parse\<close>: false as soon as one side is \<^verbatim>\<open>NaN\<close>.\<close>

fun timeLess :: "int option \<Rightarrow> int option \<Rightarrow> bool" where
  "timeLess (Some a) (Some b) = (a < b)"
| "timeLess _ _ = False"

section \<open>Save slots: parsing and storage\<close>

definition normalizePlanetSaveV1 ::
    "platform \<Rightarrow> jsvalue \<Rightarrow> number option \<Rightarrow> save_error + PlanetSave" where
  "normalizePlanetSaveV1 E payload expectedSlot =
     (let metadataRaw = getProp payload ''metadata'' in
      if \<not> isRecord metadataRaw then Inl (PlanetSaveCorruptedError MetadataMissingOrInvalid)
      else case ensureSlotIndex (getProp metadataRaw ''slot'') of
        None \<Rightarrow>
          (if expectedSlot \<noteq> None then Inl (PlanetSaveCorruptedError SlotInvalid)
           else Inl (PlanetSaveCorruptedError SlotMissing))
      | Some slotFromPayload \<Rightarrow>
          if expectedSlot \<noteq> None \<and> \<not> strictEquals slotFromPayload (the expectedSlot)
          then Inl (PlanetSaveCorruptedError (SlotMismatch slotFromPayload (the expectedSlot)))
          else
            let fallbackLabel = defaultSlotLabel (integerOf slotFromPayload);
                created = ensureISODate E (getProp metadataRaw ''createdAt'') (ISO_EPOCH E);
                updatedCandidate = ensureISODate E (getProp metadataRaw ''updatedAt'') created;
                createdTimestamp = Date_parse E created;
                updatedTimestamp = Date_parse E updatedCandidate;
                md = \<lparr>
                  slot = slotFromPayload,
                  label = sanitizeLabel (getProp metadataRaw ''label'') fallbackLabel,
                  createdAt = created,
                  updatedAt =
                    (case updatedTimestamp of
                       None \<Rightarrow> created
                     | Some u \<Rightarrow>
                         if timeLess updatedTimestamp createdTimestamp then created
                         else toISOString E u) \<rparr>
            in if \<not> hasProp ''planetStateVersion'' payload
               then Inl (PlanetSaveCorruptedError PlanetStateVersionMissing)
               else case save_ensurePositiveInteger (getProp payload ''planetStateVersion'') of
                 None \<Rightarrow> Inl (PlanetSaveCorruptedError PlanetStateVersionInvalid)
               | Some planetStateVersionRaw \<Rightarrow>
                   if planetStateVersionRaw > PLANET_STATE_VERSION
                   then Inl (PlanetSaveIncompatibleError
                               (PlanetStateVersionNewer planetStateVersionRaw PLANET_STATE_VERSION))
                   else if \<not> hasProp ''planetState'' payload
                   then Inl (PlanetSaveCorruptedError PlanetStateDataMissing)
                   else case deserializePlanetState E (getProp payload ''planetState'') of
                     Inl e \<Rightarrow> Inl (PlanetSaveIncompatibleError (PlanetStateFailure e))
                   | Inr ps \<Rightarrow> Inr \<lparr>
                       formatVersion = PLANET_SAVE_FORMAT_VERSION,
                       metadata = md,
                       planetStateVersion = version ps,
                       planetState = ps \<rparr>)"

definition PLANET_SAVE_NORMALIZERS ::
    "int \<Rightarrow> (platform \<Rightarrow> jsvalue \<Rightarrow> number option \<Rightarrow> save_error + PlanetSave) option" where
  "PLANET_SAVE_NORMALIZERS = Map.empty(PLANET_SAVE_FORMAT_VERSION \<mapsto> normalizePlanetSaveV1)"

definition parseSavePayload ::
    "platform \<Rightarrow> jsvalue \<Rightarrow> number option \<Rightarrow> save_error + PlanetSave" where
  "parseSavePayload E payload expectedSlot =
     (case (case payload of
              Str text \<Rightarrow>
                (case JSON_parse E text of
                   None \<Rightarrow> Inl (PlanetSaveCorruptedError NotValidJSON)
                 | Some parsed \<Rightarrow> Inr parsed)
            | _ \<Rightarrow> Inr payload) of
        Inl e \<Rightarrow> Inl e
      | Inr raw \<Rightarrow>
          if \<not> isRecord raw then Inl (PlanetSaveCorruptedError MustBeAnObject)
          else
            let versionValue = getProp raw ''version'' in
            if \<not> hasProp ''version'' raw then Inl (PlanetSaveCorruptedError FormatVersionMissing)
            else case save_ensurePositiveInteger versionValue of
              None \<Rightarrow> Inl (PlanetSaveCorruptedError FormatVersionInvalid)
            | Some ver \<Rightarrow>
                (case PLANET_SAVE_NORMALIZERS ver of
                   None \<Rightarrow>
                     Inl (PlanetSaveUnsupportedVersionError (FormatVersionUnsupported versionValue))
                 | Some normalizer \<Rightarrow> normalizer E raw expectedSlot))"

definition readSaveFromStorage ::
    "platform \<Rightarrow> Storage \<Rightarrow> number \<Rightarrow> save_error + PlanetSave" where
  "readSaveFromStorage E storage s =
     (case getItem storage (getSlotKey (integerOf s)) of
        None \<Rightarrow> Inl (PlanetSaveSlotEmptyError (SlotIsEmpty (integerOf s + 1)))
      | Some raw \<Rightarrow> parseSavePayload E (Str raw) (Some s))"

text \<open>The four error classes are caught; any other error is raised again.\<close>

definition tryReadSaveFromStorage ::
    "platform \<Rightarrow> Storage \<Rightarrow> number \<Rightarrow> save_error + PlanetSave option" where
  "tryReadSaveFromStorage E storage s =
     (case readSaveFromStorage E storage s of
        Inr save \<Rightarrow> Inr (Some save)
      | Inl (PlanetSaveSlotEmptyError m) \<Rightarrow> Inr None
      | Inl (PlanetSaveCorruptedError m) \<Rightarrow> Inr None
      | Inl (PlanetSaveUnsupportedVersionError m) \<Rightarrow> Inr None
      | Inl (PlanetSaveIncompatibleError m) \<Rightarrow> Inr None
      | Inl e \<Rightarrow> Inl e)"

definition metadataJS :: "PlanetSaveMetadata \<Rightarrow> jsvalue" where
  "metadataJS m = Obj [
     (''slot'', Num (slot m)),
     (''label'', Str (label m)),
     (''createdAt'', Str (createdAt m)),
     (''updatedAt'', Str (updatedAt m))]"

definition buildSerializedSavePayload :: "PlanetState \<Rightarrow> PlanetSaveMetadata \<Rightarrow> jsvalue" where
  "buildSerializedSavePayload ps md = Obj [
     (''version'', numJS (of_int PLANET_SAVE_FORMAT_VERSION)),
     (''metadata'', metadataJS md),
     (''planetStateVersion'', numJS (of_int (version ps))),
     (''planetState'', planetStateJS ps)]"

definition serializePlanetSave :: "platform \<Rightarrow> PlanetState \<Rightarrow> PlanetSaveMetadata \<Rightarrow> string" where
  "serializePlanetSave E ps md = JSON_stringify E (buildSerializedSavePayload ps md)"

definition deserializePlanetSave ::
    "platform \<Rightarrow> jsvalue \<Rightarrow> number option \<Rightarrow> save_error + PlanetSave" where
  "deserializePlanetSave E payload expectedSlot = parseSavePayload E payload expectedSlot"

fun dateToISOString :: "platform \<Rightarrow> JSDate \<Rightarrow> save_error + string" where
  "dateToISOString E (ValidDate t) = Inr (toISOString E t)"
| "dateToISOString E InvalidDate = Inl InvalidTimeValue"

text \<open>The function returns the record and the storage after the write; an error of
  \<^verbatim>\<open>setItem\<close> is not caught.\<close>

definition savePlanetStateToSlot ::
    "platform \<Rightarrow> Storage \<Rightarrow> number \<Rightarrow> PlanetState \<Rightarrow> SavePlanetStateOptions option
       \<Rightarrow> save_error + (PlanetSave \<times> Storage)" where
  "savePlanetStateToSlot E storage s ps options =
     (case assertValidSlotIndex s of
        Inl e \<Rightarrow> Inl e
      | Inr _ \<Rightarrow>
          (case tryReadSaveFromStorage E storage s of
             Inl e \<Rightarrow> Inl e
           | Inr existing \<Rightarrow>
               (case dateToISOString E
                       (case Option.bind options opt_timestamp of
                          Some d \<Rightarrow> d
                        | None \<Rightarrow> ValidDate (Date_now E)) of
                  Inl e \<Rightarrow> Inl e
                | Inr timestamp \<Rightarrow>
                    let md = \<lparr>
                          slot = s,
                          label = sanitizeLabel
                            (Str (case Option.bind options opt_label of
                                    Some l \<Rightarrow> l
                                  | None \<Rightarrow>
                                      (case existing of
                                         Some x \<Rightarrow> label (metadata x)
                                       | None \<Rightarrow> defaultSlotLabel (integerOf s))))
                            (defaultSlotLabel (integerOf s)),
                          createdAt = (case existing of
                                         Some x \<Rightarrow> createdAt (metadata x)
                                       | None \<Rightarrow> timestamp),
                          updatedAt = timestamp \<rparr>;
                        serialized = buildSerializedSavePayload ps md
                    in (case setItem E storage (getSlotKey (integerOf s))
                                (JSON_stringify E serialized) of
                          Inl e \<Rightarrow> Inl e
                        | Inr storage' \<Rightarrow>
                            Inr (\<lparr> formatVersion = PLANET_SAVE_FORMAT_VERSION,
                                   metadata = md,
                                   planetStateVersion = version ps,
                                   planetState = ps \<rparr>,
                                 storage')))))"


definition clearPlanetSaveSlot :: "Storage \<Rightarrow> number \<Rightarrow> save_error + Storage" where
  "clearPlanetSaveSlot storage s =
     (case assertValidSlotIndex s of
        Inl e \<Rightarrow> Inl e
      | Inr _ \<Rightarrow> Inr (removeItem storage (getSlotKey (integerOf s))))"

section \<open>Save slots: listing\<close>

text \<open>The body of the loop of \<^verbatim>\<open>listPlanetSaveSlots\<close> for one slot: the summary pushed,
  or the error raised again by the last \<^verbatim>\<open>else\<close> of the handler. The loop variable is an
  integer from 0 to 2.\<close>

definition listPlanetSaveSlots_body ::
    "platform \<Rightarrow> Storage \<Rightarrow> int \<Rightarrow> save_error + PlanetSaveSlotSummary" where
  "listPlanetSaveSlots_body E storage s =
     (let l = defaultSlotLabel s in
      case getItem storage (getSlotKey s) of
        None \<Rightarrow> Inr (empty s l)
      | Some raw \<Rightarrow>
          (case parseSavePayload E (Str raw) (Some (Finite (of_int s))) of
             Inr save \<Rightarrow> Inr (available \<lparr>
               av_slot = s,
               av_label = label (metadata save),
               av_metadata = metadata save,
               av_planetStateVersion = planetStateVersion save \<rparr>)
           | Inl (PlanetSaveUnsupportedVersionError m) \<Rightarrow> Inr (incompatible s l m)
           | Inl (PlanetSaveIncompatibleError m) \<Rightarrow> Inr (incompatible s l m)
           | Inl (PlanetSaveCorruptedError m) \<Rightarrow> Inr (corrupted s l m)
           | Inl e \<Rightarrow> Inl e))"

function listPlanetSaveSlots_loop ::
    "platform \<Rightarrow> Storage \<Rightarrow> int \<Rightarrow> PlanetSaveSlotSummary list
       \<Rightarrow> save_error + PlanetSaveSlotSummary list" where
  "listPlanetSaveSlots_loop E storage s summaries =
     (if s < SAVE_SLOT_COUNT
      then (case listPlanetSaveSlots_body E storage s of
              Inl e \<Rightarrow> Inl e
            | Inr summary \<Rightarrow> listPlanetSaveSlots_loop E storage (s + 1) (summaries @ [summary]))
      else Inr summaries)"
  by pat_completeness auto
termination
  by (relation "measure (\<lambda>(E, storage, s, summaries). nat (SAVE_SLOT_COUNT - s))") auto

definition listPlanetSaveSlots ::
    "platform \<Rightarrow> Storage \<Rightarrow> save_error + PlanetSaveSlotSummary list" where
  "listPlanetSaveSlots E storage = listPlanetSaveSlots_loop E storage 0 []"

fun findMostRecentValidSaveSlot_loop ::
    "platform \<Rightarrow> PlanetSaveSlotSummary list \<Rightarrow> AvailableSummary option
       \<Rightarrow> AvailableSummary option" where
  "findMostRecentValidSaveSlot_loop E [] latest = latest"
| "findMostRecentValidSaveSlot_loop E (summary # rest) latest =
     (case summary of
        available a \<Rightarrow>
          (case latest of
             None \<Rightarrow> findMostRecentValidSaveSlot_loop E rest (Some a)
           | Some l \<Rightarrow>
               let latestTimestamp = Date_parse E (updatedAt (av_metadata l));
                   candidateTimestamp = Date_parse E (updatedAt (av_metadata a))
               in if candidateTimestamp = None
                  then findMostRecentValidSaveSlot_loop E rest latest
                  else if latestTimestamp = None \<or> timeLess latestTimestamp candidateTimestamp
                  then findMostRecentValidSaveSlot_loop E rest (Some a)
                  else findMostRecentValidSaveSlot_loop E rest latest)
      | _ \<Rightarrow> findMostRecentValidSaveSlot_loop E rest latest)"

definition findMostRecentValidSaveSlot ::
    "platform \<Rightarrow> Storage \<Rightarrow> save_error + AvailableSummary option" where
  "findMostRecentValidSaveSlot E storage =
     (case listPlanetSaveSlots E storage of
        Inl e \<Rightarrow> Inl e
      | Inr summaries \<Rightarrow> Inr (findMostRecentValidSaveSlot_loop E summaries None))"

section \<open>The most recent save, in the spec's words\<close>

text \<open>The parsed \<open>updatedAt\<close> of a summary, \<open>None\<close> when it does not parse; in the order on
  \<open>int option\<close> an unparsable timestamp is below every parsed one.\<close>

definition updatedTime :: "platform \<Rightarrow> AvailableSummary \<Rightarrow> int option" where
  "updatedTime E a = Date_parse E (updatedAt (av_metadata a))"

text \<open>The spec's \<^emph>\<open>filters the list to Available\<close>.\<close>

definition availableSummaries :: "PlanetSaveSlotSummary list \<Rightarrow> AvailableSummary list" where
  "availableSummaries xs =
     List.map_filter (\<lambda>s. case s of available a \<Rightarrow> Some a | _ \<Rightarrow> None) xs"

text \<open>The spec's \<^emph>\<open>selects the maximum by parsed timestamp, ties favouring the first\<close>: the
  first summary that no summary of the list exceeds; \<open>None\<close> for the empty list.\<close>

definition mostRecentOf :: "platform \<Rightarrow> AvailableSummary list \<Rightarrow> AvailableSummary option" where
  "mostRecentOf E as =
     find (\<lambda>a. list_all (\<lambda>b. updatedTime E b \<le> updatedTime E a) as) as"

section \<open>Noise (noise.ts)\<close>

text \<open>
  The module keeps one table \<^verbatim>\<open>P = new Uint8Array(512)\<close>; it is passed to the functions
  and returned by \<open>initializePermutation\<close>. An entry of a \<^verbatim>\<open>Uint8Array\<close> is a natural number
  below 256; a read outside the array gives \<^verbatim>\<open>undefined\<close>, which a write stores as 0, and
  a write outside the array does nothing. A seed is an integer. Arithmetic is that of the
  reals: the doubles of the source round, the model does not.
\<close>

definition P_initial :: "nat list" where
  "P_initial = replicate 512 0"

definition jsRemainder :: "int \<Rightarrow> int \<Rightarrow> int" where
  "jsRemainder a b = (if a < 0 then - ((- a) mod b) else a mod b)"

definition readUint8 :: "nat list \<Rightarrow> int \<Rightarrow> nat" where
  "readUint8 arr j = (if 0 \<le> j \<and> nat j < length arr then arr ! nat j else 0)"

definition writeUint8 :: "nat list \<Rightarrow> int \<Rightarrow> nat \<Rightarrow> nat list" where
  "writeUint8 arr j x = (if 0 \<le> j then arr[nat j := x mod 256] else arr)"

text \<open>The shuffle, for \<open>i\<close> from 255 down to 1.\<close>

fun shuffle :: "nat \<Rightarrow> int \<Rightarrow> nat list \<Rightarrow> nat list" where
  "shuffle 0 state permutation = permutation"
| "shuffle (Suc k) state permutation =
     (let i = int (Suc k);
          state' = jsRemainder (state * 9301 + 49297) 233280;
          j = \<lfloor>(real_of_int state' / 233280) * real_of_int (i + 1)\<rfloor>;
          temp = readUint8 permutation i;
          permutation1 = writeUint8 permutation i (readUint8 permutation j);
          permutation2 = writeUint8 permutation1 j temp
      in shuffle k state' permutation2)"

definition initializePermutation :: "int \<Rightarrow> nat list \<Rightarrow> nat list" where
  "initializePermutation sd P =
     (let permutation0 = foldl (\<lambda>p i. writeUint8 p (int i) i) (replicate 256 0) [0..<256];
          permutation = shuffle 255 sd permutation0
      in foldl (\<lambda>P' i. writeUint8 (writeUint8 P' (int i) (readUint8 permutation (int i)))
                          (int i + 256) (readUint8 permutation (int i)))
           P [0..<256])"

definition fade :: "real \<Rightarrow> real" where
  "fade t = t * t * t * (t * (t * 6 - 15) + 10)"

definition lerp :: "real \<Rightarrow> real \<Rightarrow> real \<Rightarrow> real" where
  "lerp t a b = a + t * (b - a)"

definition grad :: "nat \<Rightarrow> real \<Rightarrow> real \<Rightarrow> real \<Rightarrow> real \<Rightarrow> real" where
  "grad hash x y z w =
     (let h = and hash 15;
          u = (if h < 8 then x else y);
          v = (if h < 4 then y else if h = 12 \<or> h = 14 then x else z);
          w' = (if h < 4 then z else if h = 12 \<or> h = 14 then y else w)
      in (if and h 1 = 0 then u else - u) + (if and h 2 = 0 then v else - v)
         + (if and h 4 = 0 then w' else - w'))"

text \<open>\<^verbatim>\<open>Math.floor(x) & 255\<close> is the floor modulo 256. A lookup \<^verbatim>\<open>P[k]\<close> is \<open>P ! k\<close>: with
  512 entries below 256 every index of \<open>perlin4D\<close> is below 512.\<close>

definition perlin4D :: "nat list \<Rightarrow> real \<Rightarrow> real \<Rightarrow> real \<Rightarrow> real \<Rightarrow> real" where
  "perlin4D P x y z w =
     (let xi = nat (\<lfloor>x\<rfloor> mod 256);
          yi = nat (\<lfloor>y\<rfloor> mod 256);
          zi = nat (\<lfloor>z\<rfloor> mod 256);
          wi = nat (\<lfloor>w\<rfloor> mod 256);
          xf = x - of_int \<lfloor>x\<rfloor>;
          yf = y - of_int \<lfloor>y\<rfloor>;
          zf = z - of_int \<lfloor>z\<rfloor>;
          wf = w - of_int \<lfloor>w\<rfloor>;
          u = fade xf;
          v = fade yf;
          t = fade zf;
          s = fade wf;
          p0 = P ! xi;
          p1 = P ! (xi + 1);
          p00 = P ! (p0 + yi);
          p01 = P ! (p0 + yi + 1);
          p10 = P ! (p1 + yi);
          p11 = P ! (p1 + yi + 1);
          p000 = P ! (p00 + zi);
          p001 = P ! (p00 + zi + 1);
          p010 = P ! (p01 + zi);
          p011 = P ! (p01 + zi + 1);
          p100 = P ! (p10 + zi);
          p101 = P ! (p10 + zi + 1);
          p110 = P ! (p11 + zi);
          p111 = P ! (p11 + zi + 1);
          g0000 = grad (P ! (p000 + wi)) xf yf zf wf;
          g0001 = grad (P ! (p000 + wi + 1)) xf yf zf (wf - 1);
          g0010 = grad (P ! (p001 + wi)) xf yf (zf - 1) wf;
          g0011 = grad (P ! (p001 + wi + 1)) xf yf (zf - 1) (wf - 1);
          g0100 = grad (P ! (p010 + wi)) xf (yf - 1) zf wf;
          g0101 = grad (P ! (p010 + wi + 1)) xf (yf - 1) zf (wf - 1);
          g0110 = grad (P ! (p011 + wi)) xf (yf - 1) (zf - 1) wf;
          g0111 = grad (P ! (p011 + wi + 1)) xf (yf - 1) (zf - 1) (wf - 1);
          g1000 = grad (P ! (p100 + wi)) (xf - 1) yf zf wf;
          g1001 = grad (P ! (p100 + wi + 1)) (xf - 1) yf zf (wf - 1);
          g1010 = grad (P ! (p101 + wi)) (xf - 1) yf (zf - 1) wf;
          g1011 = grad (P ! (p101 + wi + 1)) (xf - 1) yf (zf - 1) (wf - 1);
          g1100 = grad (P ! (p110 + wi)) (xf - 1) (yf - 1) zf wf;
          g1101 = grad (P ! (p110 + wi + 1)) (xf - 1) (yf - 1) zf (wf - 1);
          g1110 = grad (P ! (p111 + wi)) (xf - 1) (yf - 1) (zf - 1) wf;
          g1111 = grad (P ! (p111 + wi + 1)) (xf - 1) (yf - 1) (zf - 1) (wf - 1);
          l0000 = lerp s g0000 g0001;
          l0001 = lerp s g0010 g0011;
          l0010 = lerp s g0100 g0101;
          l0011 = lerp s g0110 g0111;
          l0100 = lerp s g1000 g1001;
          l0101 = lerp s g1010 g1011;
          l0110 = lerp s g1100 g1101;
          l0111 = lerp s g1110 g1111;
          l000 = lerp t l0000 l0001;
          l001 = lerp t l0010 l0011;
          l010 = lerp t l0100 l0101;
          l011 = lerp t l0110 l0111;
          l00 = lerp v l000 l001;
          l01 = lerp v l010 l011
      in lerp u l00 l01)"

definition initNoise :: "int \<Rightarrow> nat list \<Rightarrow> nat list" where
  "initNoise sd P = initializePermutation sd P"

text \<open>The loop of \<open>fbmNoise\<close> returns \<open>value\<close> and \<open>maxValue\<close>; the number of octaves is an
  integer.\<close>

function fbmNoise_loop ::
    "nat list \<Rightarrow> real \<Rightarrow> real \<Rightarrow> real \<Rightarrow> real \<Rightarrow> int \<Rightarrow> real \<Rightarrow> real
       \<Rightarrow> int \<Rightarrow> real \<Rightarrow> real \<Rightarrow> real \<Rightarrow> real \<Rightarrow> real \<times> real" where
  "fbmNoise_loop P x y z w octaves persistence lacunarity i val amplitude frequency maxValue =
     (if i < octaves
      then fbmNoise_loop P x y z w octaves persistence lacunarity (i + 1)
             (val + perlin4D P (x * frequency) (y * frequency) (z * frequency) (w * frequency)
                      * amplitude)
             (amplitude * persistence)
             (frequency * lacunarity)
             (maxValue + amplitude)
      else (val, maxValue))"
  by pat_completeness auto
termination
  by (relation "measure (\<lambda>(P, x, y, z, w, octaves, persistence, lacunarity, i, r).
                           nat (octaves - i))") auto

text \<open>\<^verbatim>\<open>a / b\<close> on finite numbers: a division by zero gives \<^verbatim>\<open>NaN\<close> or an infinity. The
  arithmetic of this module being that of the reals, the sign of a zero is not tracked in
  it: \<open>Finite 0\<close> stands for a zero of either sign here.\<close>

definition jsDivide :: "real \<Rightarrow> real \<Rightarrow> number" where
  "jsDivide a b =
     (if b = 0 then (if a = 0 then NaN else if a > 0 then PosInfinity else NegInfinity)
      else Finite (a / b))"

definition fbmNoise ::
    "nat list \<Rightarrow> real \<Rightarrow> real \<Rightarrow> real \<Rightarrow> real \<Rightarrow> int \<Rightarrow> real \<Rightarrow> real \<Rightarrow> number" where
  "fbmNoise P x y z w octaves persistence lacunarity =
     (case fbmNoise_loop P x y z w octaves persistence lacunarity 0 0 1 1 0 of
        (val, maxValue) \<Rightarrow> jsDivide val maxValue)"

section \<open>The shuffle as a list of swaps\<close>

text \<open>
  For a seed state that is not negative the shuffle is a sequence of swaps of two entries.
  \<open>shuffleSwaps n state\<close> lists them in the order of the loop, and \<open>sourceIndex\<close> follows an
  index back through them: the entry at index \<open>m\<close> after the swaps is the entry that was at
  \<open>sourceIndex swaps m\<close> before.
\<close>

definition swapEntries :: "nat list \<Rightarrow> nat \<times> nat \<Rightarrow> nat list" where
  "swapEntries p s = (case s of (i, j) \<Rightarrow> p[i := p ! j, j := p ! i])"

fun shuffleSwaps :: "nat \<Rightarrow> int \<Rightarrow> (nat \<times> nat) list" where
  "shuffleSwaps 0 state = []"
| "shuffleSwaps (Suc k) state =
     (let state' = (state * 9301 + 49297) mod 233280
      in (Suc k, nat (state' * (int k + 2) div 233280)) # shuffleSwaps k state')"

fun sourceIndex :: "(nat \<times> nat) list \<Rightarrow> nat \<Rightarrow> nat" where
  "sourceIndex [] m = m"
| "sourceIndex ((i, j) # swaps) m =
     (let x = sourceIndex swaps m in if x = i then j else if x = j then i else x)"

section \<open>Canonical states\<close>

text \<open>
  What the spec calls a structurally valid state, section by section: identifiers and names
  that are not blank, finite numbers, the bounded ones within their ranges, a non-empty gas
  list, and grids whose arrays have \<open>width * height\<close> entries.
\<close>

definition nonBlank :: "string \<Rightarrow> bool" where
  "nonBlank s = (length (trim s) > 0)"

text \<open>A finite number between two bounds; a finite number that is at least a bound and is
  not the negative zero, which is what \<^verbatim>\<open>Math.max\<close> with that bound returns.\<close>

definition inRange :: "real \<Rightarrow> real \<Rightarrow> number \<Rightarrow> bool" where
  "inRange lo hi n = (isFinite n \<and> lo \<le> numval n \<and> numval n \<le> hi)"

definition atLeastNumber :: "real \<Rightarrow> number \<Rightarrow> bool" where
  "atLeastNumber lo n = (isFinite n \<and> lo \<le> numval n \<and> n \<noteq> NegZero)"

definition validGas :: "AtmosphericGasComposition \<Rightarrow> bool" where
  "validGas g = (nonBlank (gas g) \<and> inRange 0 100 (percentage g))"

definition validAtmosphere :: "AtmosphereState \<Rightarrow> bool" where
  "validAtmosphere a =
     (gases a \<noteq> [] \<and> list_all validGas (gases a) \<and>
      isFinite (surfacePressureKPa a) \<and> isFinite (greenhouseCoefficient a))"

definition validPlate :: "TectonicPlateState \<Rightarrow> bool" where
  "validPlate p =
     (nonBlank (plate_id p) \<and> nonBlank (plate_name p) \<and>
      inRange 0 1 (areaFraction p) \<and> isFinite (driftRateCmPerYear p))"

definition validHeightField :: "HeightFieldState \<Rightarrow> bool" where
  "validHeightField hf =
     (1 \<le> hf_width hf \<and> 1 \<le> hf_height hf \<and>
      int (length (hf_values hf)) = hf_width hf * hf_height hf \<and>
      list_all isFinite (hf_values hf))"

definition validGeology :: "GeologyState \<Rightarrow> bool" where
  "validGeology g =
     (list_all validPlate (plates g) \<and> validHeightField (heightField g) \<and>
      inRange 0 1 (volcanismIndex g))"

definition validCoordinates :: "Coordinates \<Rightarrow> bool" where
  "validCoordinates c =
     (inRange (- 90) 90 (latitude c) \<and> inRange (- 180) 180 (longitude c))"

definition validRiverSystem :: "RiverSystemState \<Rightarrow> bool" where
  "validRiverSystem r =
     (nonBlank (river_id r) \<and> nonBlank (river_name r) \<and> isFinite (lengthKm r) \<and>
      validCoordinates (river_source r) \<and> validCoordinates (river_mouth r))"

definition validRiverNetwork :: "RiverNetworkState \<Rightarrow> bool" where
  "validRiverNetwork n =
     ((case rivers_seed n of None \<Rightarrow> True | Some r \<Rightarrow> isFinite r) \<and>
      list_all validRiverSystem (systems n))"

definition validIceCaps :: "IceCapsState \<Rightarrow> bool" where
  "validIceCaps i =
     (inRange 0 1 (northCoverageFraction i) \<and> inRange 0 1 (southCoverageFraction i))"

definition validHydrology :: "HydrologyState \<Rightarrow> bool" where
  "validHydrology h =
     (inRange 0 1 (oceanCoverage h) \<and>
      validRiverNetwork (rivers h) \<and> validIceCaps (iceCaps h))"

definition validBiomeCell :: "BiomeCellState \<Rightarrow> bool" where
  "validBiomeCell c = (nonBlank (biome c) \<and> inRange 0 1 (biodiversity c))"

definition validBiomeMap :: "BiomeMapState \<Rightarrow> bool" where
  "validBiomeMap m =
     (1 \<le> bm_width m \<and> 1 \<le> bm_height m \<and>
      int (length (cells m)) = bm_width m * bm_height m \<and>
      list_all validBiomeCell (cells m))"

definition validBiosphere :: "BiosphereState \<Rightarrow> bool" where
  "validBiosphere b =
     (validBiomeMap (biomeMap b) \<and> inRange 0 1 (biodiversityIndex b))"

definition validPopulationCenter :: "PopulationCenterState \<Rightarrow> bool" where
  "validPopulationCenter p =
     (nonBlank (pop_id p) \<and> nonBlank (pop_name p) \<and> atLeastNumber 0 (population p) \<and>
      validCoordinates (coordinates p))"

definition validCivilization :: "CivilizationState \<Rightarrow> bool" where
  "validCivilization c =
     (list_all validPopulationCenter (populations c) \<and> inRange 0 1 (pollutionIndex c))"

definition validClimate :: "ClimateState \<Rightarrow> bool" where
  "validClimate c =
     (atLeastNumber 0 (axialTiltDegrees c) \<and> numval (axialTiltDegrees c) \<le> 90 \<and>
      inRange 0 1 (albedo c) \<and>
      atLeastNumber 0 (greenhouseMultiplier c) \<and> atLeastNumber 0 (currentTime c) \<and>
      atLeastNumber 1 (yearLength c))"

definition validPlanetState :: "PlanetState \<Rightarrow> bool" where
  "validPlanetState s =
     (version s = PLANET_STATE_VERSION \<and>
      validAtmosphere (atmosphere s) \<and> validGeology (geology s) \<and>
      validHydrology (hydrology s) \<and> validBiosphere (biosphere s) \<and>
      validCivilization (civilization s) \<and> validClimate (climate s))"

section \<open>A state without its negative zeros\<close>

text \<open>
  The state with every negative zero among its numbers replaced by the positive zero: what
  JSON text can carry of a state whose numbers are finite.
\<close>

definition gasPositiveZeros :: "AtmosphericGasComposition \<Rightarrow> AtmosphericGasComposition" where
  "gasPositiveZeros g = g \<lparr> percentage := positiveZero (percentage g) \<rparr>"

definition atmospherePositiveZeros :: "AtmosphereState \<Rightarrow> AtmosphereState" where
  "atmospherePositiveZeros a = \<lparr>
     gases = map gasPositiveZeros (gases a),
     surfacePressureKPa = positiveZero (surfacePressureKPa a),
     greenhouseCoefficient = positiveZero (greenhouseCoefficient a) \<rparr>"

definition platePositiveZeros :: "TectonicPlateState \<Rightarrow> TectonicPlateState" where
  "platePositiveZeros p = p \<lparr>
     areaFraction := positiveZero (areaFraction p),
     driftRateCmPerYear := positiveZero (driftRateCmPerYear p) \<rparr>"

definition heightFieldPositiveZeros :: "HeightFieldState \<Rightarrow> HeightFieldState" where
  "heightFieldPositiveZeros hf = hf \<lparr> hf_values := map positiveZero (hf_values hf) \<rparr>"

definition geologyPositiveZeros :: "GeologyState \<Rightarrow> GeologyState" where
  "geologyPositiveZeros g = \<lparr>
     plates = map platePositiveZeros (plates g),
     heightField = heightFieldPositiveZeros (heightField g),
     volcanismIndex = positiveZero (volcanismIndex g) \<rparr>"

definition coordinatesPositiveZeros :: "Coordinates \<Rightarrow> Coordinates" where
  "coordinatesPositiveZeros c =
     \<lparr> latitude = positiveZero (latitude c), longitude = positiveZero (longitude c) \<rparr>"

definition riverSystemPositiveZeros :: "RiverSystemState \<Rightarrow> RiverSystemState" where
  "riverSystemPositiveZeros r = r \<lparr>
     lengthKm := positiveZero (lengthKm r),
     river_source := coordinatesPositiveZeros (river_source r),
     river_mouth := coordinatesPositiveZeros (river_mouth r) \<rparr>"

definition riverNetworkPositiveZeros :: "RiverNetworkState \<Rightarrow> RiverNetworkState" where
  "riverNetworkPositiveZeros n = \<lparr>
     rivers_seed = map_option positiveZero (rivers_seed n),
     systems = map riverSystemPositiveZeros (systems n) \<rparr>"

definition iceCapsPositiveZeros :: "IceCapsState \<Rightarrow> IceCapsState" where
  "iceCapsPositiveZeros i = \<lparr>
     northCoverageFraction = positiveZero (northCoverageFraction i),
     southCoverageFraction = positiveZero (southCoverageFraction i) \<rparr>"

definition hydrologyPositiveZeros :: "HydrologyState \<Rightarrow> HydrologyState" where
  "hydrologyPositiveZeros h = \<lparr>
     oceanCoverage = positiveZero (oceanCoverage h),
     rivers = riverNetworkPositiveZeros (rivers h),
     iceCaps = iceCapsPositiveZeros (iceCaps h) \<rparr>"

definition biomeCellPositiveZeros :: "BiomeCellState \<Rightarrow> BiomeCellState" where
  "biomeCellPositiveZeros c = c \<lparr> biodiversity := positiveZero (biodiversity c) \<rparr>"

definition biomeMapPositiveZeros :: "BiomeMapState \<Rightarrow> BiomeMapState" where
  "biomeMapPositiveZeros m = m \<lparr> cells := map biomeCellPositiveZeros (cells m) \<rparr>"

definition biospherePositiveZeros :: "BiosphereState \<Rightarrow> BiosphereState" where
  "biospherePositiveZeros b = \<lparr>
     biomeMap = biomeMapPositiveZeros (biomeMap b),
     biodiversityIndex = positiveZero (biodiversityIndex b) \<rparr>"

definition populationCenterPositiveZeros ::
    "PopulationCenterState \<Rightarrow> PopulationCenterState" where
  "populationCenterPositiveZeros p = p \<lparr>
     population := positiveZero (population p),
     coordinates := coordinatesPositiveZeros (coordinates p) \<rparr>"

definition civilizationPositiveZeros :: "CivilizationState \<Rightarrow> CivilizationState" where
  "civilizationPositiveZeros c = c \<lparr>
     populations := map populationCenterPositiveZeros (populations c),
     pollutionIndex := positiveZero (pollutionIndex c) \<rparr>"

definition climatePositiveZeros :: "ClimateState \<Rightarrow> ClimateState" where
  "climatePositiveZeros c = \<lparr>
     axialTiltDegrees = positiveZero (axialTiltDegrees c),
     albedo = positiveZero (albedo c),
     greenhouseMultiplier = positiveZero (greenhouseMultiplier c),
     currentTime = positiveZero (currentTime c),
     yearLength = positiveZero (yearLength c) \<rparr>"

definition planetStatePositiveZeros :: "PlanetState \<Rightarrow> PlanetState" where
  "planetStatePositiveZeros s = s \<lparr>
     atmosphere := atmospherePositiveZeros (atmosphere s),
     geology := geologyPositiveZeros (geology s),
     hydrology := hydrologyPositiveZeros (hydrology s),
     biosphere := biospherePositiveZeros (biosphere s),
     civilization := civilizationPositiveZeros (civilization s),
     climate := climatePositiveZeros (climate s) \<rparr>"

text \<open>The spec's grid rule, in its words: an array is truncated to the expected length or
  padded at its tail up to it.\<close>

definition fitToLength :: "nat \<Rightarrow> 'a \<Rightarrow> 'a list \<Rightarrow> 'a list" where
  "fitToLength n pad xs = take n xs @ replicate (n - length xs) pad"

text \<open>\<^verbatim>\<open>Array.isArray(v) ? v : []\<close>.\<close>

definition arrayEntries :: "jsvalue \<Rightarrow> jsvalue list" where
  "arrayEntries v = (case v of Arr xs \<Rightarrow> xs | _ \<Rightarrow> [])"

section \<open>A table platform\<close>

text \<open>
  A platform given by finite excerpts of the host functions: the texts of a table parse to
  the values beside them and every other text is rejected, a value prints as the first text
  of the table that parses to its JSON image, and likewise for dates and time values. Its
  storage accepts every write.
\<close>

definition tablePlatform ::
    "(string \<times> jsvalue) list \<Rightarrow> (string \<times> int) list \<Rightarrow> int \<Rightarrow> platform" where
  "tablePlatform json dates now = \<lparr>
     JSON_parse = map_of json,
     JSON_stringify =
       (\<lambda>v. case find (\<lambda>e. snd e = jsonImage v) json of Some e \<Rightarrow> fst e | None \<Rightarrow> []),
     Date_parse = map_of dates,
     toISOString = (\<lambda>t. case find (\<lambda>e. snd e = t) dates of Some e \<Rightarrow> fst e | None \<Rightarrow> []),
     Date_now = now,
     Storage_accepts = (\<lambda>items key text. True) \<rparr>"

text \<open>Three instants, with the ISO strings the host prints for them.\<close>

definition dateTable :: "(string \<times> int) list" where
  "dateTable = [
     (''1970-01-01T00:00:00.000Z'', 0),
     (''2024-01-01T10:00:00.000Z'', 1704103200000),
     (''2024-01-02T09:00:00.000Z'', 1704186000000)]"

section \<open>Example inputs\<close>

text \<open>An untrusted planet state: a 2 by 1 height field with three values of which one is
  not a number, a biome map without dimensions and with an empty cell array, and an albedo
  out of range.\<close>

definition examplePayload :: jsvalue where
  "examplePayload = Obj [
     (''version'', numJS 1),
     (''geology'', Obj [
        (''heightField'', Obj [
           (''width'', numJS 2),
           (''height'', numJS 1),
           (''values'', Arr [numJS 7, Str ''x'', numJS 9])])]),
     (''biosphere'', Obj [(''biomeMap'', Obj [(''cells'', Arr [])])]),
     (''climate'', Obj [(''albedo'', numJS 5)])]"

definition exampleState :: PlanetState where
  "exampleState = \<lparr>
     version = 1,
     atmosphere = createDefaultAtmosphereState,
     geology = \<lparr>
       plates = [],
       heightField = \<lparr> hf_width = 2, hf_height = 1, hf_unit = meters,
                       hf_values = [Finite 7, Finite 0] \<rparr>,
       volcanismIndex = Finite 0 \<rparr>,
     hydrology = createDefaultHydrologyState,
     biosphere =
       \<lparr> biomeMap = createDefaultBiomeMapState, biodiversityIndex = Finite (1 / 10) \<rparr>,
     civilization = createDefaultCivilizationState,
     climate = \<lparr>
       axialTiltDegrees = Finite (235 / 10),
       albedo = Finite 1,
       greenhouseMultiplier = Finite 1,
       currentTime = Finite 0,
       yearLength = Finite 365 \<rparr> \<rparr>"

text \<open>A planet state whose height field asks for \<open>65536 * 65536 = 2^32\<close> values.\<close>

definition hugeGridPayload :: jsvalue where
  "hugeGridPayload = Obj [
     (''version'', numJS 1),
     (''geology'', Obj [
        (''heightField'', Obj [(''width'', numJS 65536), (''height'', numJS 65536)])])]"

text \<open>A typed state that is not canonical: the default state with an albedo of 5.\<close>

definition brightState :: PlanetState where
  "brightState = createDefaultPlanetState
     \<lparr> climate := createDefaultClimateState \<lparr> albedo := Finite 5 \<rparr> \<rparr>"


text \<open>
  A planet state with a negative zero: the object that the JSON text
  \<^verbatim>\<open>{"version":1,"hydrology":{"oceanCoverage":-0}}\<close> parses to, the state that normalisation
  makes of it, and that state with the positive zero.
\<close>

definition negativeZeroText :: string where
  \<open>negativeZeroText = ''{"version":1,"hydrology":{"oceanCoverage":-0}}''\<close>

definition negativeZeroPayload :: jsvalue where
  "negativeZeroPayload = Obj [
     (''version'', numJS 1),
     (''hydrology'', Obj [(''oceanCoverage'', Num NegZero)])]"

definition negativeZeroState :: PlanetState where
  "negativeZeroState = createDefaultPlanetState
     \<lparr> hydrology := createDefaultHydrologyState \<lparr> oceanCoverage := NegZero \<rparr> \<rparr>"

definition positiveZeroState :: PlanetState where
  "positiveZeroState = createDefaultPlanetState
     \<lparr> hydrology := createDefaultHydrologyState \<lparr> oceanCoverage := Finite 0 \<rparr> \<rparr>"

text \<open>A host that reads that text, and prints the state with the negative zero as a text
  that reads back with the positive zero.\<close>

definition negativeZeroPlatform :: platform where
  "negativeZeroPlatform = tablePlatform
     [(negativeZeroText, negativeZeroPayload),
      (''JSON.stringify(negativeZeroState)'', planetStateJS positiveZeroState)]
     dateTable 1704186000000"

text \<open>The input class of the claim on non-object input: anything but an object, a string
  counting by what it parses to.\<close>

fun notPlainObject :: "platform \<Rightarrow> jsvalue \<Rightarrow> bool" where
  "notPlainObject E (Obj fs) = False"
| "notPlainObject E (Str text) =
     (case JSON_parse E text of Some parsed \<Rightarrow> \<not> isRecord parsed | None \<Rightarrow> False)"
| "notPlainObject E _ = True"

text \<open>The metadata of a first save into slot 1 on 2024-01-02 at 09:00 UTC.\<close>

definition slot2Metadata :: PlanetSaveMetadata where
  "slot2Metadata = \<lparr>
     slot = Finite 1,
     label = ''Slot 2'',
     createdAt = ''2024-01-02T09:00:00.000Z'',
     updatedAt = ''2024-01-02T09:00:00.000Z'' \<rparr>"

text \<open>The JSON texts of the examples. The text of a large value is abbreviated by a name:
  only the pairing of a text with the value it parses to matters.\<close>

definition jsonTable :: "(string \<times> jsvalue) list" where
  "jsonTable = [
     (''null'', Null),
     (''[1,2]'', Arr [numJS 1, numJS 2]),
     (''JSON.stringify(exampleState)'', planetStateJS exampleState),
     (''JSON.stringify(save of exampleState in slot 1)'',
        buildSerializedSavePayload exampleState slot2Metadata)]"

definition examplePlatform :: platform where
  "examplePlatform = tablePlatform jsonTable dateTable 1704186000000"

text \<open>The same save of the state that is not canonical, on a host of its own.\<close>

definition brightPlatform :: platform where
  "brightPlatform = tablePlatform
     [(''JSON.stringify(save of brightState in slot 1)'',
         buildSerializedSavePayload brightState slot2Metadata)]
     dateTable 1704186000000"



text \<open>The listing scenario: slot 0 holds a text that is not JSON, slot 1 a record of the
  supported format updated on 2024-01-02 at 09:00 UTC, slot 2 nothing.\<close>

definition slot1RecordText :: string where
  \<open>slot1RecordText = ''{"version":1,"metadata":{"slot":1,"updatedAt":"2024-01-02T09:00:00.000Z"},"planetStateVersion":1,"planetState":null}''\<close>

definition slot1Record :: jsvalue where
  "slot1Record = Obj [
     (''version'', numJS 1),
     (''metadata'', Obj [
        (''slot'', numJS 1),
        (''updatedAt'', Str ''2024-01-02T09:00:00.000Z'')]),
     (''planetStateVersion'', numJS 1),
     (''planetState'', Null)]"

definition listingPlatform :: platform where
  "listingPlatform = tablePlatform [(slot1RecordText, slot1Record)] dateTable 1704186000000"

definition listingStorage :: Storage where
  "listingStorage = LocalStorage (Map.empty(
     ''planet-save-slot-0'' \<mapsto> ''not-json'',
     ''planet-save-slot-1'' \<mapsto> slot1RecordText))"

definition slot1Summary :: AvailableSummary where
  "slot1Summary = \<lparr>
     av_slot = 1,
     av_label = ''Slot 2'',
     av_metadata = \<lparr>
       slot = Finite 1,
       label = ''Slot 2'',
       createdAt = ''1970-01-01T00:00:00.000Z'',
       updatedAt = ''2024-01-02T09:00:00.000Z'' \<rparr>,
     av_planetStateVersion = 1 \<rparr>"

text \<open>Two saves into slot 0 with explicit timestamps, the second one earlier than the
  first: 2024-01-02 at 09:00 UTC, then 2024-01-01 at 10:00 UTC.\<close>

definition firstSaveOptions :: SavePlanetStateOptions where
  "firstSaveOptions = \<lparr> opt_label = None, opt_timestamp = Some (ValidDate 1704186000000) \<rparr>"

definition secondSaveOptions :: SavePlanetStateOptions where
  "secondSaveOptions = \<lparr> opt_label = None, opt_timestamp = Some (ValidDate 1704103200000) \<rparr>"

definition firstSaveMetadata :: PlanetSaveMetadata where
  "firstSaveMetadata = \<lparr>
     slot = Finite 0,
     label = ''Slot 1'',
     createdAt = ''2024-01-02T09:00:00.000Z'',
     updatedAt = ''2024-01-02T09:00:00.000Z'' \<rparr>"

definition secondSaveMetadata :: PlanetSaveMetadata where
  "secondSaveMetadata = \<lparr>
     slot = Finite 0,
     label = ''Slot 1'',
     createdAt = ''2024-01-02T09:00:00.000Z'',
     updatedAt = ''2024-01-01T10:00:00.000Z'' \<rparr>"

definition resavePlatform :: platform where
  "resavePlatform = tablePlatform
     [(''JSON.stringify(first save of slot 0)'',
         buildSerializedSavePayload createDefaultPlanetState firstSaveMetadata),
      (''JSON.stringify(second save of slot 0)'',
         buildSerializedSavePayload createDefaultPlanetState secondSaveMetadata)]
     dateTable 1704186000000"

definition firstStorage :: Storage where
  "firstStorage = LocalStorage
     (Map.empty(''planet-save-slot-0'' \<mapsto> ''JSON.stringify(first save of slot 0)''))"

definition secondStorage :: Storage where
  "secondStorage = LocalStorage
     (Map.empty(''planet-save-slot-0'' \<mapsto> ''JSON.stringify(second save of slot 0)''))"

text \<open>A save record whose planet state is the JSON text of \<^verbatim>\<open>null\<close>.\<close>

definition nullStateRecord :: jsvalue where
  "nullStateRecord = Obj [
     (''version'', numJS 1),
     (''metadata'', Obj [(''slot'', numJS 1)]),
     (''planetStateVersion'', numJS 1),
     (''planetState'', Str ''null'')]"

text \<open>The swaps of the shuffle for the seed 43.\<close>

definition swaps43 :: "(nat \<times> nat) list" where
  "swaps43 =
     [(255, 236), (254, 166), (253, 191), (252, 249), (251, 128), (250, 196), (249, 31),
     (248, 228), (247, 125), (246, 188), (245, 72), (244, 82), (243, 76), (242, 14), (241,
     167), (240, 47), (239, 150), (238, 236), (237, 197), (236, 97), (235, 153), (234, 146),
     (233, 195), (232, 18), (231, 0), (230, 72), (229, 162), (228, 85), (227, 59), (226,
     213), (225, 36), (224, 21), (223, 44), (222, 174), (221, 51), (220, 198), (219, 142),
     (218, 19), (217, 100), (216, 39), (215, 18), (214, 63), (213, 169), (212, 134), (211,
     174), (210, 190), (209, 30), (208, 95), (207, 192), (206, 10), (205, 127), (204, 57),
     (203, 154), (202, 146), (201, 77), (200, 137), (199, 37), (198, 129), (197, 48), (196,
     83), (195, 98), (194, 168), (193, 165), (192, 67), (191, 182), (190, 170), (189, 115),
     (188, 174), (187, 180), (186, 130), (185, 36), (184, 86), (183, 7), (182, 35), (181,
     151), (180, 7), (179, 58), (178, 84), (177, 22), (176, 1), (175, 141), (174, 124), (173,
     115), (172, 42), (171, 35), (170, 121), (169, 36), (168, 5), (167, 93), (166, 20), (165,
     101), (164, 102), (163, 64), (162, 56), (161, 52), (160, 70), (159, 107), (158, 12),
     (157, 106), (156, 155), (155, 46), (154, 79), (153, 110), (152, 63), (151, 58), (150,
     42), (149, 124), (148, 103), (147, 14), (146, 141), (145, 126), (144, 82), (143, 33),
     (142, 45), (141, 18), (140, 8), (139, 63), (138, 25), (137, 117), (136, 96), (135, 20),
     (134, 4), (133, 63), (132, 60), (131, 2), (130, 24), (129, 64), (128, 28), (127, 33),
     (126, 90), (125, 7), (124, 14), (123, 62), (122, 117), (121, 18), (120, 35), (119, 38),
     (118, 95), (117, 58), (116, 66), (115, 55), (114, 61), (113, 14), (112, 67), (111, 91),
     (110, 44), (109, 63), (108, 83), (107, 87), (106, 88), (105, 84), (104, 81), (103, 80),
     (102, 33), (101, 71), (100, 83), (99, 76), (98, 2), (97, 39), (96, 51), (95, 14), (94,
     87), (93, 5), (92, 45), (91, 73), (90, 67), (89, 42), (88, 40), (87, 0), (86, 43), (85,
     26), (84, 22), (83, 0), (82, 62), (81, 77), (80, 32), (79, 19), (78, 35), (77, 6), (76,
     12), (75, 15), (74, 37), (73, 69), (72, 45), (71, 3), (70, 0), (69, 9), (68, 10), (67,
     51), (66, 8), (65, 14), (64, 39), (63, 2), (62, 43), (61, 61), (60, 17), (59, 56), (58,
     18), (57, 16), (56, 24), (55, 0), (54, 23), (53, 29), (52, 24), (51, 8), (50, 36), (49,
     5), (48, 44), (47, 17), (46, 17), (45, 2), (44, 39), (43, 29), (42, 1), (41, 30), (40,
     16), (39, 10), (38, 10), (37, 37), (36, 5), (35, 34), (34, 29), (33, 4), (32, 6), (31,
     12), (30, 18), (29, 12), (28, 1), (27, 27), (26, 0), (25, 6), (24, 17), (23, 9), (22,
     8), (21, 3), (20, 0), (19, 17), (18, 15), (17, 5), (16, 2), (15, 0), (14, 8), (13, 8),
     (12, 2), (11, 4), (10, 7), (9, 8), (8, 0), (7, 6), (6, 2), (5, 0), (4, 1), (3, 3), (2,
     2), (1, 1)]"

lemma padArray_default: "padArray (DEFAULT_HEIGHT_FIELD_WIDTH * DEFAULT_HEIGHT_FIELD_HEIGHT) = Inr (replicate 2048 (Finite 0))"
  by (simp add: padArray_def arrayFromLength_def DEFAULT_HEIGHT_FIELD_WIDTH_def DEFAULT_HEIGHT_FIELD_HEIGHT_def)

lemma padBiomeCells_default:
  "padBiomeCells (DEFAULT_BIOME_MAP_WIDTH * DEFAULT_BIOME_MAP_HEIGHT) =
     Inr (replicate 2048 \<lparr> biome = ''ocean'', biodiversity = Finite 0 \<rparr>)"
  by (simp add: padBiomeCells_def arrayFromLength_def DEFAULT_BIOME_MAP_WIDTH_def DEFAULT_BIOME_MAP_HEIGHT_def)

lemma default_height_field:
  "createDefaultHeightFieldState =
     \<lparr> hf_width = 64, hf_height = 32, hf_unit = meters,
       hf_values = replicate 2048 (Finite 0) \<rparr>"
  by (simp add: createDefaultHeightFieldState_def padArray_default)
     (simp add: DEFAULT_HEIGHT_FIELD_WIDTH_def DEFAULT_HEIGHT_FIELD_HEIGHT_def)

lemma default_biome_map:
  "createDefaultBiomeMapState =
     \<lparr> bm_width = 64, bm_height = 32,
       cells = replicate 2048 \<lparr> biome = ''ocean'', biodiversity = Finite 0 \<rparr> \<rparr>"
  by (simp add: createDefaultBiomeMapState_def padBiomeCells_default)
     (simp add: DEFAULT_BIOME_MAP_WIDTH_def DEFAULT_BIOME_MAP_HEIGHT_def)


lemma length_fitToLength [simp]: "length (fitToLength n pad xs) = n"
  by (simp add: fitToLength_def)

lemma ensurePositiveInteger_ge: "fb \<ge> m \<Longrightarrow> ensurePositiveInteger v fb m \<ge> m"
  by (cases "(v, fb, m)" rule: ensurePositiveInteger.cases) (auto simp: Let_def)


lemma fit_core:
  assumes "1 \<le> (n::int)"
  shows "(if int (length (take (nat n) xs)) < n
          then (case arrayFromLength (n - int (length (take (nat n) xs))) pad of
                  Inl e \<Rightarrow> Inl e
                | Inr p \<Rightarrow> Inr (f (take (nat n) xs @ p)))
          else Inr (f (take (nat n) xs)))
       = (if 2 ^ 32 \<le> n - int (length xs) then Inl InvalidArrayLength
          else Inr (f (fitToLength (nat n) pad xs)))"
proof (cases "int (length xs) < n")
  case True
  then have "length xs < nat n" by linarith
  with True show ?thesis
    by (simp add: arrayFromLength_def fitToLength_def nat_diff_distrib)
next
  case False
  then have "nat n \<le> length xs" by linarith
  with False assms show ?thesis
    by (simp add: fitToLength_def)
qed

lemma dims_pos:
  "1 \<le> ensurePositiveInteger a 64 1 * ensurePositiveInteger b 32 1"
proof -
  have "1 \<le> ensurePositiveInteger a 64 1" "1 \<le> ensurePositiveInteger b 32 1"
    by (rule ensurePositiveInteger_ge, simp)+
  then show ?thesis
    using mult_mono[of 1 "ensurePositiveInteger a 64 1" 1 "ensurePositiveInteger b 32 1"]
    by simp
qed

lemma normalizeHeightField_record:
  assumes "isRecord v"
  shows "normalizeHeightField v =
     (let w = ensurePositiveInteger (getProp v ''width'') 64 1;
          h = ensurePositiveInteger (getProp v ''height'') 32 1;
          xs = map (\<lambda>entry. ensureNumber entry (Finite 0))
                 (arrayEntries (getProp v ''values''))
      in if 2 ^ 32 \<le> w * h - int (length xs) then Inl InvalidArrayLength
         else Inr \<lparr> hf_width = w, hf_height = h, hf_unit = meters,
                    hf_values = fitToLength (nat (w * h)) (Finite 0) xs \<rparr>)"
  using assms
  unfolding normalizeHeightField_def Let_def padArray_def arrayEntries_def[symmetric]
    default_height_field
  by (simp only: if_False if_True not_True_eq_False not_not HeightFieldState.simps
        fit_core[OF dims_pos, where f = "\<lambda>vs. \<lparr> hf_width = _, hf_height = _, hf_unit = meters, hf_values = vs \<rparr>"])

lemma normalizeBiomeMap_record:
  assumes "isRecord v"
  shows "normalizeBiomeMap v =
     (let w = ensurePositiveInteger (getProp v ''width'') 64 1;
          h = ensurePositiveInteger (getProp v ''height'') 32 1;
          xs = List.map_filter normalizeBiomeCell (arrayEntries (getProp v ''cells''))
      in if 2 ^ 32 \<le> w * h - int (length xs) then Inl InvalidArrayLength
         else Inr \<lparr> bm_width = w, bm_height = h,
                    cells = fitToLength (nat (w * h))
                              \<lparr> biome = ''ocean'', biodiversity = Finite 0 \<rparr> xs \<rparr>)"
  using assms
  unfolding normalizeBiomeMap_def Let_def padBiomeCells_def arrayEntries_def[symmetric]
    default_biome_map
  by (simp only: if_False if_True not_True_eq_False not_not BiomeMapState.simps
        fit_core[OF dims_pos, where f = "\<lambda>vs. \<lparr> bm_width = _, bm_height = _, cells = vs \<rparr>"])

subsection \<open>Strings and clamps\<close>

lemma trim_Nil [simp]: "trim [] = []"
  by (simp add: trim_def)

lemma ensureString_empty_fallback:
  "ensureString v [] \<noteq> [] \<Longrightarrow> nonBlank (ensureString v [])"
  by (cases v) (auto simp: nonBlank_def split: if_splits)

lemma ensureString_nonBlank_fallback:
  "nonBlank fb \<Longrightarrow> nonBlank (ensureString v fb)"
  by (cases v) (auto simp: nonBlank_def)

lemma ensureString_Str: "nonBlank s \<Longrightarrow> ensureString (Str s) fb = s"
  by (simp add: nonBlank_def)

lemma trim_not_Nil: "trim s \<noteq> [] \<Longrightarrow> (s = []) = False"
  by auto

lemma nonBlank_not_Nil: "nonBlank s \<Longrightarrow> s \<noteq> []"
  by (auto simp: nonBlank_def)

lemma clamp01_range: "inRange 0 1 (clamp01 v)"
  by (simp add: clamp01_def inRange_def)

lemma clamp01_id: "inRange 0 1 v \<Longrightarrow> clamp01 v = v"
  by (simp add: clamp01_def inRange_def)

lemma clampPercentage_range: "inRange 0 100 (clampPercentage v)"
  by (simp add: clampPercentage_def inRange_def)

lemma clampPercentage_id: "inRange 0 100 v \<Longrightarrow> clampPercentage v = v"
  by (simp add: clampPercentage_def inRange_def)

lemma clampLatitude_range: "inRange (- 90) 90 (clampLatitude v)"
  by (simp add: clampLatitude_def inRange_def)

lemma clampLatitude_id: "inRange (- 90) 90 v \<Longrightarrow> clampLatitude v = v"
  by (simp add: clampLatitude_def inRange_def)

lemma clampLongitude_range: "inRange (- 180) 180 (clampLongitude v)"
  by (simp add: clampLongitude_def inRange_def)

lemma clampLongitude_id: "inRange (- 180) 180 v \<Longrightarrow> clampLongitude v = v"
  by (simp add: clampLongitude_def inRange_def)

lemma inRange_finite: "inRange lo hi n \<Longrightarrow> isFinite n"
  by (simp add: inRange_def)

lemma inRange_Finite [simp]: "inRange lo hi (Finite r) = (lo \<le> r \<and> r \<le> hi)"
  by (simp add: inRange_def)

lemma atLeastNumber_Finite [simp]: "atLeastNumber lo (Finite r) = (lo \<le> r)"
  by (simp add: atLeastNumber_def)

lemma ensureNumber_Num [simp]: "isFinite n \<Longrightarrow> ensureNumber (Num n) fb = n"
  by simp

lemma ensureNumber_finite: "isFinite fb \<Longrightarrow> isFinite (ensureNumber v fb)"
  by (cases v) simp_all

lemma Math_max_bound:
  "0 \<le> lo \<Longrightarrow> isFinite n \<Longrightarrow> atLeastNumber lo (Math_max (Finite lo) n)"
  by (cases n) (simp_all add: atLeastNumber_def)

lemma inRange_zero: "lo \<le> 0 \<Longrightarrow> 0 \<le> hi \<Longrightarrow> inRange lo hi (Finite 0)"
  by (simp add: inRange_def)

lemma Math_max_id: "atLeastNumber lo n \<Longrightarrow> Math_max (Finite lo) n = n"
  by (cases n) (simp_all add: atLeastNumber_def max_def)

lemma axial_tilt_bound:
  "isFinite n \<Longrightarrow>
     atLeastNumber 0 (Math_min (Math_max n (Finite 0)) (Finite 90))
     \<and> numval (Math_min (Math_max n (Finite 0)) (Finite 90)) \<le> 90"
  by (cases n) (simp_all add: atLeastNumber_def)

lemma axial_tilt_id:
  "atLeastNumber 0 n \<Longrightarrow> numval n \<le> 90 \<Longrightarrow> Math_min (Math_max n (Finite 0)) (Finite 90) = n"
  by (cases n) (simp_all add: atLeastNumber_def max_def min_def)

lemma ensurePositiveInteger_numJS:
  "m \<le> i \<Longrightarrow> ensurePositiveInteger (numJS (of_int i)) fb m = i"
  by (simp add: numJS_def)

subsection \<open>Lists of entries\<close>

lemma map_filter_map_Some:
  "(\<And>x. x \<in> set xs \<Longrightarrow> f (g x) = Some x) \<Longrightarrow> List.map_filter f (map g xs) = xs"
  by (induction xs) (simp_all add: List.map_filter_simps)

lemma list_all_map_filter:
  "(\<And>x y. f x = Some y \<Longrightarrow> Q y) \<Longrightarrow> list_all Q (List.map_filter f xs)"
  by (induction xs) (auto simp: List.map_filter_simps split: option.splits)

lemma list_all_fitToLength:
  "list_all Q xs \<Longrightarrow> Q pad \<Longrightarrow> list_all Q (fitToLength n pad xs)"
  by (auto simp: fitToLength_def list_all_iff dest: in_set_takeD)

lemma fitToLength_exact: "length xs = n \<Longrightarrow> fitToLength n pad xs = xs"
  by (simp add: fitToLength_def)

subsection \<open>Entries: normal forms are valid, and valid entries are fixed points\<close>

lemma getProp_Cons [simp]:
  "getProp (Obj ((k, x) # fs)) k' = (if k = k' then x else getProp (Obj fs) k')"
  by simp

lemma getProp_Nil [simp]: "getProp (Obj []) k = Undefined"
  by simp

declare getProp.simps(1) [simp del]

lemma normalizeAtmosphericGas_valid:
  "normalizeAtmosphericGas v = Some g \<Longrightarrow> validGas g"
  by (auto simp: normalizeAtmosphericGas_def validGas_def Let_def clampPercentage_range
        ensureString_empty_fallback
        split: if_splits jsvalue.splits number.splits)

lemma normalizeAtmosphericGas_fix:
  "validGas g \<Longrightarrow> normalizeAtmosphericGas (gasJS g) = Some g"
  by (simp add: normalizeAtmosphericGas_def validGas_def gasJS_def Let_def
        nonBlank_def trim_not_Nil clampPercentage_id inRange_def)

lemma normalizeTectonicPlate_valid:
  "normalizeTectonicPlate v = Some p \<Longrightarrow> validPlate p"
  by (auto simp: normalizeTectonicPlate_def validPlate_def Let_def clamp01_range
        ensureString_empty_fallback ensureString_nonBlank_fallback ensureNumber_finite
        split: if_splits)

lemma normalizeTectonicPlate_fix:
  "validPlate p \<Longrightarrow> normalizeTectonicPlate (plateJS p) = Some p"
  by (cases "plate_type p")
     (simp_all add: normalizeTectonicPlate_def validPlate_def plateJS_def Let_def
        nonBlank_def trim_not_Nil clamp01_id inRange_def)

lemma normalizeCoordinates_valid: "validCoordinates (normalizeCoordinates v)"
  by (simp add: normalizeCoordinates_def validCoordinates_def clampLatitude_range
        clampLongitude_range inRange_zero)

lemma normalizeCoordinates_fix:
  "validCoordinates c \<Longrightarrow> normalizeCoordinates (coordinatesJS c) = c"
  by (simp add: normalizeCoordinates_def validCoordinates_def coordinatesJS_def
        clampLatitude_id clampLongitude_id inRange_def)

lemma normalizeRiverSystem_valid:
  "normalizeRiverSystem v = Some r \<Longrightarrow> validRiverSystem r"
  by (auto simp: normalizeRiverSystem_def validRiverSystem_def Let_def
        normalizeCoordinates_valid ensureString_empty_fallback ensureString_nonBlank_fallback
        ensureNumber_finite split: if_splits)

lemma normalizeRiverSystem_fix:
  "validRiverSystem r \<Longrightarrow> normalizeRiverSystem (riverSystemJS r) = Some r"
  by (simp add: normalizeRiverSystem_def validRiverSystem_def riverSystemJS_def Let_def
        nonBlank_def trim_not_Nil normalizeCoordinates_fix)

lemma normalizeBiomeCell_valid:
  "normalizeBiomeCell v = Some c \<Longrightarrow> validBiomeCell c"
  by (auto simp: normalizeBiomeCell_def validBiomeCell_def Let_def clamp01_range
        ensureString_empty_fallback split: if_splits)

lemma normalizeBiomeCell_fix:
  "validBiomeCell c \<Longrightarrow> normalizeBiomeCell (biomeCellJS c) = Some c"
  by (simp add: normalizeBiomeCell_def validBiomeCell_def biomeCellJS_def Let_def
        nonBlank_def trim_not_Nil clamp01_id inRange_def)

lemma normalizePopulationCenter_valid:
  "normalizePopulationCenter v = Some p \<Longrightarrow> validPopulationCenter p"
  by (auto simp: normalizePopulationCenter_def validPopulationCenter_def Let_def
        normalizeCoordinates_valid ensureString_empty_fallback ensureString_nonBlank_fallback
        Math_max_bound ensureNumber_finite split: if_splits)

lemma normalizePopulationCenter_fix:
  "validPopulationCenter p \<Longrightarrow> normalizePopulationCenter (populationCenterJS p) = Some p"
  by (cases "pop_kind p")
     (simp_all add: normalizePopulationCenter_def validPopulationCenter_def
        populationCenterJS_def Let_def nonBlank_def trim_not_Nil
        normalizeCoordinates_fix Math_max_id atLeastNumber_def)

subsection \<open>Sections\<close>

lemma nonBlank_literals:
  "nonBlank ''nitrogen''" "nonBlank ''oxygen''" "nonBlank ''argon''"
  "nonBlank ''carbon-dioxide''" "nonBlank ''ocean''"
  by (simp_all add: nonBlank_def trim_def isWhiteSpace_def)

lemma default_atmosphere_valid: "validAtmosphere createDefaultAtmosphereState"
  by (simp add: validAtmosphere_def createDefaultAtmosphereState_def validGas_def
        nonBlank_literals inRange_def)

lemma normalizeAtmosphere_valid: "validAtmosphere (normalizeAtmosphere v)"
proof (cases "isRecord v")
  case False
  then show ?thesis
    by (simp add: normalizeAtmosphere_def Let_def default_atmosphere_valid)
next
  case True
  have all: "list_all validGas (List.map_filter normalizeAtmosphericGas xs)" for xs
    by (rule list_all_map_filter) (rule normalizeAtmosphericGas_valid)
  from True default_atmosphere_valid show ?thesis
    by (auto simp: normalizeAtmosphere_def Let_def validAtmosphere_def all
          ensureNumber_finite split: option.splits jsvalue.splits)
qed

lemma normalizeAtmosphere_fix:
  assumes "validAtmosphere a"
  shows "normalizeAtmosphere (atmosphereJS a) = a"
proof -
  have "List.map_filter normalizeAtmosphericGas (map gasJS (gases a)) = gases a"
    using assms
    by (intro map_filter_map_Some normalizeAtmosphericGas_fix)
       (simp add: validAtmosphere_def list_all_iff)
  with assms show ?thesis
    by (simp add: normalizeAtmosphere_def atmosphereJS_def Let_def validAtmosphere_def)
qed

lemma default_height_field_valid: "validHeightField createDefaultHeightFieldState"
  by (simp add: validHeightField_def default_height_field list_all_iff)

lemma height_values_finite:
  "list_all isFinite
     (fitToLength n (Finite 0) (map (\<lambda>entry. ensureNumber entry (Finite 0)) xs))"
  by (rule list_all_fitToLength) (simp_all add: list_all_iff ensureNumber_finite)

lemma normalizeHeightField_valid:
  assumes "normalizeHeightField v = Inr hf"
  shows "validHeightField hf"
proof (cases "isRecord v")
  case False
  with assms show ?thesis
    by (auto simp: normalizeHeightField_def Let_def default_height_field_valid)
next
  case True
  have w: "1 \<le> ensurePositiveInteger a 64 1" for a
    by (rule ensurePositiveInteger_ge) simp
  have h: "1 \<le> ensurePositiveInteger a 32 1" for a
    by (rule ensurePositiveInteger_ge) simp
  have wh: "0 \<le> ensurePositiveInteger a 64 1 * ensurePositiveInteger b 32 1" for a b
    using dims_pos[of a b] by linarith
  from assms show ?thesis
    unfolding normalizeHeightField_record[OF True] Let_def validHeightField_def
    by (auto split: if_splits simp: w h wh height_values_finite)
qed

lemma normalizeHeightField_fix:
  assumes "validHeightField hf"
  shows "normalizeHeightField (heightFieldJS hf) = Inr hf"
proof -
  have r: "isRecord (heightFieldJS hf)"
    by (simp add: heightFieldJS_def)
  have xs: "map (\<lambda>entry. ensureNumber entry (Finite 0)) (map Num (hf_values hf))
      = hf_values hf"
    using assms by (simp add: validHeightField_def list_all_iff map_idI)
  have len: "length (hf_values hf) = nat (hf_width hf * hf_height hf)"
    using assms unfolding validHeightField_def by linarith
  have u: "hf_unit hf = meters"
    by (cases "hf_unit hf") simp
  from assms len u xs show ?thesis
    unfolding normalizeHeightField_record[OF r] Let_def
    by (simp add: heightFieldJS_def arrayEntries_def validHeightField_def
          ensurePositiveInteger_numJS fitToLength_exact)
qed

lemma default_biome_map_valid: "validBiomeMap createDefaultBiomeMapState"
  by (simp add: validBiomeMap_def default_biome_map validBiomeCell_def nonBlank_literals
        list_all_iff inRange_def)

lemma normalizeBiomeMap_valid:
  assumes "normalizeBiomeMap v = Inr bm"
  shows "validBiomeMap bm"
proof (cases "isRecord v")
  case False
  with assms show ?thesis
    by (auto simp: normalizeBiomeMap_def Let_def default_biome_map_valid)
next
  case True
  have w: "1 \<le> ensurePositiveInteger a 64 1" for a
    by (rule ensurePositiveInteger_ge) simp
  have h: "1 \<le> ensurePositiveInteger a 32 1" for a
    by (rule ensurePositiveInteger_ge) simp
  have wh: "0 \<le> ensurePositiveInteger a 64 1 * ensurePositiveInteger b 32 1" for a b
    using dims_pos[of a b] by linarith
  have cs: "list_all validBiomeCell
      (fitToLength n \<lparr> biome = ''ocean'', biodiversity = Finite 0 \<rparr>
         (List.map_filter normalizeBiomeCell xs))" for n xs
    by (intro list_all_fitToLength list_all_map_filter[where f = normalizeBiomeCell])
       (simp_all add: normalizeBiomeCell_valid,
        simp add: validBiomeCell_def nonBlank_literals inRange_def)
  from assms show ?thesis
    unfolding normalizeBiomeMap_record[OF True] Let_def validBiomeMap_def
    by (auto split: if_splits simp: w h wh cs)
qed

lemma normalizeBiomeMap_fix:
  assumes "validBiomeMap bm"
  shows "normalizeBiomeMap (biomeMapJS bm) = Inr bm"
proof -
  have r: "isRecord (biomeMapJS bm)"
    by (simp add: biomeMapJS_def)
  have xs: "List.map_filter normalizeBiomeCell (map biomeCellJS (cells bm)) = cells bm"
    using assms
    by (intro map_filter_map_Some normalizeBiomeCell_fix)
       (simp add: validBiomeMap_def list_all_iff)
  have len: "length (cells bm) = nat (bm_width bm * bm_height bm)"
    using assms unfolding validBiomeMap_def by linarith
  from assms len xs show ?thesis
    unfolding normalizeBiomeMap_record[OF r] Let_def
    by (simp add: biomeMapJS_def arrayEntries_def validBiomeMap_def
          ensurePositiveInteger_numJS fitToLength_exact)
qed

lemma default_geology_valid: "validGeology createDefaultGeologyState"
  by (simp add: validGeology_def createDefaultGeologyState_def createDefaultTectonicPlates_def
        default_height_field_valid inRange_def)

lemma normalizeGeology_valid:
  assumes "normalizeGeology v = Inr g"
  shows "validGeology g"
proof (cases "isRecord v")
  case False
  with assms show ?thesis
    by (auto simp: normalizeGeology_def Let_def default_geology_valid)
next
  case True
  have ps: "list_all validPlate (List.map_filter normalizeTectonicPlate xs)" for xs
    by (rule list_all_map_filter) (rule normalizeTectonicPlate_valid)
  from assms True show ?thesis
    by (auto simp: normalizeGeology_def Let_def validGeology_def ps clamp01_range
          createDefaultGeologyState_def createDefaultTectonicPlates_def
          normalizeHeightField_valid
          split: sum.splits option.splits jsvalue.splits)
qed

lemma normalizeGeology_fix:
  assumes "validGeology g"
  shows "normalizeGeology (geologyJS g) = Inr g"
proof -
  have "List.map_filter normalizeTectonicPlate (map plateJS (plates g)) = plates g"
    using assms
    by (intro map_filter_map_Some normalizeTectonicPlate_fix)
       (simp add: validGeology_def list_all_iff)
  with assms show ?thesis
    by (simp add: normalizeGeology_def geologyJS_def Let_def validGeology_def
          normalizeHeightField_fix clamp01_id inRange_finite[of 0 1])
qed

lemma normalizeRiverNetwork_valid: "validRiverNetwork (normalizeRiverNetwork v)"
proof -
  have ss: "list_all validRiverSystem (List.map_filter normalizeRiverSystem xs)" for xs
    by (rule list_all_map_filter) (rule normalizeRiverSystem_valid)
  show ?thesis
    by (auto simp: normalizeRiverNetwork_def Let_def validRiverNetwork_def ss
          createDefaultRiverNetworkState_def split: option.splits jsvalue.splits if_splits)
qed

lemma normalizeRiverNetwork_fix:
  assumes "validRiverNetwork n"
  shows "normalizeRiverNetwork (riverNetworkJS n) = n"
proof -
  have "List.map_filter normalizeRiverSystem (map riverSystemJS (systems n)) = systems n"
    using assms
    by (intro map_filter_map_Some normalizeRiverSystem_fix)
       (simp add: validRiverNetwork_def list_all_iff)
  with assms show ?thesis
    by (cases "rivers_seed n")
       (simp_all add: normalizeRiverNetwork_def riverNetworkJS_def Let_def
          createDefaultRiverNetworkState_def validRiverNetwork_def)
qed

lemma normalizeIceCaps_valid: "validIceCaps (normalizeIceCaps v)"
  by (simp add: normalizeIceCaps_def Let_def validIceCaps_def clamp01_range
        createDefaultIceCapsState_def)

lemma normalizeIceCaps_fix: "validIceCaps i \<Longrightarrow> normalizeIceCaps (iceCapsJS i) = i"
  by (simp add: normalizeIceCaps_def iceCapsJS_def Let_def validIceCaps_def clamp01_id
        inRange_finite[of 0 1])

lemma default_hydrology_valid: "validHydrology createDefaultHydrologyState"
  by (simp add: validHydrology_def createDefaultHydrologyState_def
        createDefaultRiverNetworkState_def createDefaultIceCapsState_def
        validRiverNetwork_def validIceCaps_def inRange_def)

lemma normalizeHydrology_valid: "validHydrology (normalizeHydrology v)"
proof (cases "isRecord v")
  case False
  then show ?thesis
    by (simp add: normalizeHydrology_def Let_def default_hydrology_valid)
next
  case True
  then show ?thesis
    by (simp add: normalizeHydrology_def Let_def validHydrology_def clamp01_range
          normalizeRiverNetwork_valid normalizeIceCaps_valid)
qed

lemma normalizeHydrology_fix:
  "validHydrology h \<Longrightarrow> normalizeHydrology (hydrologyJS h) = h"
  by (simp add: normalizeHydrology_def hydrologyJS_def Let_def validHydrology_def clamp01_id
        normalizeRiverNetwork_fix normalizeIceCaps_fix inRange_finite[of 0 1])

lemma default_biosphere_valid: "validBiosphere createDefaultBiosphereState"
  by (simp add: validBiosphere_def createDefaultBiosphereState_def default_biome_map_valid
        inRange_def)

lemma normalizeBiosphere_valid:
  assumes "normalizeBiosphere v = Inr b"
  shows "validBiosphere b"
proof (cases "isRecord v")
  case False
  with assms show ?thesis
    by (auto simp: normalizeBiosphere_def Let_def default_biosphere_valid)
next
  case True
  with assms show ?thesis
    by (auto simp: normalizeBiosphere_def Let_def validBiosphere_def
          clamp01_range normalizeBiomeMap_valid split: sum.splits)
qed

lemma normalizeBiosphere_fix:
  "validBiosphere b \<Longrightarrow> normalizeBiosphere (biosphereJS b) = Inr b"
  by (simp add: normalizeBiosphere_def biosphereJS_def Let_def validBiosphere_def
        normalizeBiomeMap_fix clamp01_id inRange_finite[of 0 1])

lemma normalizeCivilization_valid: "validCivilization (normalizeCivilization v)"
proof -
  have ps: "list_all validPopulationCenter (List.map_filter normalizePopulationCenter xs)"
    for xs
    by (rule list_all_map_filter) (rule normalizePopulationCenter_valid)
  show ?thesis
    by (auto simp: normalizeCivilization_def Let_def validCivilization_def ps clamp01_range
          createDefaultCivilizationState_def split: option.splits jsvalue.splits)
qed

lemma normalizeCivilization_fix:
  assumes "validCivilization c"
  shows "normalizeCivilization (civilizationJS c) = c"
proof -
  have "List.map_filter normalizePopulationCenter (map populationCenterJS (populations c))
          = populations c"
    using assms
    by (intro map_filter_map_Some normalizePopulationCenter_fix)
       (simp add: validCivilization_def list_all_iff)
  with assms show ?thesis
    by (cases "techLevel c")
       (simp_all add: normalizeCivilization_def civilizationJS_def techLevelJS_def Let_def
          validCivilization_def clamp01_id inRange_finite[of 0 1])
qed

lemma default_climate_valid: "validClimate createDefaultClimateState"
  by (simp add: validClimate_def createDefaultClimateState_def atLeastNumber_def inRange_def)

lemma normalizeClimate_valid: "validClimate (normalizeClimate v)"
proof (cases "isRecord v")
  case False
  then show ?thesis
    by (simp add: normalizeClimate_def Let_def default_climate_valid)
next
  case True
  have f: "isFinite (ensureNumber x (Finite r))" for x r
    by (rule ensureNumber_finite) simp
  from True show ?thesis
    by (simp add: normalizeClimate_def Let_def validClimate_def clamp01_range
          createDefaultClimateState_def Math_max_bound axial_tilt_bound f)
qed

lemma normalizeClimate_fix: "validClimate c \<Longrightarrow> normalizeClimate (climateJS c) = c"
  by (simp add: normalizeClimate_def climateJS_def Let_def validClimate_def clamp01_id
        Math_max_id axial_tilt_id inRange_finite[of 0 1] atLeastNumber_def)

subsection \<open>Whole states\<close>

lemma default_planet_state_valid: "validPlanetState createDefaultPlanetState"
  using normalizeHydrology_valid[of Undefined] normalizeCivilization_valid[of Undefined]
    normalizeClimate_valid[of Undefined]
  by (simp add: validPlanetState_def createDefaultPlanetState_def default_atmosphere_valid
        default_geology_valid default_biosphere_valid
        normalizeHydrology_def normalizeCivilization_def normalizeClimate_def)

lemma normalizePlanetStateV1_valid:
  "normalizePlanetStateV1 v = Inr s \<Longrightarrow> validPlanetState s"
  by (auto simp: normalizePlanetStateV1_def validPlanetState_def normalizeAtmosphere_valid
        normalizeGeology_valid normalizeHydrology_valid normalizeBiosphere_valid
        normalizeCivilization_valid normalizeClimate_valid split: sum.splits)

lemma normalizePlanetStateV1_fix:
  "validPlanetState s \<Longrightarrow> normalizePlanetStateV1 (planetStateJS s) = Inr s"
  by (simp add: normalizePlanetStateV1_def planetStateJS_def validPlanetState_def
        normalizeAtmosphere_fix normalizeGeology_fix normalizeHydrology_fix
        normalizeBiosphere_fix normalizeCivilization_fix normalizeClimate_fix)

lemma migratePlanetState_record:
  assumes "isRecord v"
  shows "migratePlanetState v =
     (case getProp v ''version'' of
        Num (Finite r) \<Rightarrow>
          if \<lfloor>r\<rfloor> > 1 then Inl (UnsupportedPlanetStateVersion \<lfloor>r\<rfloor>)
          else normalizePlanetStateV1 v
      | _ \<Rightarrow> normalizePlanetStateV1 v)"
proof (cases "\<exists>r. getProp v ''version'' = Num (Finite r)")
  case False
  have "ensurePositiveInteger (getProp v ''version'') 1 1 = 1"
  proof (cases "getProp v ''version''")
    case (Num n)
    with False show ?thesis by (cases n) simp_all
  qed simp_all
  with assms False show ?thesis
    by (auto simp: migratePlanetState_def PLANET_STATE_NORMALIZERS_def
          PLANET_STATE_VERSION_def Let_def split: jsvalue.splits number.splits)
next
  case True
  then obtain r where r: "getProp v ''version'' = Num (Finite r)" by blast
  define k where "k = \<lfloor>r\<rfloor>"
  have e: "ensurePositiveInteger (getProp v ''version'') 1 1 = (if k < 1 then 1 else k)"
    by (simp add: r k_def Let_def)
  show ?thesis
    using assms
    unfolding migratePlanetState_def PLANET_STATE_NORMALIZERS_def PLANET_STATE_VERSION_def
      Let_def e
    by (simp add: r k_def[symmetric])
qed

lemma migratePlanetState_valid:
  "migratePlanetState v = Inr s \<Longrightarrow> validPlanetState s"
proof (cases "isRecord v")
  case False
  then show "migratePlanetState v = Inr s \<Longrightarrow> validPlanetState s"
    by (auto simp: migratePlanetState_def default_planet_state_valid)
next
  case True
  show "migratePlanetState v = Inr s \<Longrightarrow> validPlanetState s"
    unfolding migratePlanetState_record[OF True]
    by (auto simp: normalizePlanetStateV1_valid
          split: jsvalue.splits number.splits if_splits)
qed

lemma migratePlanetState_fix:
  assumes "validPlanetState s"
  shows "migratePlanetState (planetStateJS s) = Inr s"
proof -
  have r: "isRecord (planetStateJS s)"
    by (simp add: planetStateJS_def)
  have v: "getProp (planetStateJS s) ''version'' = Num (Finite 1)"
    using assms
    by (simp add: planetStateJS_def validPlanetState_def PLANET_STATE_VERSION_def numJS_def)
  show ?thesis
    unfolding migratePlanetState_record[OF r] v
    by (simp add: normalizePlanetStateV1_fix[OF assms])
qed

lemma deserializePlanetState_valid:
  "deserializePlanetState E payload = Inr s \<Longrightarrow> validPlanetState s"
  by (auto simp: deserializePlanetState_def migratePlanetState_valid
        split: jsvalue.splits option.splits)

section \<open>Claims on the planet state\<close>

section \<open>JSON text and the negative zero\<close>

lemma positiveZero_finite [simp]: "isFinite (positiveZero n) = isFinite n"
  by (cases n) simp_all

lemma positiveZero_numval [simp]: "numval (positiveZero n) = numval n"
  by (cases n) simp_all

lemma positiveZero_idem [simp]: "positiveZero (positiveZero n) = positiveZero n"
  by (cases n) simp_all

lemma positiveZero_inRange [simp]: "inRange lo hi (positiveZero n) = inRange lo hi n"
  by (simp add: inRange_def)

lemma positiveZero_atLeast: "atLeastNumber lo n \<Longrightarrow> positiveZero n = n"
  by (cases n) (simp_all add: atLeastNumber_def)

lemma positiveZero_atLeast_keep:
  "atLeastNumber lo n \<Longrightarrow> atLeastNumber lo (positiveZero n)"
  by (simp add: positiveZero_atLeast)

lemma positiveZero_id: "n \<noteq> NegZero \<Longrightarrow> positiveZero n = n"
  by (cases n) simp_all

lemma jsonImage_Num: "isFinite n \<Longrightarrow> jsonImage (Num n) = Num (positiveZero n)"
  by simp

lemma jsonImage_numJS [simp]: "jsonImage (numJS r) = numJS r"
  by (simp add: numJS_def)

lemma numJS_defined [simp]: "numJS r \<noteq> Undefined"
  by (simp add: numJS_def)

lemma jsonElements_map:
  "(\<And>x. x \<in> set xs \<Longrightarrow> f x \<noteq> Undefined \<and> jsonImage (f x) = f (g x))
     \<Longrightarrow> jsonElements (map f xs) = map f (map g xs)"
  by (induction xs) simp_all

lemma gas_json:
  "validGas g \<Longrightarrow> gasJS g \<noteq> Undefined \<and> jsonImage (gasJS g) = gasJS (gasPositiveZeros g)"
  by (simp add: gasJS_def gasPositiveZeros_def validGas_def inRange_def)

lemma gas_positive_valid: "validGas g \<Longrightarrow> validGas (gasPositiveZeros g)"
  by (simp add: gasPositiveZeros_def validGas_def)

lemma atmosphere_json:
  assumes "validAtmosphere a"
  shows "jsonImage (atmosphereJS a) = atmosphereJS (atmospherePositiveZeros a)"
proof -
  have "jsonElements (map gasJS (gases a)) = map gasJS (map gasPositiveZeros (gases a))"
    using assms
    by (intro jsonElements_map gas_json) (simp add: validAtmosphere_def list_all_iff)
  with assms show ?thesis
    by (simp add: atmosphereJS_def atmospherePositiveZeros_def validAtmosphere_def)
qed

lemma atmosphere_positive_valid:
  "validAtmosphere a \<Longrightarrow> validAtmosphere (atmospherePositiveZeros a)"
  by (simp add: atmospherePositiveZeros_def validAtmosphere_def list_all_iff
        gas_positive_valid)

lemma plate_json:
  "validPlate p \<Longrightarrow>
     plateJS p \<noteq> Undefined \<and> jsonImage (plateJS p) = plateJS (platePositiveZeros p)"
  by (simp add: plateJS_def platePositiveZeros_def validPlate_def inRange_def)

lemma plate_positive_valid: "validPlate p \<Longrightarrow> validPlate (platePositiveZeros p)"
  by (simp add: platePositiveZeros_def validPlate_def)

lemma heightField_json:
  assumes "validHeightField hf"
  shows "jsonImage (heightFieldJS hf) = heightFieldJS (heightFieldPositiveZeros hf)"
proof -
  have "jsonElements (map Num (hf_values hf)) = map Num (map positiveZero (hf_values hf))"
    using assms
    by (intro jsonElements_map) (simp add: validHeightField_def list_all_iff)
  then show ?thesis
    by (simp add: heightFieldJS_def heightFieldPositiveZeros_def)
qed

lemma heightField_positive_valid:
  "validHeightField hf \<Longrightarrow> validHeightField (heightFieldPositiveZeros hf)"
  by (simp add: heightFieldPositiveZeros_def validHeightField_def list_all_iff)

lemma geology_json:
  assumes "validGeology g"
  shows "jsonImage (geologyJS g) = geologyJS (geologyPositiveZeros g)"
proof -
  have "jsonElements (map plateJS (plates g)) = map plateJS (map platePositiveZeros (plates g))"
    using assms
    by (intro jsonElements_map plate_json) (simp add: validGeology_def list_all_iff)
  moreover have "heightFieldJS hf \<noteq> Undefined" for hf
    by (simp add: heightFieldJS_def)
  ultimately show ?thesis
    using assms
    by (simp add: geologyJS_def geologyPositiveZeros_def validGeology_def heightField_json
          inRange_def)
qed

lemma geology_positive_valid: "validGeology g \<Longrightarrow> validGeology (geologyPositiveZeros g)"
  by (simp add: geologyPositiveZeros_def validGeology_def list_all_iff plate_positive_valid
        heightField_positive_valid)

lemma coordinates_json:
  "validCoordinates c \<Longrightarrow>
     coordinatesJS c \<noteq> Undefined
     \<and> jsonImage (coordinatesJS c) = coordinatesJS (coordinatesPositiveZeros c)"
  by (simp add: coordinatesJS_def coordinatesPositiveZeros_def validCoordinates_def
        inRange_def)

lemma coordinates_positive_valid:
  "validCoordinates c \<Longrightarrow> validCoordinates (coordinatesPositiveZeros c)"
  by (simp add: coordinatesPositiveZeros_def validCoordinates_def)

lemma riverSystem_json:
  "validRiverSystem r \<Longrightarrow>
     riverSystemJS r \<noteq> Undefined
     \<and> jsonImage (riverSystemJS r) = riverSystemJS (riverSystemPositiveZeros r)"
  by (simp add: riverSystemJS_def riverSystemPositiveZeros_def validRiverSystem_def
        coordinates_json)

lemma riverSystem_positive_valid:
  "validRiverSystem r \<Longrightarrow> validRiverSystem (riverSystemPositiveZeros r)"
  by (simp add: riverSystemPositiveZeros_def validRiverSystem_def coordinates_positive_valid)

lemma riverNetwork_json:
  assumes "validRiverNetwork n"
  shows "riverNetworkJS n \<noteq> Undefined
       \<and> jsonImage (riverNetworkJS n) = riverNetworkJS (riverNetworkPositiveZeros n)"
proof -
  have "jsonElements (map riverSystemJS (systems n))
      = map riverSystemJS (map riverSystemPositiveZeros (systems n))"
    using assms
    by (intro jsonElements_map riverSystem_json) (simp add: validRiverNetwork_def list_all_iff)
  with assms show ?thesis
    by (cases "rivers_seed n")
       (simp_all add: riverNetworkJS_def riverNetworkPositiveZeros_def validRiverNetwork_def)
qed

lemma riverNetwork_positive_valid:
  "validRiverNetwork n \<Longrightarrow> validRiverNetwork (riverNetworkPositiveZeros n)"
  by (cases "rivers_seed n")
     (simp_all add: riverNetworkPositiveZeros_def validRiverNetwork_def list_all_iff
        riverSystem_positive_valid)

lemma iceCaps_json:
  "validIceCaps i \<Longrightarrow>
     iceCapsJS i \<noteq> Undefined \<and> jsonImage (iceCapsJS i) = iceCapsJS (iceCapsPositiveZeros i)"
  by (simp add: iceCapsJS_def iceCapsPositiveZeros_def validIceCaps_def inRange_def)

lemma iceCaps_positive_valid: "validIceCaps i \<Longrightarrow> validIceCaps (iceCapsPositiveZeros i)"
  by (simp add: iceCapsPositiveZeros_def validIceCaps_def)

lemma hydrology_json:
  "validHydrology h \<Longrightarrow> jsonImage (hydrologyJS h) = hydrologyJS (hydrologyPositiveZeros h)"
  by (simp add: hydrologyJS_def hydrologyPositiveZeros_def validHydrology_def
        riverNetwork_json iceCaps_json inRange_finite[of 0 1])

lemma hydrology_positive_valid:
  "validHydrology h \<Longrightarrow> validHydrology (hydrologyPositiveZeros h)"
  by (simp add: hydrologyPositiveZeros_def validHydrology_def riverNetwork_positive_valid
        iceCaps_positive_valid)

lemma biomeCell_json:
  "validBiomeCell c \<Longrightarrow>
     biomeCellJS c \<noteq> Undefined
     \<and> jsonImage (biomeCellJS c) = biomeCellJS (biomeCellPositiveZeros c)"
  by (simp add: biomeCellJS_def biomeCellPositiveZeros_def validBiomeCell_def inRange_def)

lemma biomeCell_positive_valid:
  "validBiomeCell c \<Longrightarrow> validBiomeCell (biomeCellPositiveZeros c)"
  by (simp add: biomeCellPositiveZeros_def validBiomeCell_def)

lemma biomeMap_json:
  assumes "validBiomeMap m"
  shows "biomeMapJS m \<noteq> Undefined
       \<and> jsonImage (biomeMapJS m) = biomeMapJS (biomeMapPositiveZeros m)"
proof -
  have "jsonElements (map biomeCellJS (cells m))
      = map biomeCellJS (map biomeCellPositiveZeros (cells m))"
    using assms
    by (intro jsonElements_map biomeCell_json) (simp add: validBiomeMap_def list_all_iff)
  then show ?thesis
    by (simp add: biomeMapJS_def biomeMapPositiveZeros_def)
qed

lemma biomeMap_positive_valid:
  "validBiomeMap m \<Longrightarrow> validBiomeMap (biomeMapPositiveZeros m)"
  by (simp add: biomeMapPositiveZeros_def validBiomeMap_def list_all_iff
        biomeCell_positive_valid)

lemma biosphere_json:
  "validBiosphere b \<Longrightarrow> jsonImage (biosphereJS b) = biosphereJS (biospherePositiveZeros b)"
  by (simp add: biosphereJS_def biospherePositiveZeros_def validBiosphere_def biomeMap_json
        inRange_finite[of 0 1])

lemma biosphere_positive_valid:
  "validBiosphere b \<Longrightarrow> validBiosphere (biospherePositiveZeros b)"
  by (simp add: biospherePositiveZeros_def validBiosphere_def biomeMap_positive_valid)

lemma populationCenter_json:
  "validPopulationCenter p \<Longrightarrow>
     populationCenterJS p \<noteq> Undefined
     \<and> jsonImage (populationCenterJS p) = populationCenterJS (populationCenterPositiveZeros p)"
  by (simp add: populationCenterJS_def populationCenterPositiveZeros_def
        validPopulationCenter_def coordinates_json atLeastNumber_def)

lemma populationCenter_positive_valid:
  "validPopulationCenter p \<Longrightarrow> validPopulationCenter (populationCenterPositiveZeros p)"
  by (simp add: populationCenterPositiveZeros_def validPopulationCenter_def
        coordinates_positive_valid positiveZero_atLeast_keep)

lemma civilization_json:
  assumes "validCivilization c"
  shows "jsonImage (civilizationJS c) = civilizationJS (civilizationPositiveZeros c)"
proof -
  have "jsonElements (map populationCenterJS (populations c))
      = map populationCenterJS (map populationCenterPositiveZeros (populations c))"
    using assms
    by (intro jsonElements_map populationCenter_json)
       (simp add: validCivilization_def list_all_iff)
  with assms show ?thesis
    by (simp add: civilizationJS_def civilizationPositiveZeros_def validCivilization_def
          techLevelJS_def inRange_def)
qed

lemma civilization_positive_valid:
  "validCivilization c \<Longrightarrow> validCivilization (civilizationPositiveZeros c)"
  by (simp add: civilizationPositiveZeros_def validCivilization_def list_all_iff
        populationCenter_positive_valid)

lemma climate_json:
  "validClimate c \<Longrightarrow> jsonImage (climateJS c) = climateJS (climatePositiveZeros c)"
  by (simp add: climateJS_def climatePositiveZeros_def validClimate_def atLeastNumber_def
        inRange_def)

lemma climate_positive_valid: "validClimate c \<Longrightarrow> validClimate (climatePositiveZeros c)"
  by (simp add: climatePositiveZeros_def validClimate_def positiveZero_atLeast_keep)

lemma section_images_defined:
  "atmosphereJS a \<noteq> Undefined" "geologyJS g \<noteq> Undefined" "hydrologyJS h \<noteq> Undefined"
  "biosphereJS b \<noteq> Undefined" "civilizationJS c \<noteq> Undefined" "climateJS k \<noteq> Undefined"
  "planetStateJS s \<noteq> Undefined"
  by (simp_all add: atmosphereJS_def geologyJS_def hydrologyJS_def biosphereJS_def
        civilizationJS_def climateJS_def planetStateJS_def)

lemma planetState_json:
  "validPlanetState s \<Longrightarrow>
     jsonImage (planetStateJS s) = planetStateJS (planetStatePositiveZeros s)"
  by (simp add: planetStateJS_def planetStatePositiveZeros_def validPlanetState_def
        section_images_defined atmosphere_json geology_json hydrology_json biosphere_json
        civilization_json climate_json)

lemma planetState_positive_valid:
  "validPlanetState s \<Longrightarrow> validPlanetState (planetStatePositiveZeros s)"
  by (simp add: planetStatePositiveZeros_def validPlanetState_def atmosphere_positive_valid
        geology_positive_valid hydrology_positive_valid biosphere_positive_valid
        civilization_positive_valid climate_positive_valid)

lemma default_state_positive:
  "planetStatePositiveZeros createDefaultPlanetState = createDefaultPlanetState"
  by (simp add: planetStatePositiveZeros_def createDefaultPlanetState_def
        atmospherePositiveZeros_def createDefaultAtmosphereState_def gasPositiveZeros_def
        geologyPositiveZeros_def createDefaultGeologyState_def createDefaultTectonicPlates_def
        heightFieldPositiveZeros_def default_height_field
        hydrologyPositiveZeros_def createDefaultHydrologyState_def
        riverNetworkPositiveZeros_def createDefaultRiverNetworkState_def
        iceCapsPositiveZeros_def createDefaultIceCapsState_def
        biospherePositiveZeros_def createDefaultBiosphereState_def
        biomeMapPositiveZeros_def default_biome_map biomeCellPositiveZeros_def
        civilizationPositiveZeros_def createDefaultCivilizationState_def
        climatePositiveZeros_def createDefaultClimateState_def)
section \<open>Claims on the planet state\<close>

lemma examplePayload_normal: "migratePlanetState examplePayload = Inr exampleState"
proof -
  have r: "isRecord examplePayload"
    by (simp add: examplePayload_def)
  have g: "normalizeGeology (getProp examplePayload ''geology'') =
      Inr \<lparr> plates = [],
            heightField = \<lparr> hf_width = 2, hf_height = 1, hf_unit = meters,
                            hf_values = [Finite 7, Finite 0] \<rparr>,
            volcanismIndex = Finite 0 \<rparr>"
    by (simp add: examplePayload_def normalizeGeology_def normalizeHeightField_record Let_def
          arrayEntries_def numJS_def fitToLength_def createDefaultGeologyState_def
          createDefaultTectonicPlates_def clamp01_def)
  have b: "normalizeBiosphere (getProp examplePayload ''biosphere'') =
      Inr \<lparr> biomeMap = createDefaultBiomeMapState, biodiversityIndex = Finite (1 / 10) \<rparr>"
    by (simp add: examplePayload_def normalizeBiosphere_def normalizeBiomeMap_record Let_def
          arrayEntries_def fitToLength_def createDefaultBiosphereState_def clamp01_def
          default_biome_map List.map_filter_simps)
  have c: "normalizeClimate (getProp examplePayload ''climate'') = climate exampleState"
    by (simp add: examplePayload_def exampleState_def normalizeClimate_def Let_def
          createDefaultClimateState_def clamp01_def numJS_def)
  have rest: "normalizeAtmosphere (getProp examplePayload ''atmosphere'') =
        createDefaultAtmosphereState"
      "normalizeHydrology (getProp examplePayload ''hydrology'') = createDefaultHydrologyState"
      "normalizeCivilization (getProp examplePayload ''civilization'') =
        createDefaultCivilizationState"
    by (simp_all add: examplePayload_def normalizeAtmosphere_def normalizeHydrology_def
          normalizeCivilization_def)
  have v: "getProp examplePayload ''version'' = Num (Finite 1)"
    by (simp add: examplePayload_def numJS_def)
  show ?thesis
    unfolding migratePlanetState_record[OF r] v
    by (simp add: normalizePlanetStateV1_def g b c rest exampleState_def
          PLANET_STATE_VERSION_def)
qed

text \<open>
  C2. Every state that migration returns has a height field with \<open>width * height\<close> values
  and a biome map with \<open>width * height\<close> cells. Where the input has the two grids, the
  values are the numbers of the input's array (0 for an entry that is not a number) and the
  cells are the valid cells of the input's array, truncated to that length or padded at the
  tail with zeros and ocean cells.
\<close>

theorem grid_invariant:
  assumes "migratePlanetState v = Inr s"
  shows "int (length (hf_values (heightField (geology s)))) =
           hf_width (heightField (geology s)) * hf_height (heightField (geology s))
       \<and> int (length (cells (biomeMap (biosphere s)))) =
           bm_width (biomeMap (biosphere s)) * bm_height (biomeMap (biosphere s))
       \<and> (isRecord v \<and> isRecord (getProp v ''geology'')
            \<and> isRecord (getProp (getProp v ''geology'') ''heightField'') \<longrightarrow>
           hf_values (heightField (geology s)) =
             fitToLength
               (nat (hf_width (heightField (geology s)) * hf_height (heightField (geology s))))
               (Finite 0)
               (map (\<lambda>entry. ensureNumber entry (Finite 0))
                  (arrayEntries
                     (getProp (getProp (getProp v ''geology'') ''heightField'') ''values''))))
       \<and> (isRecord v \<and> isRecord (getProp v ''biosphere'')
            \<and> isRecord (getProp (getProp v ''biosphere'') ''biomeMap'') \<longrightarrow>
           cells (biomeMap (biosphere s)) =
             fitToLength
               (nat (bm_width (biomeMap (biosphere s)) * bm_height (biomeMap (biosphere s))))
               \<lparr> biome = ''ocean'', biodiversity = Finite 0 \<rparr>
               (List.map_filter normalizeBiomeCell
                  (arrayEntries
                     (getProp (getProp (getProp v ''biosphere'') ''biomeMap'') ''cells''))))"
proof -
  have valid: "validPlanetState s"
    using assms by (rule migratePlanetState_valid)
  then have g1: "int (length (hf_values (heightField (geology s)))) =
           hf_width (heightField (geology s)) * hf_height (heightField (geology s))"
    by (simp add: validPlanetState_def validGeology_def validHeightField_def)
  from valid have g2: "int (length (cells (biomeMap (biosphere s)))) =
           bm_width (biomeMap (biosphere s)) * bm_height (biomeMap (biosphere s))"
    by (simp add: validPlanetState_def validBiosphere_def validBiomeMap_def)
  have g3: "hf_values (heightField (geology s)) =
             fitToLength
               (nat (hf_width (heightField (geology s)) * hf_height (heightField (geology s))))
               (Finite 0)
               (map (\<lambda>entry. ensureNumber entry (Finite 0))
                  (arrayEntries
                     (getProp (getProp (getProp v ''geology'') ''heightField'') ''values'')))"
    if r: "isRecord v" "isRecord (getProp v ''geology'')"
          "isRecord (getProp (getProp v ''geology'') ''heightField'')"
  proof -
    from assms r(1) have n: "normalizePlanetStateV1 v = Inr s"
      unfolding migratePlanetState_record[OF r(1)]
      by (auto split: jsvalue.splits number.splits if_splits)
    then obtain geo where geo: "normalizeGeology (getProp v ''geology'') = Inr geo"
      and sg: "geology s = geo"
      by (auto simp: normalizePlanetStateV1_def split: sum.splits)
    from geo r(2) obtain hf where
      hf: "normalizeHeightField (getProp (getProp v ''geology'') ''heightField'') = Inr hf"
      and gh: "heightField geo = hf"
      by (auto simp: normalizeGeology_def Let_def split: sum.splits)
    from hf show ?thesis
      unfolding normalizeHeightField_record[OF r(3)] Let_def sg gh
      by (auto split: if_splits)
  qed
  have g4: "cells (biomeMap (biosphere s)) =
             fitToLength
               (nat (bm_width (biomeMap (biosphere s)) * bm_height (biomeMap (biosphere s))))
               \<lparr> biome = ''ocean'', biodiversity = Finite 0 \<rparr>
               (List.map_filter normalizeBiomeCell
                  (arrayEntries
                     (getProp (getProp (getProp v ''biosphere'') ''biomeMap'') ''cells'')))"
    if r: "isRecord v" "isRecord (getProp v ''biosphere'')"
          "isRecord (getProp (getProp v ''biosphere'') ''biomeMap'')"
  proof -
    from assms r(1) have n: "normalizePlanetStateV1 v = Inr s"
      unfolding migratePlanetState_record[OF r(1)]
      by (auto split: jsvalue.splits number.splits if_splits)
    then obtain bio where bio: "normalizeBiosphere (getProp v ''biosphere'') = Inr bio"
      and sb: "biosphere s = bio"
      by (auto simp: normalizePlanetStateV1_def split: sum.splits)
    from bio r(2) obtain bm where
      bm: "normalizeBiomeMap (getProp (getProp v ''biosphere'') ''biomeMap'') = Inr bm"
      and bb: "biomeMap bio = bm"
      by (auto simp: normalizeBiosphere_def Let_def split: sum.splits)
    from bm show ?thesis
      unfolding normalizeBiomeMap_record[OF r(3)] Let_def sb bb
      by (auto split: if_splits)
  qed
  from g1 g2 g3 g4 show ?thesis by blast
qed

theorem grid_invariant_witness:
  "migratePlanetState examplePayload = Inr exampleState
   \<and> isRecord examplePayload
   \<and> isRecord (getProp examplePayload ''geology'')
   \<and> isRecord (getProp (getProp examplePayload ''geology'') ''heightField'')
   \<and> isRecord (getProp examplePayload ''biosphere'')
   \<and> isRecord (getProp (getProp examplePayload ''biosphere'') ''biomeMap'')
   \<and> hf_values (heightField (geology exampleState)) = [Finite 7, Finite 0]
   \<and> int (length (hf_values (heightField (geology exampleState)))) = 2 * 1
   \<and> int (length (cells (biomeMap (biosphere exampleState)))) = 64 * 32"
proof -
  note t = grid_invariant[OF examplePayload_normal]
  have r: "isRecord examplePayload"
      "isRecord (getProp examplePayload ''geology'')"
      "isRecord (getProp (getProp examplePayload ''geology'') ''heightField'')"
      "isRecord (getProp examplePayload ''biosphere'')"
      "isRecord (getProp (getProp examplePayload ''biosphere'') ''biomeMap'')"
    by (simp_all add: examplePayload_def)
  have d: "hf_width (heightField (geology exampleState)) = 2"
      "hf_height (heightField (geology exampleState)) = 1"
      "bm_width (biomeMap (biosphere exampleState)) = 64"
      "bm_height (biomeMap (biosphere exampleState)) = 32"
      "hf_values (heightField (geology exampleState)) = [Finite 7, Finite 0]"
    by (simp_all add: exampleState_def default_biome_map)
  from t have "int (length (hf_values (heightField (geology exampleState)))) = 2 * 1"
      "int (length (cells (biomeMap (biosphere exampleState)))) = 64 * 32"
    unfolding d by blast+
  with r d examplePayload_normal show ?thesis
    by blast
qed

lemma normalize_sections_of_missing:
  "normalizeAtmosphere Undefined = createDefaultAtmosphereState"
  "normalizeGeology Undefined = Inr createDefaultGeologyState"
  "normalizeHydrology Undefined = createDefaultHydrologyState"
  "normalizeBiosphere Undefined = Inr createDefaultBiosphereState"
  "normalizeCivilization Undefined = createDefaultCivilizationState"
  "normalizeClimate Undefined = createDefaultClimateState"
  by (simp_all add: normalizeAtmosphere_def normalizeGeology_def normalizeHydrology_def
        normalizeBiosphere_def normalizeCivilization_def normalizeClimate_def)

text \<open>
  C3. Normalisation of an object whose version resolves to the supported one is claimed never
  to raise. It raises on a height field of 65536 by 65536 entries: no values are given, so
  all \<open>2^32\<close> are to be padded, and the array constructor refuses that length.
\<close>

theorem normalize_raises_on_huge_grid:
  "isRecord hugeGridPayload
   \<and> ensurePositiveInteger (getProp hugeGridPayload ''version'') PLANET_STATE_VERSION 1
       = PLANET_STATE_VERSION
   \<and> normalizePlanetStateV1 hugeGridPayload = Inl InvalidArrayLength
   \<and> migratePlanetState hugeGridPayload = Inl InvalidArrayLength"
proof -
  have r: "isRecord hugeGridPayload"
    by (simp add: hugeGridPayload_def)
  have v: "getProp hugeGridPayload ''version'' = Num (Finite 1)"
    by (simp add: hugeGridPayload_def numJS_def)
  have g: "normalizeGeology (getProp hugeGridPayload ''geology'') = Inl InvalidArrayLength"
    by (simp add: hugeGridPayload_def normalizeGeology_def normalizeHeightField_record Let_def
          arrayEntries_def numJS_def)
  have n: "normalizePlanetStateV1 hugeGridPayload = Inl InvalidArrayLength"
    by (simp add: normalizePlanetStateV1_def g)
  show ?thesis
    unfolding migratePlanetState_record[OF r] v
    by (simp add: r n PLANET_STATE_VERSION_def)
qed

text \<open>
  C4, as stated: migration is claimed to fail whenever the version tag is not the supported
  version. A tag of 0 is not the supported version, and the state is normalised all the same.
\<close>

theorem migrate_accepts_version_zero:
  "(0::int) \<noteq> PLANET_STATE_VERSION
   \<and> migratePlanetState (Obj [(''version'', Num (Finite 0))]) = Inr createDefaultPlanetState"
proof -
  have "normalizePlanetStateV1 (Obj [(''version'', Num (Finite 0))]) =
      Inr createDefaultPlanetState"
    by (simp add: normalizePlanetStateV1_def normalize_sections_of_missing
          createDefaultPlanetState_def)
  then show ?thesis
    by (simp add: migratePlanetState_record PLANET_STATE_VERSION_def)
qed

text \<open>
  C4, amended. On an object, migration resolves the version: the floor of a finite numeric
  tag, and the supported version for any other tag and for a tag below 1. It fails with the
  unsupported-version error exactly when the resolved version exceeds the supported one, and
  otherwise returns what the normaliser of the supported version returns.
\<close>

theorem migrate_version_dispatch:
  assumes "isRecord v"
  shows "deserializePlanetState E v =
     (case getProp v ''version'' of
        Num (Finite r) \<Rightarrow>
          if \<lfloor>r\<rfloor> > PLANET_STATE_VERSION then Inl (UnsupportedPlanetStateVersion \<lfloor>r\<rfloor>)
          else normalizePlanetStateV1 v
      | _ \<Rightarrow> normalizePlanetStateV1 v)"
proof -
  from assms obtain fs where "v = Obj fs"
    by (cases v) simp_all
  then have "deserializePlanetState E v = migratePlanetState v"
    by (simp add: deserializePlanetState_def)
  then show ?thesis
    unfolding PLANET_STATE_VERSION_def
    by (simp add: migratePlanetState_record[OF assms])
qed

theorem migrate_version_dispatch_witness:
  "isRecord (Obj [(''version'', Num (Finite 2))])
   \<and> deserializePlanetState examplePlatform (Obj [(''version'', Num (Finite 2))])
       = Inl (UnsupportedPlanetStateVersion 2)"
  using migrate_version_dispatch[of "Obj [(''version'', Num (Finite 2))]" examplePlatform]
  by (simp add: PLANET_STATE_VERSION_def)


section \<open>The round trip through JSON text\<close>

lemma negativeZero_normal: "migratePlanetState negativeZeroPayload = Inr negativeZeroState"
proof -
  have r: "isRecord negativeZeroPayload"
    by (simp add: negativeZeroPayload_def)
  have v: "getProp negativeZeroPayload ''version'' = Num (Finite 1)"
    by (simp add: negativeZeroPayload_def numJS_def)
  have h: "normalizeHydrology (getProp negativeZeroPayload ''hydrology'')
      = createDefaultHydrologyState \<lparr> oceanCoverage := NegZero \<rparr>"
    by (simp add: negativeZeroPayload_def normalizeHydrology_def Let_def clamp01_def
          createDefaultHydrologyState_def normalizeRiverNetwork_def normalizeIceCaps_def)
  have rest: "getProp negativeZeroPayload ''atmosphere'' = Undefined"
      "getProp negativeZeroPayload ''geology'' = Undefined"
      "getProp negativeZeroPayload ''biosphere'' = Undefined"
      "getProp negativeZeroPayload ''civilization'' = Undefined"
      "getProp negativeZeroPayload ''climate'' = Undefined"
    by (simp_all add: negativeZeroPayload_def)
  show ?thesis
    unfolding migratePlanetState_record[OF r] v
    by (simp add: normalizePlanetStateV1_def rest normalize_sections_of_missing h
          negativeZeroState_def createDefaultPlanetState_def)
qed

lemma negativeZeroState_positive:
  "planetStatePositiveZeros negativeZeroState = positiveZeroState"
proof -
  have h: "hydrologyPositiveZeros (createDefaultHydrologyState \<lparr> oceanCoverage := NegZero \<rparr>)
      = createDefaultHydrologyState \<lparr> oceanCoverage := Finite 0 \<rparr>"
    by (simp add: hydrologyPositiveZeros_def createDefaultHydrologyState_def
          riverNetworkPositiveZeros_def createDefaultRiverNetworkState_def
          iceCapsPositiveZeros_def createDefaultIceCapsState_def)
  have "planetStatePositiveZeros negativeZeroState
      = planetStatePositiveZeros createDefaultPlanetState
          \<lparr> hydrology := createDefaultHydrologyState \<lparr> oceanCoverage := Finite 0 \<rparr> \<rparr>"
    by (simp add: planetStatePositiveZeros_def negativeZeroState_def h
          createDefaultPlanetState_def)
  then show ?thesis
    by (simp add: default_state_positive positiveZeroState_def)
qed

text \<open>
  C1, as stated: a state that deserialisation returned is claimed to be returned again by
  deserialising its serialisation. The state that deserialisation makes of the text
  \<^verbatim>\<open>{"version":1,"hydrology":{"oceanCoverage":-0}}\<close> has the ocean coverage \<open>-0\<close>;
  \<^verbatim>\<open>JSON.stringify\<close> prints it as \<^verbatim>\<open>0\<close>, and the state that comes back has the ocean coverage
  \<open>+0\<close>, which is another number.
\<close>

theorem roundtrip_loses_negative_zero:
  "deserializePlanetState negativeZeroPlatform (Str negativeZeroText) = Inr negativeZeroState
   \<and> deserializePlanetState negativeZeroPlatform
         (Str (serializePlanetState negativeZeroPlatform negativeZeroState))
       = Inr positiveZeroState
   \<and> oceanCoverage (hydrology negativeZeroState) = NegZero
   \<and> oceanCoverage (hydrology positiveZeroState) = Finite 0
   \<and> positiveZeroState \<noteq> negativeZeroState"
proof -
  have p: "JSON_parse negativeZeroPlatform negativeZeroText = Some negativeZeroPayload"
    by (simp add: negativeZeroPlatform_def tablePlatform_def)
  have d: "deserializePlanetState negativeZeroPlatform (Str negativeZeroText)
      = Inr negativeZeroState"
    by (simp add: deserializePlanetState_def p negativeZero_normal)
  have valid: "validPlanetState negativeZeroState"
    using negativeZero_normal by (rule migratePlanetState_valid)
  have img: "jsonImage (planetStateJS negativeZeroState) = planetStateJS positiveZeroState"
    by (simp add: planetState_json[OF valid] negativeZeroState_positive)
  have ne: "negativeZeroPayload \<noteq> planetStateJS positiveZeroState"
    by (simp add: negativeZeroPayload_def planetStateJS_def)
  have str: "JSON_stringify negativeZeroPlatform (planetStateJS negativeZeroState)
      = ''JSON.stringify(negativeZeroState)''"
    using ne by (simp add: negativeZeroPlatform_def tablePlatform_def img)
  have reread: "JSON_parse negativeZeroPlatform ''JSON.stringify(negativeZeroState)''
      = Some (planetStateJS positiveZeroState)"
    by (simp add: negativeZeroPlatform_def tablePlatform_def negativeZeroText_def)
  have "validPlanetState positiveZeroState"
    using planetState_positive_valid[OF valid] by (simp add: negativeZeroState_positive)
  then have m: "migratePlanetState (planetStateJS positiveZeroState) = Inr positiveZeroState"
    by (rule migratePlanetState_fix)
  have s: "deserializePlanetState negativeZeroPlatform
         (Str (serializePlanetState negativeZeroPlatform negativeZeroState))
       = Inr positiveZeroState"
    by (simp add: deserializePlanetState_def serializePlanetState_def str reread m)
  have o: "oceanCoverage (hydrology negativeZeroState) = NegZero"
      "oceanCoverage (hydrology positiveZeroState) = Finite 0"
    by (simp_all add: negativeZeroState_def positiveZeroState_def)
  then have "positiveZeroState \<noteq> negativeZeroState"
    by (metis number.distinct(1))
  with d s o show ?thesis
    by blast
qed

text \<open>
  C1, amended. On a host whose \<^verbatim>\<open>JSON.parse\<close> reads the text of \<^verbatim>\<open>JSON.stringify\<close> back as
  the JSON image of the state, deserialising the serialisation of a state that is the default
  state, or that deserialisation returned, returns that state with every negative zero among
  its numbers replaced by the positive zero. It returns the state itself exactly when the
  state holds no negative zero, as is the case of the default state.
\<close>

theorem serialize_roundtrip:
  assumes "s = createDefaultPlanetState \<or> deserializePlanetState E payload = Inr s"
    and "JSON_parse E (JSON_stringify E (planetStateJS s)) = Some (jsonImage (planetStateJS s))"
  shows "deserializePlanetState E (Str (serializePlanetState E s))
           = Inr (planetStatePositiveZeros s)
       \<and> ((deserializePlanetState E (Str (serializePlanetState E s)) = Inr s)
            = (planetStatePositiveZeros s = s))
       \<and> (s = createDefaultPlanetState \<longrightarrow>
            deserializePlanetState E (Str (serializePlanetState E s)) = Inr s)"
proof -
  have valid: "validPlanetState s"
    using assms(1) default_planet_state_valid deserializePlanetState_valid by blast
  then have "validPlanetState (planetStatePositiveZeros s)"
    by (rule planetState_positive_valid)
  then have "migratePlanetState (planetStateJS (planetStatePositiveZeros s))
      = Inr (planetStatePositiveZeros s)"
    by (rule migratePlanetState_fix)
  with assms(2) have r: "deserializePlanetState E (Str (serializePlanetState E s))
           = Inr (planetStatePositiveZeros s)"
    by (simp add: deserializePlanetState_def serializePlanetState_def planetState_json[OF valid])
  then show ?thesis
    using default_state_positive by auto
qed

lemma exampleState_valid: "validPlanetState exampleState"
  using examplePayload_normal by (rule migratePlanetState_valid)

lemma exampleState_positive: "planetStatePositiveZeros exampleState = exampleState"
  by (simp add: planetStatePositiveZeros_def exampleState_def
        atmospherePositiveZeros_def createDefaultAtmosphereState_def gasPositiveZeros_def
        geologyPositiveZeros_def heightFieldPositiveZeros_def
        hydrologyPositiveZeros_def createDefaultHydrologyState_def
        riverNetworkPositiveZeros_def createDefaultRiverNetworkState_def
        iceCapsPositiveZeros_def createDefaultIceCapsState_def
        biospherePositiveZeros_def
        biomeMapPositiveZeros_def default_biome_map biomeCellPositiveZeros_def
        civilizationPositiveZeros_def createDefaultCivilizationState_def
        climatePositiveZeros_def)

lemma exampleState_json: "jsonImage (planetStateJS exampleState) = planetStateJS exampleState"
  by (simp add: planetState_json[OF exampleState_valid] exampleState_positive)

lemma examplePlatform_stringify_state:
  "JSON_stringify examplePlatform (planetStateJS exampleState) = ''JSON.stringify(exampleState)''"
  by (simp add: examplePlatform_def tablePlatform_def jsonTable_def exampleState_json)
     (simp add: planetStateJS_def numJS_def)

lemma examplePlatform_parse_state:
  "JSON_parse examplePlatform ''JSON.stringify(exampleState)'' = Some (planetStateJS exampleState)"
  by (simp add: examplePlatform_def tablePlatform_def jsonTable_def)

theorem serialize_roundtrip_witness:
  "deserializePlanetState examplePlatform examplePayload = Inr exampleState
   \<and> JSON_parse examplePlatform (JSON_stringify examplePlatform (planetStateJS exampleState))
       = Some (jsonImage (planetStateJS exampleState))
   \<and> planetStatePositiveZeros exampleState = exampleState
   \<and> deserializePlanetState examplePlatform (Str (serializePlanetState examplePlatform exampleState))
       = Inr exampleState"
proof -
  have d: "deserializePlanetState examplePlatform examplePayload = Inr exampleState"
    using examplePayload_normal
    by (simp add: deserializePlanetState_def examplePayload_def)
  have j: "JSON_parse examplePlatform (JSON_stringify examplePlatform (planetStateJS exampleState))
       = Some (jsonImage (planetStateJS exampleState))"
    by (simp only: examplePlatform_stringify_state examplePlatform_parse_state
          exampleState_json)
  note t = serialize_roundtrip[OF disjI2, OF d j]
  from t exampleState_positive have "deserializePlanetState examplePlatform
      (Str (serializePlanetState examplePlatform exampleState)) = Inr exampleState"
    by simp
  with d j exampleState_positive show ?thesis
    by blast
qed
section \<open>Save records\<close>

lemma parseSavePayload_record:
  assumes "isRecord raw" "hasProp ''version'' raw"
    and "save_ensurePositiveInteger (getProp raw ''version'') = Some PLANET_SAVE_FORMAT_VERSION"
  shows "parseSavePayload E raw expectedSlot = normalizePlanetSaveV1 E raw expectedSlot"
proof -
  from assms(1) obtain fs where "raw = Obj fs"
    by (cases raw) simp_all
  with assms show ?thesis
    by (simp add: parseSavePayload_def PLANET_SAVE_NORMALIZERS_def Let_def)
qed

lemma parseSavePayload_text:
  assumes "JSON_parse E text = Some raw" "isRecord raw"
  shows "parseSavePayload E (Str text) expectedSlot = parseSavePayload E raw expectedSlot"
proof -
  from assms(2) obtain fs where "raw = Obj fs"
    by (cases raw) simp_all
  with assms show ?thesis
    by (simp add: parseSavePayload_def)
qed


lemma strictEquals_refl: "isFinite k \<Longrightarrow> strictEquals k k"
  by (cases k) simp_all


lemma ensureSlotIndex_finite: "ensureSlotIndex v = Some k \<Longrightarrow> isFinite k"
proof (cases v)
  case (Num n)
  assume "ensureSlotIndex v = Some k"
  with Num show ?thesis
    by (cases n) (auto simp: Let_def split: if_splits)
qed simp_all

lemma normalizePlanetSaveV1_ok:
  assumes "isRecord (getProp payload ''metadata'')"
    and "ensureSlotIndex (getProp (getProp payload ''metadata'') ''slot'') = Some k"
    and "expectedSlot = None \<or> (\<exists>j. expectedSlot = Some j \<and> strictEquals k j)"
    and "hasProp ''planetStateVersion'' payload"
    and "save_ensurePositiveInteger (getProp payload ''planetStateVersion'') = Some 1"
    and "hasProp ''planetState'' payload"
    and "deserializePlanetState E (getProp payload ''planetState'') = Inr ps"
  shows "\<exists>save. normalizePlanetSaveV1 E payload expectedSlot = Inr save
           \<and> slot (metadata save) = k \<and> planetState save = ps
           \<and> planetStateVersion save = version ps
           \<and> formatVersion save = PLANET_SAVE_FORMAT_VERSION"
  using assms
  by (auto simp: normalizePlanetSaveV1_def Let_def PLANET_STATE_VERSION_def)



lemma saved_payload_props:
  "isRecord (buildSerializedSavePayload ps md)"
  "hasProp ''version'' (buildSerializedSavePayload ps md)"
  "save_ensurePositiveInteger (getProp (buildSerializedSavePayload ps md) ''version'')
     = Some PLANET_SAVE_FORMAT_VERSION"
  "getProp (buildSerializedSavePayload ps md) ''metadata'' = metadataJS md"
  "hasProp ''planetStateVersion'' (buildSerializedSavePayload ps md)"
  "getProp (buildSerializedSavePayload ps md) ''planetStateVersion'' = numJS (of_int (version ps))"
  "hasProp ''planetState'' (buildSerializedSavePayload ps md)"
  "getProp (buildSerializedSavePayload ps md) ''planetState'' = planetStateJS ps"
  by (simp_all add: buildSerializedSavePayload_def PLANET_SAVE_FORMAT_VERSION_def numJS_def
        Let_def)


lemma deserialize_state_object:
  "validPlanetState ps \<Longrightarrow> deserializePlanetState E (planetStateJS ps) = Inr ps"
  using migratePlanetState_fix[of ps]
  by (simp add: deserializePlanetState_def planetStateJS_def)

lemma saved_payload_json:
  assumes "validPlanetState ps" "isFinite (slot md)"
  shows "jsonImage (buildSerializedSavePayload ps md)
       = buildSerializedSavePayload (planetStatePositiveZeros ps)
           (md \<lparr> slot := positiveZero (slot md) \<rparr>)"
  using assms
  by (simp add: buildSerializedSavePayload_def metadataJS_def planetState_json
        section_images_defined planetStatePositiveZeros_def)



lemma table_platforms_accept [simp]:
  "Storage_accepts (tablePlatform json dates now) items key v"
  "Storage_accepts examplePlatform items key v"
  "Storage_accepts brightPlatform items key v"
  "Storage_accepts resavePlatform items key v"
  by (simp_all add: tablePlatform_def examplePlatform_def brightPlatform_def
        resavePlatform_def)

lemma integerOf_values [simp]:
  "integerOf (Finite 0) = 0" "integerOf (Finite 1) = 1" "integerOf (Finite 2) = 2"
  "integerOf NegZero = 0"
  by (simp_all add: integerOf_def)

lemma assertValidSlotIndex_values [simp]:
  "assertValidSlotIndex (Finite 0) = Inr ()" "assertValidSlotIndex (Finite 1) = Inr ()"
  "assertValidSlotIndex (Finite 2) = Inr ()" "assertValidSlotIndex NegZero = Inr ()"
  by (simp_all add: assertValidSlotIndex_def isInteger_def SAVE_SLOT_COUNT_def)


lemma getSlotKey_values:
  "getSlotKey 0 = ''planet-save-slot-0''"
  "getSlotKey 1 = ''planet-save-slot-1''"
  "getSlotKey 2 = ''planet-save-slot-2''"
  by (simp_all add: getSlotKey_def SAVE_SLOT_KEY_PREFIX_def intToString_def)

lemma defaultSlotLabel_values:
  "defaultSlotLabel 0 = ''Slot 1''"
  "defaultSlotLabel 1 = ''Slot 2''"
  "defaultSlotLabel 2 = ''Slot 3''"
  by (simp_all add: defaultSlotLabel_def intToString_def)

lemma trim_slot_labels:
  "trim ''Slot 1'' = ''Slot 1''" "trim ''Slot 2'' = ''Slot 2''" "trim ''Slot 3'' = ''Slot 3''"
  by (simp_all add: trim_def isWhiteSpace_def)

lemma sanitizeLabel_slot_labels:
  "sanitizeLabel (Str ''Slot 1'') fb = ''Slot 1''"
  "sanitizeLabel (Str ''Slot 2'') fb = ''Slot 2''"
  "sanitizeLabel (Str ''Slot 3'') fb = ''Slot 3''"
  by (simp_all add: sanitizeLabel_def trim_slot_labels MAX_LABEL_LENGTH_def)










section \<open>Listing the slots\<close>

lemma first_maximum_foldl:
  fixes k :: "'a \<Rightarrow> 'b::linorder"
  defines "p \<equiv> \<lambda>l as. foldl (\<lambda>l a. if k l < k a then a else l) l as"
  shows "\<exists>i<Suc (length as). (l # as) ! i = p l as
           \<and> (\<forall>j<Suc (length as). k ((l # as) ! j) \<le> k (p l as))
           \<and> (\<forall>j<i. k ((l # as) ! j) < k (p l as))"
proof (induction as rule: rev_induct)
  case Nil
  then show ?case by (simp add: p_def)
next
  case (snoc a as)
  then obtain i where i: "i < Suc (length as)" "(l # as) ! i = p l as"
    and le: "\<forall>j<Suc (length as). k ((l # as) ! j) \<le> k (p l as)"
    and lt: "\<forall>j<i. k ((l # as) ! j) < k (p l as)"
    by blast
  have nth_old: "(l # as @ [a]) ! j = (l # as) ! j" if "j < Suc (length as)" for j
    using that by (metis append_Cons length_Cons nth_append)
  have nth_new: "(l # as @ [a]) ! Suc (length as) = a"
    by (metis append_Cons length_Cons nth_append_length)
  show ?case
  proof (cases "k (p l as) < k a")
    case True
    then have pa: "p l (as @ [a]) = a"
      by (simp add: p_def)
    have "\<forall>j<Suc (length (as @ [a])). k ((l # as @ [a]) ! j) \<le> k a"
    proof (intro allI impI)
      fix j assume "j < Suc (length (as @ [a]))"
      then consider "j < Suc (length as)" | "j = Suc (length as)" by fastforce
      then show "k ((l # as @ [a]) ! j) \<le> k a"
      proof cases
        case 1
        with le True nth_old show ?thesis by (metis le_less_trans less_imp_le)
      next
        case 2
        with nth_new show ?thesis by simp
      qed
    qed
    moreover have "\<forall>j<Suc (length as). k ((l # as @ [a]) ! j) < k a"
      using le True nth_old by (metis le_less_trans)
    ultimately show ?thesis
      unfolding pa
      by (intro exI[of _ "Suc (length as)"]) (simp add: nth_new)
  next
    case False
    then have pa: "p l (as @ [a]) = p l as"
      by (simp add: p_def)
    have "\<forall>j<Suc (length (as @ [a])). k ((l # as @ [a]) ! j) \<le> k (p l as)"
    proof (intro allI impI)
      fix j assume "j < Suc (length (as @ [a]))"
      then consider "j < Suc (length as)" | "j = Suc (length as)" by fastforce
      then show "k ((l # as @ [a]) ! j) \<le> k (p l as)"
      proof cases
        case 1
        with le nth_old show ?thesis by simp
      next
        case 2
        with nth_new False show ?thesis by simp
      qed
    qed
    moreover have "\<forall>j<i. k ((l # as @ [a]) ! j) < k (p l as)"
      using lt i(1) nth_old by simp
    moreover have "(l # as @ [a]) ! i = p l as"
      using i nth_old by simp
    ultimately show ?thesis
      unfolding pa using i(1)
      by (intro exI[of _ i]) simp
  qed
qed

lemma find_first_maximum:
  fixes k :: "'a \<Rightarrow> 'b::linorder"
  shows "find (\<lambda>a. list_all (\<lambda>b. k b \<le> k a) (l # as)) (l # as)
           = Some (foldl (\<lambda>l a. if k l < k a then a else l) l as)"
proof -
  let ?p = "foldl (\<lambda>l a. if k l < k a then a else l) l as"
  from first_maximum_foldl[where l = l and as = as and k = k]
  obtain i where i: "i < Suc (length as)" "(l # as) ! i = ?p"
    and le: "\<forall>j<Suc (length as). k ((l # as) ! j) \<le> k ?p"
    and lt: "\<forall>j<i. k ((l # as) ! j) < k ?p"
    by blast
  have P: "list_all (\<lambda>b. k b \<le> k ((l # as) ! i)) (l # as)"
    unfolding list_all_length i(2) using le by simp
  have notP: "\<not> list_all (\<lambda>b. k b \<le> k ((l # as) ! j)) (l # as)" if "j < i" for j
  proof
    assume "list_all (\<lambda>b. k b \<le> k ((l # as) ! j)) (l # as)"
    then have "k ((l # as) ! i) \<le> k ((l # as) ! j)"
      unfolding list_all_length using i(1) by simp
    with lt that i(2) show False by (metis not_le)
  qed
  show ?thesis
    unfolding find_Some_iff
    using i P notP by (intro exI[of _ i]) simp
qed

lemma normalizePlanetSaveV1_error_kinds:
  assumes "normalizePlanetSaveV1 E payload x = Inl e"
  shows "(\<exists>m. e = PlanetSaveCorruptedError m) \<or> (\<exists>m. e = PlanetSaveIncompatibleError m)"
  using assms
  unfolding normalizePlanetSaveV1_def Let_def
  by (auto split: if_splits option.splits sum.splits)

lemma parseSavePayload_error_kinds:
  assumes "parseSavePayload E payload x = Inl e"
  shows "(\<exists>m. e = PlanetSaveCorruptedError m) \<or> (\<exists>m. e = PlanetSaveUnsupportedVersionError m)
       \<or> (\<exists>m. e = PlanetSaveIncompatibleError m)"
proof -
  have n: "(\<exists>m. e = PlanetSaveCorruptedError m) \<or> (\<exists>m. e = PlanetSaveIncompatibleError m)"
    if "normalizePlanetSaveV1 E raw x = Inl e" for raw
    using that by (rule normalizePlanetSaveV1_error_kinds)
  from assms show ?thesis
    unfolding parseSavePayload_def PLANET_SAVE_NORMALIZERS_def Let_def
    by (auto split: if_splits option.splits sum.splits jsvalue.splits dest: n)
qed

lemma listPlanetSaveSlots_body_total:
  "\<exists>summary. listPlanetSaveSlots_body E storage k = Inr summary
     \<and> (getItem storage (getSlotKey k) = None \<longrightarrow> status summary = status_empty)
     \<and> (\<forall>text. getItem storage (getSlotKey k) = Some text \<longrightarrow>
          (case parseSavePayload E (Str text) (Some (Finite (of_int k))) of
             Inr save \<Rightarrow> status summary = status_available
           | Inl (PlanetSaveCorruptedError m) \<Rightarrow> status summary = status_corrupted
           | Inl _ \<Rightarrow> status summary = status_incompatible))"
proof (cases "getItem storage (getSlotKey k)")
  case None
  then show ?thesis
    by (simp add: listPlanetSaveSlots_body_def Let_def)
next
  case (Some stored)
  show ?thesis
  proof (cases "parseSavePayload E (Str stored) (Some (Finite (of_int k)))")
    case (Inr save)
    with Some show ?thesis
      by (simp add: listPlanetSaveSlots_body_def Let_def)
  next
    case (Inl e)
    from parseSavePayload_error_kinds[OF Inl] Some Inl show ?thesis
      by (auto simp: listPlanetSaveSlots_body_def Let_def)
  qed
qed

lemma listPlanetSaveSlots_total:
  "\<exists>s0 s1 s2. listPlanetSaveSlots_body E storage 0 = Inr s0
     \<and> listPlanetSaveSlots_body E storage 1 = Inr s1
     \<and> listPlanetSaveSlots_body E storage 2 = Inr s2
     \<and> listPlanetSaveSlots E storage = Inr [s0, s1, s2]"
proof -
  from listPlanetSaveSlots_body_total[of E storage 0]
  obtain s0 where s0: "listPlanetSaveSlots_body E storage 0 = Inr s0" by blast
  from listPlanetSaveSlots_body_total[of E storage 1]
  obtain s1 where s1: "listPlanetSaveSlots_body E storage 1 = Inr s1" by blast
  from listPlanetSaveSlots_body_total[of E storage 2]
  obtain s2 where s2: "listPlanetSaveSlots_body E storage 2 = Inr s2" by blast
  have "listPlanetSaveSlots_loop E storage 3 [s0, s1, s2] = Inr [s0, s1, s2]"
    by (subst listPlanetSaveSlots_loop.simps) (simp add: SAVE_SLOT_COUNT_def)
  then have "listPlanetSaveSlots_loop E storage 2 [s0, s1] = Inr [s0, s1, s2]"
    by (subst listPlanetSaveSlots_loop.simps) (simp add: SAVE_SLOT_COUNT_def s2)
  then have "listPlanetSaveSlots_loop E storage 1 [s0] = Inr [s0, s1, s2]"
    by (subst listPlanetSaveSlots_loop.simps) (simp add: SAVE_SLOT_COUNT_def s1)
  then have "listPlanetSaveSlots_loop E storage 0 [] = Inr [s0, s1, s2]"
    by (subst listPlanetSaveSlots_loop.simps) (simp add: SAVE_SLOT_COUNT_def s0)
  with s0 s1 s2 show ?thesis
    by (auto simp: listPlanetSaveSlots_def)
qed

lemma findMostRecent_loop_Some:
  "findMostRecentValidSaveSlot_loop E xs (Some l) =
     Some (foldl (\<lambda>l a. if updatedTime E l < updatedTime E a then a else l) l
             (availableSummaries xs))"
proof (induction xs arbitrary: l)
  case Nil
  then show ?case
    by (simp add: availableSummaries_def List.map_filter_simps)
next
  case (Cons x xs)
  show ?case
  proof (cases x)
    case (available a)
    show ?thesis
    proof (cases "updatedTime E a")
      case None
      then have "\<not> updatedTime E l < updatedTime E a"
        by simp
      with None available Cons show ?thesis
        by (simp add: availableSummaries_def List.map_filter_simps Let_def updatedTime_def)
    next
      case (Some c)
      show ?thesis
      proof (cases "updatedTime E l")
        case None
        with Some available Cons show ?thesis
          by (simp add: availableSummaries_def List.map_filter_simps Let_def updatedTime_def)
      next
        case (Some b)
        with \<open>updatedTime E a = Some c\<close> available Cons show ?thesis
          by (simp add: availableSummaries_def List.map_filter_simps Let_def updatedTime_def)
      qed
    qed
  qed (use Cons in \<open>simp_all add: availableSummaries_def List.map_filter_simps\<close>)
qed

lemma findMostRecent_loop_None:
  "findMostRecentValidSaveSlot_loop E xs None = mostRecentOf E (availableSummaries xs)"
proof (induction xs)
  case Nil
  then show ?case
    by (simp add: availableSummaries_def List.map_filter_simps mostRecentOf_def)
next
  case (Cons x xs)
  show ?case
  proof (cases x)
    case (available a)
    have "availableSummaries (x # xs) = a # availableSummaries xs"
      by (simp add: available availableSummaries_def List.map_filter_simps)
    then show ?thesis
      unfolding mostRecentOf_def
      by (simp only: find_first_maximum)
         (simp add: available findMostRecent_loop_Some)
  qed (use Cons in \<open>simp_all add: availableSummaries_def List.map_filter_simps\<close>)
qed

text \<open>
  C6. Listing never fails and returns one summary per slot. When slot 0 holds a text that
  is not JSON, slot 1 a record that parses for slot 1, and slot 2 nothing, the statuses
  are corrupted, available, empty. For every storage, the most recent valid slot is the
  first available summary whose parsed \<open>updatedAt\<close> no available summary exceeds, and there
  is none exactly when no summary is available.
\<close>

theorem listing_and_most_recent:
  "\<exists>summaries. listPlanetSaveSlots E storage = Inr summaries
     \<and> int (length summaries) = SAVE_SLOT_COUNT
     \<and> findMostRecentValidSaveSlot E storage =
           Inr (mostRecentOf E (availableSummaries summaries))
     \<and> (availableSummaries summaries = [] \<longleftrightarrow>
           findMostRecentValidSaveSlot E storage = Inr None)
     \<and> (getItem storage (getSlotKey 0) = Some t0 \<and> JSON_parse E t0 = None
          \<and> getItem storage (getSlotKey 1) = Some t1
          \<and> parseSavePayload E (Str t1) (Some (Finite 1)) = Inr save
          \<and> getItem storage (getSlotKey 2) = None \<longrightarrow>
          map status summaries = [status_corrupted, status_available, status_empty])"
proof -
  from listPlanetSaveSlots_total[of E storage]
  obtain s0 s1 s2 where b: "listPlanetSaveSlots_body E storage 0 = Inr s0"
      "listPlanetSaveSlots_body E storage 1 = Inr s1"
      "listPlanetSaveSlots_body E storage 2 = Inr s2"
    and l: "listPlanetSaveSlots E storage = Inr [s0, s1, s2]"
    by blast
  have f: "findMostRecentValidSaveSlot E storage =
           Inr (mostRecentOf E (availableSummaries [s0, s1, s2]))"
    by (simp add: findMostRecentValidSaveSlot_def l findMostRecent_loop_None)
  have n: "availableSummaries [s0, s1, s2] = [] \<longleftrightarrow>
           mostRecentOf E (availableSummaries [s0, s1, s2]) = None"
  proof (cases "availableSummaries [s0, s1, s2]")
    case Nil
    then show ?thesis by (simp add: mostRecentOf_def)
  next
    case (Cons a as)
    then show ?thesis
      unfolding mostRecentOf_def by (simp only: find_first_maximum) simp
  qed
  have sc: "map status [s0, s1, s2] = [status_corrupted, status_available, status_empty]"
    if h: "getItem storage (getSlotKey 0) = Some t0" "JSON_parse E t0 = None"
      "getItem storage (getSlotKey 1) = Some t1"
      "parseSavePayload E (Str t1) (Some (Finite 1)) = Inr save"
      "getItem storage (getSlotKey 2) = None"
  proof -
    have "parseSavePayload E (Str t0) (Some (Finite 0))
        = Inl (PlanetSaveCorruptedError NotValidJSON)"
      by (simp add: parseSavePayload_def h(2))
    with b(1) h(1) have "status s0 = status_corrupted"
      by (auto simp: listPlanetSaveSlots_body_def Let_def)
    moreover from b(2) h(3,4) have "status s1 = status_available"
      by (auto simp: listPlanetSaveSlots_body_def Let_def)
    moreover from b(3) h(5) have "status s2 = status_empty"
      by (auto simp: listPlanetSaveSlots_body_def Let_def)
    ultimately show ?thesis by simp
  qed
  show ?thesis
    using l f n sc
    by (intro exI[of _ "[s0, s1, s2]"]) (simp add: SAVE_SLOT_COUNT_def)
qed

lemma listing_slot1_parse:
  "parseSavePayload listingPlatform (Str slot1RecordText) (Some (Finite 1)) =
     Inr \<lparr> formatVersion = 1, metadata = av_metadata slot1Summary, planetStateVersion = 1,
           planetState = createDefaultPlanetState \<rparr>"
proof -
  have p: "JSON_parse listingPlatform slot1RecordText = Some slot1Record"
    by (simp add: listingPlatform_def tablePlatform_def)
  have r: "isRecord slot1Record" "hasProp ''version'' slot1Record"
      "save_ensurePositiveInteger (getProp slot1Record ''version'')
         = Some PLANET_SAVE_FORMAT_VERSION"
    by (simp_all add: slot1Record_def numJS_def PLANET_SAVE_FORMAT_VERSION_def Let_def)
  have dates: "Date_parse listingPlatform ''2024-01-02T09:00:00.000Z'' = Some 1704186000000"
      "Date_parse listingPlatform ''1970-01-01T00:00:00.000Z'' = Some 0"
      "toISOString listingPlatform 1704186000000 = ''2024-01-02T09:00:00.000Z''"
      "toISOString listingPlatform 0 = ''1970-01-01T00:00:00.000Z''"
    by (simp_all add: listingPlatform_def tablePlatform_def dateTable_def)
  have v: "version createDefaultPlanetState = 1"
    by (simp add: createDefaultPlanetState_def PLANET_STATE_VERSION_def)
  have "normalizePlanetSaveV1 listingPlatform slot1Record (Some (Finite 1)) =
     Inr \<lparr> formatVersion = 1, metadata = av_metadata slot1Summary, planetStateVersion = 1,
           planetState = createDefaultPlanetState \<rparr>"
    by (simp add: normalizePlanetSaveV1_def slot1Record_def Let_def numJS_def
          SAVE_SLOT_COUNT_def ensureISODate_def ISO_EPOCH_def dates defaultSlotLabel_values
          sanitizeLabel_def MAX_LABEL_LENGTH_def PLANET_STATE_VERSION_def
          deserializePlanetState_def
          migratePlanetState_def v slot1Summary_def PLANET_SAVE_FORMAT_VERSION_def)
  then show ?thesis
    by (simp add: parseSavePayload_text[OF p r(1)] parseSavePayload_record[OF r])
qed

theorem listing_and_most_recent_witness:
  "getItem listingStorage (getSlotKey 0) = Some ''not-json''
   \<and> JSON_parse listingPlatform ''not-json'' = None
   \<and> getItem listingStorage (getSlotKey 1) = Some slot1RecordText
   \<and> getItem listingStorage (getSlotKey 2) = None
   \<and> listPlanetSaveSlots listingPlatform listingStorage =
       Inr [corrupted 0 ''Slot 1'' NotValidJSON, available slot1Summary, empty 2 ''Slot 3'']
   \<and> findMostRecentValidSaveSlot listingPlatform listingStorage = Inr (Some slot1Summary)"
proof -
  have st: "getItem listingStorage (getSlotKey 0) = Some ''not-json''"
      "getItem listingStorage (getSlotKey 1) = Some slot1RecordText"
      "getItem listingStorage (getSlotKey 2) = None"
    by (simp_all add: listingStorage_def getSlotKey_values)
  have np: "JSON_parse listingPlatform ''not-json'' = None"
    by (simp add: listingPlatform_def tablePlatform_def slot1RecordText_def)
  have b: "listPlanetSaveSlots_body listingPlatform listingStorage 0 =
        Inr (corrupted 0 ''Slot 1'' NotValidJSON)"
      "listPlanetSaveSlots_body listingPlatform listingStorage 1 = Inr (available slot1Summary)"
      "listPlanetSaveSlots_body listingPlatform listingStorage 2 = Inr (empty 2 ''Slot 3'')"
    by (simp add: listPlanetSaveSlots_body_def st defaultSlotLabel_values Let_def
          parseSavePayload_def np,
        simp add: listPlanetSaveSlots_body_def st defaultSlotLabel_values Let_def
          listing_slot1_parse slot1Summary_def,
        simp add: listPlanetSaveSlots_body_def st defaultSlotLabel_values Let_def)
  from listing_and_most_recent[of listingPlatform listingStorage "''not-json''"
      slot1RecordText]
  obtain summaries where l: "listPlanetSaveSlots listingPlatform listingStorage = Inr summaries"
    and f: "findMostRecentValidSaveSlot listingPlatform listingStorage =
           Inr (mostRecentOf listingPlatform (availableSummaries summaries))"
    by blast
  from listPlanetSaveSlots_total[of listingPlatform listingStorage] l b
  have s: "summaries =
      [corrupted 0 ''Slot 1'' NotValidJSON, available slot1Summary, empty 2 ''Slot 3'']"
    by auto
  have "mostRecentOf listingPlatform (availableSummaries summaries) = Some slot1Summary"
    by (simp add: s availableSummaries_def List.map_filter_simps mostRecentOf_def)
  with st np l s f show ?thesis
    by simp
qed

section \<open>Timestamps of a save record\<close>

text \<open>What deserialisation does for the timestamps, on a host whose \<^verbatim>\<open>Date.parse\<close> reads
  the ISO string of a time value back as that time value: both timestamps of the returned
  record parse, and \<open>updatedAt\<close> is not before \<open>createdAt\<close>.\<close>

lemma ensureISODate_parses:
  assumes host: "\<And>t. Date_parse E (toISOString E t) = Some t"
    and "\<exists>c. Date_parse E fallback = Some c"
  shows "\<exists>c. Date_parse E (ensureISODate E v fallback) = Some c"
proof (cases v)
  case (Str s)
  then show ?thesis
    using assms by (cases "Date_parse E s") (simp_all add: ensureISODate_def)
qed (use assms in \<open>simp_all add: ensureISODate_def\<close>)

lemma normalize_updated_not_before_created:
  assumes "normalizePlanetSaveV1 E raw x = Inr save"
    and host: "\<And>t. Date_parse E (toISOString E t) = Some t"
  shows "\<exists>c u. Date_parse E (createdAt (metadata save)) = Some c
           \<and> Date_parse E (updatedAt (metadata save)) = Some u \<and> c \<le> u"
proof -
  define md where "md = getProp raw ''metadata''"
  define created where "created = ensureISODate E (getProp md ''createdAt'') (ISO_EPOCH E)"
  define candidate where "candidate = ensureISODate E (getProp md ''updatedAt'') created"
  have "\<exists>c. Date_parse E (ISO_EPOCH E) = Some c"
    by (simp add: ISO_EPOCH_def host)
  then have "\<exists>c. Date_parse E created = Some c"
    unfolding created_def by (rule ensureISODate_parses[OF host])
  then obtain c where c: "Date_parse E created = Some c" by blast
  then have "\<exists>u. Date_parse E candidate = Some u"
    unfolding candidate_def by (intro ensureISODate_parses[OF host]) blast
  then obtain u where u: "Date_parse E candidate = Some u" by blast
  from assms(1) have m: "createdAt (metadata save) = created"
      "updatedAt (metadata save) = (if u < c then created else toISOString E u)"
    unfolding normalizePlanetSaveV1_def Let_def md_def[symmetric] created_def[symmetric]
      candidate_def[symmetric] c u
    by (auto split: if_splits option.splits sum.splits)
  show ?thesis
    unfolding m using c by (auto simp: host)
qed

lemma deserialize_updated_not_before_created:
  assumes "deserializePlanetSave E payload x = Inr save"
    and host: "\<And>t. Date_parse E (toISOString E t) = Some t"
  shows "\<exists>c u. Date_parse E (createdAt (metadata save)) = Some c
           \<and> Date_parse E (updatedAt (metadata save)) = Some u \<and> c \<le> u"
proof -
  from assms(1) obtain raw where "normalizePlanetSaveV1 E raw x = Inr save"
    unfolding deserializePlanetSave_def parseSavePayload_def PLANET_SAVE_NORMALIZERS_def Let_def
    by (auto split: if_splits option.splits sum.splits jsvalue.splits)
  then show ?thesis
    using host by (rule normalize_updated_not_before_created)
qed

text \<open>
  C7. Every record the core produces is claimed to have \<open>updatedAt\<close> not before
  \<open>createdAt\<close>. Deserialisation forces it; saving does not: a save into a slot that holds a
  record created later than the save's timestamp keeps that \<open>createdAt\<close> and stamps the
  earlier \<open>updatedAt\<close>.
\<close>

lemma default_payload_json:
  "isFinite (slot md) \<Longrightarrow> slot md \<noteq> NegZero \<Longrightarrow>
     jsonImage (buildSerializedSavePayload createDefaultPlanetState md)
       = buildSerializedSavePayload createDefaultPlanetState md"
  using saved_payload_json[OF default_planet_state_valid, of md]
  by (simp add: default_state_positive positiveZero_id)

theorem save_stamps_updated_before_created:
  "savePlanetStateToSlot resavePlatform (LocalStorage Map.empty) (Finite 0)
       createDefaultPlanetState (Some firstSaveOptions)
     = Inr (\<lparr> formatVersion = 1, metadata = firstSaveMetadata, planetStateVersion = 1,
              planetState = createDefaultPlanetState \<rparr>, firstStorage)
   \<and> savePlanetStateToSlot resavePlatform firstStorage (Finite 0) createDefaultPlanetState
       (Some secondSaveOptions)
     = Inr (\<lparr> formatVersion = 1, metadata = secondSaveMetadata, planetStateVersion = 1,
              planetState = createDefaultPlanetState \<rparr>, secondStorage)
   \<and> Date_parse resavePlatform (createdAt secondSaveMetadata) = Some 1704186000000
   \<and> Date_parse resavePlatform (updatedAt secondSaveMetadata) = Some 1704103200000
   \<and> timeLess (Date_parse resavePlatform (updatedAt secondSaveMetadata))
         (Date_parse resavePlatform (createdAt secondSaveMetadata))"
proof -
  have dates: "Date_parse resavePlatform ''2024-01-02T09:00:00.000Z'' = Some 1704186000000"
      "Date_parse resavePlatform ''2024-01-01T10:00:00.000Z'' = Some 1704103200000"
      "toISOString resavePlatform 1704186000000 = ''2024-01-02T09:00:00.000Z''"
      "toISOString resavePlatform 1704103200000 = ''2024-01-01T10:00:00.000Z''"
    by (simp_all add: resavePlatform_def tablePlatform_def dateTable_def)
  have img: "jsonImage (buildSerializedSavePayload createDefaultPlanetState firstSaveMetadata)
        = buildSerializedSavePayload createDefaultPlanetState firstSaveMetadata"
      "jsonImage (buildSerializedSavePayload createDefaultPlanetState secondSaveMetadata)
        = buildSerializedSavePayload createDefaultPlanetState secondSaveMetadata"
    by (simp_all add: default_payload_json firstSaveMetadata_def secondSaveMetadata_def)
  have str1: "JSON_stringify resavePlatform
        (buildSerializedSavePayload createDefaultPlanetState firstSaveMetadata)
      = ''JSON.stringify(first save of slot 0)''"
    by (simp add: resavePlatform_def tablePlatform_def img)
  have ne: "buildSerializedSavePayload createDefaultPlanetState firstSaveMetadata
      \<noteq> buildSerializedSavePayload createDefaultPlanetState secondSaveMetadata"
    by (simp add: buildSerializedSavePayload_def metadataJS_def firstSaveMetadata_def
          secondSaveMetadata_def)
  have str2: "JSON_stringify resavePlatform
        (buildSerializedSavePayload createDefaultPlanetState secondSaveMetadata)
      = ''JSON.stringify(second save of slot 0)''"
    using ne by (simp add: resavePlatform_def tablePlatform_def img)
  have parse1: "JSON_parse resavePlatform ''JSON.stringify(first save of slot 0)''
      = Some (buildSerializedSavePayload createDefaultPlanetState firstSaveMetadata)"
    by (simp add: resavePlatform_def tablePlatform_def)
  have v: "version createDefaultPlanetState = 1"
    by (simp add: createDefaultPlanetState_def PLANET_STATE_VERSION_def)
  have first: "savePlanetStateToSlot resavePlatform (LocalStorage Map.empty) (Finite 0)
       createDefaultPlanetState (Some firstSaveOptions)
     = Inr (\<lparr> formatVersion = 1, metadata = firstSaveMetadata, planetStateVersion = 1,
              planetState = createDefaultPlanetState \<rparr>, firstStorage)"
    by (simp add: savePlanetStateToSlot_def SAVE_SLOT_COUNT_def
          tryReadSaveFromStorage_def readSaveFromStorage_def getSlotKey_values
          firstSaveOptions_def dates defaultSlotLabel_values sanitizeLabel_slot_labels Let_def
          str1[unfolded firstSaveMetadata_def] v firstSaveMetadata_def firstStorage_def
          PLANET_SAVE_FORMAT_VERSION_def)
  have norm: "normalizePlanetSaveV1 resavePlatform
        (buildSerializedSavePayload createDefaultPlanetState firstSaveMetadata)
        (Some (Finite 0))
      = Inr \<lparr> formatVersion = 1, metadata = firstSaveMetadata, planetStateVersion = 1,
              planetState = createDefaultPlanetState \<rparr>"
    by (simp add: normalizePlanetSaveV1_def saved_payload_props metadataJS_def Let_def
          firstSaveMetadata_def numJS_def SAVE_SLOT_COUNT_def ensureISODate_def dates
          defaultSlotLabel_values sanitizeLabel_slot_labels v PLANET_STATE_VERSION_def
          deserialize_state_object[OF default_planet_state_valid]
          PLANET_SAVE_FORMAT_VERSION_def)
  have existing: "tryReadSaveFromStorage resavePlatform firstStorage (Finite 0)
      = Inr (Some \<lparr> formatVersion = 1, metadata = firstSaveMetadata, planetStateVersion = 1,
              planetState = createDefaultPlanetState \<rparr>)"
    by (simp add: tryReadSaveFromStorage_def readSaveFromStorage_def getSlotKey_values
          firstStorage_def parseSavePayload_text[OF parse1 saved_payload_props(1)]
          parseSavePayload_record[OF saved_payload_props(1-3)] norm)
  have second: "savePlanetStateToSlot resavePlatform firstStorage (Finite 0)
       createDefaultPlanetState (Some secondSaveOptions)
     = Inr (\<lparr> formatVersion = 1, metadata = secondSaveMetadata, planetStateVersion = 1,
              planetState = createDefaultPlanetState \<rparr>, secondStorage)"
    by (simp add: savePlanetStateToSlot_def SAVE_SLOT_COUNT_def
          existing getSlotKey_values secondSaveOptions_def dates defaultSlotLabel_values
          Let_def v PLANET_SAVE_FORMAT_VERSION_def)
       (simp add: firstSaveMetadata_def secondSaveMetadata_def sanitizeLabel_slot_labels
          str2[unfolded secondSaveMetadata_def] firstStorage_def secondStorage_def v
          PLANET_SAVE_FORMAT_VERSION_def)
  from first second dates show ?thesis
    by (simp add: secondSaveMetadata_def)
qed

section \<open>Input that is not an object\<close>

text \<open>
  C10. For input that is not an object (a string counting by what it parses to),
  deserialisation returns the default state. So a save record of the supported format with
  valid metadata and planet state version, whose planet state is such a value, deserialises
  to a record that carries the default state.
\<close>

theorem non_object_state_is_default:
  assumes "notPlainObject E v"
  shows "deserializePlanetState E v = Inr createDefaultPlanetState
       \<and> (\<forall>payload k x.
            isRecord payload \<and> hasProp ''version'' payload
            \<and> save_ensurePositiveInteger (getProp payload ''version'')
                  = Some PLANET_SAVE_FORMAT_VERSION
            \<and> isRecord (getProp payload ''metadata'')
            \<and> ensureSlotIndex (getProp (getProp payload ''metadata'') ''slot'') = Some k
            \<and> (x = None \<or> (\<exists>j. x = Some j \<and> strictEquals k j))
            \<and> hasProp ''planetStateVersion'' payload
            \<and> save_ensurePositiveInteger (getProp payload ''planetStateVersion'')
                  = Some PLANET_STATE_VERSION
            \<and> hasProp ''planetState'' payload
            \<and> getProp payload ''planetState'' = v \<longrightarrow>
            (\<exists>save. deserializePlanetSave E payload x = Inr save
               \<and> slot (metadata save) = k
               \<and> planetState save = createDefaultPlanetState))"
proof -
  have d: "deserializePlanetState E v = Inr createDefaultPlanetState"
  proof (cases v)
    case (Str s)
    with assms obtain parsed where "JSON_parse E s = Some parsed" "\<not> isRecord parsed"
      by (auto split: option.splits)
    with Str show ?thesis
      by (simp add: deserializePlanetState_def migratePlanetState_def)
  qed (use assms in \<open>simp_all add: deserializePlanetState_def migratePlanetState_def\<close>)
  have s: "\<exists>save. deserializePlanetSave E payload x = Inr save
               \<and> slot (metadata save) = k
               \<and> planetState save = createDefaultPlanetState"
    if h: "isRecord payload" "hasProp ''version'' payload"
      "save_ensurePositiveInteger (getProp payload ''version'') = Some PLANET_SAVE_FORMAT_VERSION"
      "isRecord (getProp payload ''metadata'')"
      "ensureSlotIndex (getProp (getProp payload ''metadata'') ''slot'') = Some k"
      "x = None \<or> (\<exists>j. x = Some j \<and> strictEquals k j)"
      "hasProp ''planetStateVersion'' payload"
      "save_ensurePositiveInteger (getProp payload ''planetStateVersion'')
         = Some PLANET_STATE_VERSION"
      "hasProp ''planetState'' payload"
      "getProp payload ''planetState'' = v"
    for payload k x
  proof -
    from d h(10) have "deserializePlanetState E (getProp payload ''planetState'')
        = Inr createDefaultPlanetState"
      by simp
    from normalizePlanetSaveV1_ok[OF h(4) h(5) h(6) h(7)
        h(8)[unfolded PLANET_STATE_VERSION_def] h(9) this]
    show ?thesis
      by (auto simp: deserializePlanetSave_def parseSavePayload_record[OF h(1-3)])
  qed
  from d s show ?thesis
    by blast
qed

theorem non_object_state_is_default_witness:
  "notPlainObject examplePlatform (Str ''null'')
   \<and> deserializePlanetState examplePlatform (Str ''null'') = Inr createDefaultPlanetState
   \<and> isRecord nullStateRecord
   \<and> ensureSlotIndex (getProp (getProp nullStateRecord ''metadata'') ''slot'')
       = Some (Finite 1)
   \<and> strictEquals (Finite 1) (Finite 1)
   \<and> getProp nullStateRecord ''planetState'' = Str ''null''
   \<and> (\<exists>save. deserializePlanetSave examplePlatform nullStateRecord (Some (Finite 1)) = Inr save
         \<and> slot (metadata save) = Finite 1
         \<and> planetState save = createDefaultPlanetState)"
proof -
  have n: "notPlainObject examplePlatform (Str ''null'')"
    by (simp add: examplePlatform_def tablePlatform_def jsonTable_def)
  note t = non_object_state_is_default[OF n]
  have h: "isRecord nullStateRecord" "hasProp ''version'' nullStateRecord"
      "save_ensurePositiveInteger (getProp nullStateRecord ''version'')
         = Some PLANET_SAVE_FORMAT_VERSION"
      "isRecord (getProp nullStateRecord ''metadata'')"
      "ensureSlotIndex (getProp (getProp nullStateRecord ''metadata'') ''slot'')
         = Some (Finite 1)"
      "strictEquals (Finite 1) (Finite 1)"
      "hasProp ''planetStateVersion'' nullStateRecord"
      "save_ensurePositiveInteger (getProp nullStateRecord ''planetStateVersion'')
         = Some PLANET_STATE_VERSION"
      "hasProp ''planetState'' nullStateRecord"
      "getProp nullStateRecord ''planetState'' = Str ''null''"
    by (simp_all add: nullStateRecord_def numJS_def PLANET_SAVE_FORMAT_VERSION_def
          PLANET_STATE_VERSION_def SAVE_SLOT_COUNT_def Let_def)
  from t h have "\<exists>save. deserializePlanetSave examplePlatform nullStateRecord (Some (Finite 1))
           = Inr save
         \<and> slot (metadata save) = Finite 1
         \<and> planetState save = createDefaultPlanetState"
    by blast
  with n t h show ?thesis
    by blast
qed

section \<open>The permutation table\<close>

lemma identity_fill:
  assumes "n \<le> 256"
  shows "foldl (\<lambda>p i. writeUint8 p (int i) i) (replicate 256 0) [0..<n]
           = [0..<n] @ replicate (256 - n) 0"
  using assms
proof (induction n)
  case 0
  then show ?case by simp
next
  case (Suc n)
  then have n: "n < 256" by simp
  have "([0..<n] @ replicate (256 - n) 0)[n := n] = [0..<Suc n] @ replicate (256 - Suc n) 0"
  proof -
    from n have "replicate (256 - n) (0::nat) = 0 # replicate (256 - Suc n) 0"
      by (metis Suc_diff_Suc replicate_Suc)
    then show ?thesis
      by (simp add: list_update_append)
  qed
  with Suc n show ?case
    by (simp add: writeUint8_def)
qed

lemma permutation0_identity:
  "foldl (\<lambda>p i. writeUint8 p (int i) i) (replicate 256 0) [0..<256] = [0..<256]"
  using identity_fill[of 256] by simp

lemma duplicate_fill:
  fixes perm :: "nat list" and P :: "nat list"
  assumes "length P = 512" "n \<le> 256"
  defines "F \<equiv> foldl (\<lambda>P' i. writeUint8 (writeUint8 P' (int i) (readUint8 perm (int i)))
                          (int i + 256) (readUint8 perm (int i))) P [0..<n]"
  shows "length F = 512 \<and>
         (\<forall>k<512. F ! k = (if k < n then readUint8 perm (int k) mod 256
                            else if 256 \<le> k \<and> k < 256 + n
                              then readUint8 perm (int (k - 256)) mod 256
                            else P ! k))"
  using assms(2) unfolding F_def
proof (induction n)
  case 0
  then show ?case by (simp add: assms(1))
next
  case (Suc n)
  let ?F = "foldl (\<lambda>P' i. writeUint8 (writeUint8 P' (int i) (readUint8 perm (int i)))
                          (int i + 256) (readUint8 perm (int i))) P [0..<n]"
  from Suc have len: "length ?F = 512"
    and ih: "\<forall>k<512. ?F ! k = (if k < n then readUint8 perm (int k) mod 256
                            else if 256 \<le> k \<and> k < 256 + n
                              then readUint8 perm (int (k - 256)) mod 256
                            else P ! k)"
    and n: "n < 256"
    by simp_all
  have step: "foldl (\<lambda>P' i. writeUint8 (writeUint8 P' (int i) (readUint8 perm (int i)))
                          (int i + 256) (readUint8 perm (int i))) P [0..<Suc n]
        = (?F[n := readUint8 perm (int n) mod 256])
             [n + 256 := readUint8 perm (int n) mod 256]"
    by (simp add: writeUint8_def nat_add_distrib)
  show ?case
    unfolding step using len ih n
    by (auto simp: nth_list_update)
qed

lemma initializePermutation_table:
  assumes "length P = 512"
  shows "length (initializePermutation sd P) = 512"
    and "\<forall>k<512. initializePermutation sd P ! k =
           readUint8 (shuffle 255 sd [0..<256]) (int (k mod 256)) mod 256"
proof -
  let ?perm = "shuffle 255 sd [0..<256]"
  from duplicate_fill[OF assms(1), of 256 ?perm]
  have l: "length (initializePermutation sd P) = 512"
    and n: "\<forall>k<512. initializePermutation sd P ! k =
              (if k < 256 then readUint8 ?perm (int k) mod 256
               else readUint8 ?perm (int (k - 256)) mod 256)"
    by (simp_all add: initializePermutation_def Let_def permutation0_identity)
  show "length (initializePermutation sd P) = 512" by (rule l)
  show "\<forall>k<512. initializePermutation sd P ! k =
           readUint8 (shuffle 255 sd [0..<256]) (int (k mod 256)) mod 256"
  proof (intro allI impI)
    fix k :: nat assume k: "k < 512"
    have "k mod 256 = (if k < 256 then k else k - 256)"
      using k by (simp add: mod_if)
    with n k show "initializePermutation sd P ! k =
           readUint8 (shuffle 255 sd [0..<256]) (int (k mod 256)) mod 256"
      by simp
  qed
qed

lemma initializePermutation_independent:
  assumes "length P1 = 512" "length P2 = 512"
  shows "initializePermutation sd P1 = initializePermutation sd P2"
proof (rule nth_equalityI)
  show "length (initializePermutation sd P1) = length (initializePermutation sd P2)"
    by (simp add: initializePermutation_table(1) assms)
  fix i assume "i < length (initializePermutation sd P1)"
  then have "i < 512"
    by (simp add: initializePermutation_table(1) assms)
  then show "initializePermutation sd P1 ! i = initializePermutation sd P2 ! i"
    by (simp add: initializePermutation_table(2) assms)
qed

subsection \<open>The shuffle of a seed that is not negative\<close>

lemma shuffle_index:
  "\<lfloor>(real_of_int a / 233280) * real_of_int b\<rfloor> = (a * b) div 233280"
proof -
  have "(real_of_int a / 233280) * real_of_int b = real_of_int (a * b) / real_of_int 233280"
    by simp
  then show ?thesis
    by (simp only: floor_divide_of_int_eq)
qed

lemma shuffle_index_range:
  fixes a b :: int
  assumes "0 \<le> a" "a < 233280" "0 < b"
  shows "0 \<le> (a * b) div 233280" "(a * b) div 233280 < b"
proof -
  show "0 \<le> (a * b) div 233280"
    using assms by (simp add: pos_imp_zdiv_nonneg_iff)
  define q where "q = (a * b) div 233280"
  have "q * 233280 + (a * b) mod 233280 = a * b"
    by (simp add: q_def)
  moreover have "0 \<le> (a * b) mod 233280"
    by simp
  ultimately have "q * 233280 \<le> a * b"
    by linarith
  moreover have "a * b < 233280 * b"
    using assms by simp
  ultimately have "q * 233280 < b * 233280"
    by linarith
  then show "(a * b) div 233280 < b"
    by (simp add: q_def)
qed

lemma swapEntries_props:
  assumes "i < length p" "j < length p"
  shows "length (swapEntries p (i, j)) = length p"
    and "set (swapEntries p (i, j)) = set p"
    and "distinct (swapEntries p (i, j)) = distinct p"
    and "\<And>x. x < length p \<Longrightarrow>
           swapEntries p (i, j) ! x = p ! (if x = i then j else if x = j then i else x)"
  using assms
  by (auto simp: swapEntries_def set_swap distinct_swap nth_list_update)

lemma shuffle_as_swaps:
  assumes "0 \<le> st" "n < length perm" "\<forall>x\<in>set perm. x < 256"
  shows "shuffle n st perm = foldl swapEntries perm (shuffleSwaps n st)"
  using assms
proof (induction n arbitrary: st perm)
  case 0
  then show ?case by simp
next
  case (Suc k)
  define st' where "st' = (st * 9301 + 49297) mod 233280"
  define j where "j = nat (st' * (int k + 2) div 233280)"
  have r: "jsRemainder (st * 9301 + 49297) 233280 = st'"
    using Suc.prems(1) by (simp add: jsRemainder_def st'_def)
  have st': "0 \<le> st'" "st' < 233280"
    by (simp_all add: st'_def)
  have jint: "\<lfloor>(real_of_int st' / 233280) * real_of_int (int (Suc k) + 1)\<rfloor> = int j"
    unfolding shuffle_index j_def
    using shuffle_index_range(1)[OF st', of "int k + 2"]
    by (simp add: algebra_simps)
  have jle: "j \<le> Suc k"
    using shuffle_index_range(2)[OF st', of "int k + 2"] shuffle_index_range(1)[OF st', of "int k + 2"]
    unfolding j_def by linarith
  with Suc.prems(2) have jlen: "j < length perm" by simp
  have nat_Suc: "nat (1 + int k) = Suc k"
    by simp
  have small: "perm ! j mod 256 = perm ! j" "perm ! Suc k mod 256 = perm ! Suc k"
    using Suc.prems(2,3) jlen by (simp_all add: nth_mem)
  have step: "shuffle (Suc k) st perm = shuffle k st' (swapEntries perm (Suc k, j))"
    unfolding shuffle.simps Let_def r jint
    using Suc.prems(2) jlen
    by (simp add: readUint8_def writeUint8_def swapEntries_def small nat_Suc)
  note sp = swapEntries_props[OF Suc.prems(2) jlen]
  have "shuffle k st' (swapEntries perm (Suc k, j))
          = foldl swapEntries (swapEntries perm (Suc k, j)) (shuffleSwaps k st')"
    using Suc.prems st'(1)
    by (intro Suc.IH) (simp_all add: sp)
  then show ?case
    unfolding step
    by (simp add: Let_def st'_def[symmetric] j_def[symmetric])
qed

lemma shuffleSwaps_range:
  assumes "0 \<le> st" "(i, j) \<in> set (shuffleSwaps n st)"
  shows "j \<le> i \<and> i \<le> n"
  using assms
proof (induction n arbitrary: st)
  case 0
  then show ?case by simp
next
  case (Suc k)
  define st' where "st' = (st * 9301 + 49297) mod 233280"
  have st': "0 \<le> st'" "st' < 233280"
    by (simp_all add: st'_def)
  have "nat (st' * (int k + 2) div 233280) \<le> Suc k"
    using shuffle_index_range(2)[OF st', of "int k + 2"] shuffle_index_range(1)[OF st', of "int k + 2"]
    by linarith
  with Suc st'(1) show ?case
    by (auto simp: Let_def st'_def[symmetric] dest: Suc.IH[rotated] le_SucI)
qed

lemma foldl_swaps_nth:
  assumes "\<forall>(i, j)\<in>set sw. i < length p \<and> j < length p" "m < length p"
  shows "sourceIndex sw m < length p \<and> foldl swapEntries p sw ! m = p ! sourceIndex sw m"
  using assms
proof (induction sw arbitrary: p)
  case Nil
  then show ?case by simp
next
  case (Cons s sw)
  obtain i j where s: "s = (i, j)" by (cases s)
  from Cons.prems s have ij: "i < length p" "j < length p" by simp_all
  note sp = swapEntries_props[OF ij]
  from Cons.prems have "sourceIndex sw m < length (swapEntries p (i, j))
      \<and> foldl swapEntries (swapEntries p (i, j)) sw ! m
          = swapEntries p (i, j) ! sourceIndex sw m"
    by (intro Cons.IH) (auto simp: sp(1))
  then show ?case
    using ij by (auto simp: s sp Let_def)
qed

lemma foldl_swaps_props:
  assumes "\<forall>(i, j)\<in>set sw. i < length p \<and> j < length p"
  shows "length (foldl swapEntries p sw) = length p
       \<and> set (foldl swapEntries p sw) = set p
       \<and> distinct (foldl swapEntries p sw) = distinct p"
  using assms
proof (induction sw arbitrary: p)
  case Nil
  then show ?case by simp
next
  case (Cons s sw)
  obtain i j where s: "s = (i, j)" by (cases s)
  from Cons.prems s have ij: "i < length p" "j < length p" by simp_all
  note sp = swapEntries_props[OF ij]
  from Cons.prems have "length (foldl swapEntries (swapEntries p (i, j)) sw)
        = length (swapEntries p (i, j))
      \<and> set (foldl swapEntries (swapEntries p (i, j)) sw) = set (swapEntries p (i, j))
      \<and> distinct (foldl swapEntries (swapEntries p (i, j)) sw)
          = distinct (swapEntries p (i, j))"
    by (intro Cons.IH) (auto simp: sp(1))
  then show ?case
    by (simp add: s sp)
qed

lemma shuffle_identity:
  assumes "0 \<le> sd"
  shows "shuffle 255 sd [0..<256] = foldl swapEntries [0..<256] (shuffleSwaps 255 sd)"
    and "\<forall>(i, j)\<in>set (shuffleSwaps 255 sd). i < length [0..<256] \<and> j < length [0..<256]"
proof -
  show "shuffle 255 sd [0..<256] = foldl swapEntries [0..<256] (shuffleSwaps 255 sd)"
    using assms by (intro shuffle_as_swaps) simp_all
  show "\<forall>(i, j)\<in>set (shuffleSwaps 255 sd). i < length [0..<256] \<and> j < length [0..<256]"
    using shuffleSwaps_range[OF assms, of _ _ 255] by fastforce
qed

lemma shuffle_is_permutation:
  assumes "0 \<le> sd"
  shows "length (shuffle 255 sd [0..<256]) = 256"
    and "set (shuffle 255 sd [0..<256]) = {0..<256}"
    and "distinct (shuffle 255 sd [0..<256])"
  using foldl_swaps_props[OF shuffle_identity(2)[OF assms]]
  unfolding shuffle_identity(1)[OF assms]
  by simp_all

lemma shuffle_entry:
  assumes "0 \<le> sd" "m < 256"
  shows "shuffle 255 sd [0..<256] ! m = sourceIndex (shuffleSwaps 255 sd) m"
proof -
  from foldl_swaps_nth[OF shuffle_identity(2)[OF assms(1)], of m] assms(2)
  have "sourceIndex (shuffleSwaps 255 sd) m < 256"
    and "foldl swapEntries [0..<256] (shuffleSwaps 255 sd) ! m
           = [0..<256] ! sourceIndex (shuffleSwaps 255 sd) m"
    by simp_all
  then show ?thesis
    unfolding shuffle_identity(1)[OF assms(1)] by simp
qed

lemma initNoise_entry:
  assumes "0 \<le> sd" "length P = 512" "k < 512"
  shows "initNoise sd P ! k = sourceIndex (shuffleSwaps 255 sd) (k mod 256)"
proof -
  have m: "k mod 256 < 256" by simp
  have "shuffle 255 sd [0..<256] ! (k mod 256) \<in> set (shuffle 255 sd [0..<256])"
    using shuffle_is_permutation(1)[OF assms(1)] m by (intro nth_mem) simp
  then have lt: "shuffle 255 sd [0..<256] ! (k mod 256) < 256"
    unfolding shuffle_is_permutation(2)[OF assms(1)] by simp
  have "initNoise sd P ! k = readUint8 (shuffle 255 sd [0..<256]) (int (k mod 256)) mod 256"
    using initializePermutation_table(2)[OF assms(2)] assms(3)
    by (simp add: initNoise_def)
  also have "\<dots> = shuffle 255 sd [0..<256] ! (k mod 256)"
    using lt by (simp add: readUint8_def shuffle_is_permutation(1)[OF assms(1)])
  finally show ?thesis
    by (simp add: shuffle_entry[OF assms(1) m])
qed

section \<open>The range of the noise\<close>

lemma fade_range:
  assumes "0 \<le> t" "t \<le> 1"
  shows "0 \<le> fade t" "fade t \<le> 1"
proof -
  have q: "0 < t * (t * 6 - 15) + 10"
  proof -
    have "t * (t * 6 - 15) + 10 = 6 * (t - 5 / 4)\<^sup>2 + 5 / 8"
      by (simp add: power2_eq_square algebra_simps)
    then show ?thesis
      by (metis add_nonneg_pos mult_nonneg_nonneg zero_le_numeral zero_le_power2
            divide_pos_pos zero_less_numeral)
  qed
  have "0 \<le> t * t * t" using assms(1) by simp
  with q show "0 \<le> fade t"
    unfolding fade_def by (meson less_imp_le mult_nonneg_nonneg)
  have "1 - fade t = (1 - t) * (1 - t) * (1 - t) * (6 * t * t + 3 * t + 1)"
    by (simp add: fade_def algebra_simps)
  moreover have "0 \<le> (1 - t) * (1 - t) * (1 - t) * (6 * t * t + 3 * t + 1)"
    using assms by (intro mult_nonneg_nonneg add_nonneg_nonneg) simp_all
  ultimately show "fade t \<le> 1"
    by linarith
qed

lemma lerp_mono:
  assumes "0 \<le> t" "t \<le> 1" "a \<le> a'" "b \<le> b'"
  shows "lerp t a b \<le> lerp t a' b'"
proof -
  have "lerp t a b = (1 - t) * a + t * b" "lerp t a' b' = (1 - t) * a' + t * b'"
    by (simp_all add: lerp_def algebra_simps)
  moreover have "(1 - t) * a \<le> (1 - t) * a'" "t * b \<le> t * b'"
    using assms by (simp_all add: mult_left_mono)
  ultimately show ?thesis by linarith
qed

lemma lerp_abs:
  assumes "0 \<le> t" "t \<le> 1" "\<bar>a\<bar> \<le> a'" "\<bar>b\<bar> \<le> b'"
  shows "\<bar>lerp t a b\<bar> \<le> lerp t a' b'"
proof -
  have "lerp t a b \<le> lerp t a' b'"
    using assms by (intro lerp_mono) simp_all
  moreover have "lerp t (- a') (- b') \<le> lerp t a b"
    using assms by (intro lerp_mono) simp_all
  moreover have "lerp t (- a') (- b') = - lerp t a' b'"
    by (simp add: lerp_def algebra_simps)
  ultimately show ?thesis by simp
qed

lemma lerp_bound:
  assumes "0 \<le> t" "t \<le> 1" "\<bar>a\<bar> \<le> B" "\<bar>b\<bar> \<le> B"
  shows "\<bar>lerp t a b\<bar> \<le> B"
proof -
  have "\<bar>lerp t a b\<bar> \<le> lerp t B B"
    using assms by (rule lerp_abs)
  then show ?thesis by (simp add: lerp_def)
qed

lemma grad_abs: "\<bar>grad h x y z w\<bar> \<le> \<bar>x\<bar> + \<bar>y\<bar> + \<bar>z\<bar> + \<bar>w\<bar>"
proof -
  define k where "k = and h 15"
  consider "k < 4" | "4 \<le> k \<and> k < 8" | "8 \<le> k \<and> (k = 12 \<or> k = 14)"
    | "8 \<le> k \<and> k \<noteq> 12 \<and> k \<noteq> 14"
    by linarith
  then show ?thesis
  proof cases
    case 1
    then show ?thesis
      unfolding grad_def Let_def k_def[symmetric] by (auto simp: abs_if)
  next
    case 2
    then show ?thesis
      unfolding grad_def Let_def k_def[symmetric] by (auto simp: abs_if)
  next
    case 3
    then show ?thesis
      unfolding grad_def Let_def k_def[symmetric] by (auto simp: abs_if)
  next
    case 4
    then show ?thesis
      unfolding grad_def Let_def k_def[symmetric] by (auto simp: abs_if)
  qed
qed

lemma fade_spread:
  assumes "0 \<le> t" "t \<le> 1"
  shows "lerp (fade t) t (1 - t) \<le> 1 / 2"
proof -
  have "1 / 2 - lerp (fade t) t (1 - t)
          = 2 * (t - 1 / 2)\<^sup>2 * (6 * (t * (1 - t))\<^sup>2 + 2 * (t * (1 - t)) + 1)"
    by (simp add: lerp_def fade_def power2_eq_square algebra_simps)
  moreover have "0 \<le> 2 * (t - 1 / 2)\<^sup>2 * (6 * (t * (1 - t))\<^sup>2 + 2 * (t * (1 - t)) + 1)"
    using assms by (intro mult_nonneg_nonneg add_nonneg_nonneg) simp_all
  ultimately show ?thesis by linarith
qed

lemma lerp_shift:
  "lerp t (c + a) (c + b) = c + lerp t a b"
  "lerp t (a + c) (b + c) = lerp t a b + c"
  by (simp_all add: lerp_def algebra_simps)

lemma perlin_tree_bound:
  fixes xf yf zf wf :: real
  assumes "0 \<le> xf" "xf \<le> 1" "0 \<le> yf" "yf \<le> 1" "0 \<le> zf" "zf \<le> 1" "0 \<le> wf" "wf \<le> 1"
  shows "\<bar>
       lerp (fade xf) (lerp (fade yf) (lerp (fade zf) (lerp (fade wf) (grad h0000 xf yf zf wf)
       (grad h0001 xf yf zf (wf - 1))) (lerp (fade wf) (grad h0010 xf yf (zf - 1) wf) (grad
       h0011 xf yf (zf - 1) (wf - 1)))) (lerp (fade zf) (lerp (fade wf) (grad h0100 xf (yf - 1)
       zf wf) (grad h0101 xf (yf - 1) zf (wf - 1))) (lerp (fade wf) (grad h0110 xf (yf - 1) (zf
       - 1) wf) (grad h0111 xf (yf - 1) (zf - 1) (wf - 1))))) (lerp (fade yf) (lerp (fade zf)
       (lerp (fade wf) (grad h1000 (xf - 1) yf zf wf) (grad h1001 (xf - 1) yf zf (wf - 1)))
       (lerp (fade wf) (grad h1010 (xf - 1) yf (zf - 1) wf) (grad h1011 (xf - 1) yf (zf - 1)
       (wf - 1)))) (lerp (fade zf) (lerp (fade wf) (grad h1100 (xf - 1) (yf - 1) zf wf) (grad
       h1101 (xf - 1) (yf - 1) zf (wf - 1))) (lerp (fade wf) (grad h1110 (xf - 1) (yf - 1) (zf
       - 1) wf) (grad h1111 (xf - 1) (yf - 1) (zf - 1) (wf - 1)))))\<bar> \<le> 2"
proof -
  note f = fade_range[OF assms(1,2)] fade_range[OF assms(3,4)] fade_range[OF assms(5,6)]
    fade_range[OF assms(7,8)]
  have "\<bar>
       lerp (fade xf) (lerp (fade yf) (lerp (fade zf) (lerp (fade wf) (grad h0000 xf yf zf wf)
       (grad h0001 xf yf zf (wf - 1))) (lerp (fade wf) (grad h0010 xf yf (zf - 1) wf) (grad
       h0011 xf yf (zf - 1) (wf - 1)))) (lerp (fade zf) (lerp (fade wf) (grad h0100 xf (yf - 1)
       zf wf) (grad h0101 xf (yf - 1) zf (wf - 1))) (lerp (fade wf) (grad h0110 xf (yf - 1) (zf
       - 1) wf) (grad h0111 xf (yf - 1) (zf - 1) (wf - 1))))) (lerp (fade yf) (lerp (fade zf)
       (lerp (fade wf) (grad h1000 (xf - 1) yf zf wf) (grad h1001 (xf - 1) yf zf (wf - 1)))
       (lerp (fade wf) (grad h1010 (xf - 1) yf (zf - 1) wf) (grad h1011 (xf - 1) yf (zf - 1)
       (wf - 1)))) (lerp (fade zf) (lerp (fade wf) (grad h1100 (xf - 1) (yf - 1) zf wf) (grad
       h1101 (xf - 1) (yf - 1) zf (wf - 1))) (lerp (fade wf) (grad h1110 (xf - 1) (yf - 1) (zf
       - 1) wf) (grad h1111 (xf - 1) (yf - 1) (zf - 1) (wf - 1)))))\<bar>
    \<le>
       lerp (fade xf) (lerp (fade yf) (lerp (fade zf) (lerp (fade wf) (\<bar>xf\<bar> +
       \<bar>yf\<bar> + \<bar>zf\<bar> + \<bar>wf\<bar>) (\<bar>xf\<bar> + \<bar>yf\<bar> +
       \<bar>zf\<bar> + \<bar>(wf - 1)\<bar>)) (lerp (fade wf) (\<bar>xf\<bar> + \<bar>yf\<bar>
       + \<bar>(zf - 1)\<bar> + \<bar>wf\<bar>) (\<bar>xf\<bar> + \<bar>yf\<bar> + \<bar>(zf -
       1)\<bar> + \<bar>(wf - 1)\<bar>))) (lerp (fade zf) (lerp (fade wf) (\<bar>xf\<bar> +
       \<bar>(yf - 1)\<bar> + \<bar>zf\<bar> + \<bar>wf\<bar>) (\<bar>xf\<bar> + \<bar>(yf -
       1)\<bar> + \<bar>zf\<bar> + \<bar>(wf - 1)\<bar>)) (lerp (fade wf) (\<bar>xf\<bar> +
       \<bar>(yf - 1)\<bar> + \<bar>(zf - 1)\<bar> + \<bar>wf\<bar>) (\<bar>xf\<bar> +
       \<bar>(yf - 1)\<bar> + \<bar>(zf - 1)\<bar> + \<bar>(wf - 1)\<bar>)))) (lerp (fade yf)
       (lerp (fade zf) (lerp (fade wf) (\<bar>(xf - 1)\<bar> + \<bar>yf\<bar> + \<bar>zf\<bar>
       + \<bar>wf\<bar>) (\<bar>(xf - 1)\<bar> + \<bar>yf\<bar> + \<bar>zf\<bar> + \<bar>(wf -
       1)\<bar>)) (lerp (fade wf) (\<bar>(xf - 1)\<bar> + \<bar>yf\<bar> + \<bar>(zf - 1)\<bar>
       + \<bar>wf\<bar>) (\<bar>(xf - 1)\<bar> + \<bar>yf\<bar> + \<bar>(zf - 1)\<bar> +
       \<bar>(wf - 1)\<bar>))) (lerp (fade zf) (lerp (fade wf) (\<bar>(xf - 1)\<bar> +
       \<bar>(yf - 1)\<bar> + \<bar>zf\<bar> + \<bar>wf\<bar>) (\<bar>(xf - 1)\<bar> +
       \<bar>(yf - 1)\<bar> + \<bar>zf\<bar> + \<bar>(wf - 1)\<bar>)) (lerp (fade wf)
       (\<bar>(xf - 1)\<bar> + \<bar>(yf - 1)\<bar> + \<bar>(zf - 1)\<bar> + \<bar>wf\<bar>)
       (\<bar>(xf - 1)\<bar> + \<bar>(yf - 1)\<bar> + \<bar>(zf - 1)\<bar> + \<bar>(wf -
       1)\<bar>))))"
    by (intro lerp_abs grad_abs f)
  also have "\<dots> = lerp (fade xf) \<bar>xf\<bar> \<bar>xf - 1\<bar> + lerp (fade yf) \<bar>yf\<bar> \<bar>yf - 1\<bar>
      + lerp (fade zf) \<bar>zf\<bar> \<bar>zf - 1\<bar> + lerp (fade wf) \<bar>wf\<bar> \<bar>wf - 1\<bar>"
    by (simp only: lerp_shift)
  also have "\<dots> = lerp (fade xf) xf (1 - xf) + lerp (fade yf) yf (1 - yf)
      + lerp (fade zf) zf (1 - zf) + lerp (fade wf) wf (1 - wf)"
    using assms by (simp add: abs_if)
  also have "\<dots> \<le> 1 / 2 + 1 / 2 + 1 / 2 + 1 / 2"
    by (intro add_mono fade_spread assms)
  finally show ?thesis by simp
qed

lemma perlin4D_abs: "\<bar>perlin4D P x y z w\<bar> \<le> 2"
proof -
  have r: "0 \<le> a - of_int \<lfloor>a\<rfloor>" "a - of_int \<lfloor>a\<rfloor> \<le> 1" for a :: real
    by linarith+
  show ?thesis
    unfolding perlin4D_def Let_def
    by (rule perlin_tree_bound) (rule r)+
qed

section \<open>Fractional Brownian motion\<close>

lemma fbmNoise_loop_bound:
  assumes "0 \<le> persistence" "0 \<le> amplitude" "0 \<le> maxValue" "\<bar>val\<bar> \<le> B * maxValue"
    and "\<And>a b c d. \<bar>perlin4D P a b c d\<bar> \<le> B"
    and "fbmNoise_loop P x y z w octaves persistence lacunarity i val amplitude frequency maxValue
           = (val', maxValue')"
  shows "\<bar>val'\<bar> \<le> B * maxValue' \<and> maxValue \<le> maxValue'
       \<and> (i < octaves \<longrightarrow> maxValue + amplitude \<le> maxValue')"
  using assms
proof (induction P x y z w octaves persistence lacunarity i val amplitude frequency maxValue
    rule: fbmNoise_loop.induct)
  case (1 P x y z w octaves persistence lacunarity i val amplitude frequency maxValue)
  show ?case
  proof (cases "i < octaves")
    case False
    with "1.prems" show ?thesis
      by (simp add: fbmNoise_loop.simps[of P x y z w octaves persistence lacunarity i])
  next
    case True
    let ?n = "perlin4D P (x * frequency) (y * frequency) (z * frequency) (w * frequency)"
    have n: "\<bar>?n\<bar> \<le> B" by (rule "1.prems"(5))
    have "\<bar>?n * amplitude\<bar> \<le> B * amplitude"
      using n "1.prems"(2) by (simp add: abs_mult mult_right_mono)
    with "1.prems"(4) have v: "\<bar>val + ?n * amplitude\<bar> \<le> B * (maxValue + amplitude)"
      by (simp add: algebra_simps)
    have next_call: "fbmNoise_loop P x y z w octaves persistence lacunarity (i + 1)
        (val + ?n * amplitude) (amplitude * persistence) (frequency * lacunarity)
        (maxValue + amplitude) = (val', maxValue')"
      using "1.prems"(6) True
      by (simp add: fbmNoise_loop.simps[of P x y z w octaves persistence lacunarity i])
    have "\<bar>val'\<bar> \<le> B * maxValue' \<and> maxValue + amplitude \<le> maxValue'
       \<and> (i + 1 < octaves \<longrightarrow> maxValue + amplitude + amplitude * persistence \<le> maxValue')"
      using "1.prems"(1,2,3) v
      by (intro "1.IH"[OF True _ _ _ _ "1.prems"(5) next_call]) simp_all
    with True "1.prems"(2) show ?thesis
      by auto
  qed
qed

subsection \<open>The table of the seed 43\<close>

lemma swaps43_eval: "shuffleSwaps 255 43 = swaps43"
  unfolding swaps43_def by code_simp

lemma swaps43_sources:
    "sourceIndex swaps43 3 = 224"
    "sourceIndex swaps43 4 = 251"
    "sourceIndex swaps43 24 = 156"
    "sourceIndex swaps43 25 = 148"
    "sourceIndex swaps43 26 = 173"
    "sourceIndex swaps43 46 = 240"
    "sourceIndex swaps43 47 = 132"
    "sourceIndex swaps43 50 = 226"
    "sourceIndex swaps43 51 = 116"
    "sourceIndex swaps43 111 = 91"
    "sourceIndex swaps43 112 = 207"
    "sourceIndex swaps43 151 = 179"
    "sourceIndex swaps43 152 = 214"
    "sourceIndex swaps43 159 = 107"
    "sourceIndex swaps43 160 = 70"
    "sourceIndex swaps43 162 = 56"
    "sourceIndex swaps43 163 = 64"
    "sourceIndex swaps43 167 = 93"
    "sourceIndex swaps43 168 = 5"
    "sourceIndex swaps43 176 = 1"
    "sourceIndex swaps43 177 = 22"
    "sourceIndex swaps43 181 = 151"
    "sourceIndex swaps43 182 = 35"
    "sourceIndex swaps43 216 = 39"
    "sourceIndex swaps43 217 = 100"
    "sourceIndex swaps43 235 = 153"
    "sourceIndex swaps43 236 = 97"
    "sourceIndex swaps43 6 = 78"
    "sourceIndex swaps43 7 = 138"
  unfolding swaps43_def by (simp_all add: Let_def)

lemma table43:
    "initNoise 43 P_initial ! 3 = 224"
    "initNoise 43 P_initial ! 4 = 251"
    "initNoise 43 P_initial ! 24 = 156"
    "initNoise 43 P_initial ! 25 = 148"
    "initNoise 43 P_initial ! 26 = 173"
    "initNoise 43 P_initial ! 46 = 240"
    "initNoise 43 P_initial ! 47 = 132"
    "initNoise 43 P_initial ! 50 = 226"
    "initNoise 43 P_initial ! 51 = 116"
    "initNoise 43 P_initial ! 111 = 91"
    "initNoise 43 P_initial ! 112 = 207"
    "initNoise 43 P_initial ! 151 = 179"
    "initNoise 43 P_initial ! 152 = 214"
    "initNoise 43 P_initial ! 159 = 107"
    "initNoise 43 P_initial ! 160 = 70"
    "initNoise 43 P_initial ! 162 = 56"
    "initNoise 43 P_initial ! 163 = 64"
    "initNoise 43 P_initial ! 167 = 93"
    "initNoise 43 P_initial ! 168 = 5"
    "initNoise 43 P_initial ! 176 = 1"
    "initNoise 43 P_initial ! 177 = 22"
    "initNoise 43 P_initial ! 181 = 151"
    "initNoise 43 P_initial ! 182 = 35"
    "initNoise 43 P_initial ! 216 = 39"
    "initNoise 43 P_initial ! 217 = 100"
    "initNoise 43 P_initial ! 235 = 153"
    "initNoise 43 P_initial ! 236 = 97"
    "initNoise 43 P_initial ! 262 = 78"
    "initNoise 43 P_initial ! 263 = 138"
  by (simp_all add: initNoise_entry P_initial_def swaps43_eval swaps43_sources)

lemma grad_values:
  "grad 56 x y z w = y + z + w" "grad 64 x y z w = x + y + z"
  "grad 240 x y z w = x + y + z" "grad 132 x y z w = x + z - w"
  "grad 226 x y z w = x - y + z" "grad 116 x y z w = x + z - w"
  "grad 91 x y z w = - y - z + w" "grad 207 x y z w = - y - z - w"
  "grad 153 x y z w = - y + z + w" "grad 97 x y z w = - x + y + z"
  "grad 78 x y z w = - x" "grad 138 x y z w = y - z + w"
  "grad 93 x y z w = - y + z - w" "grad 5 x y z w = - x + z - w"
  "grad 107 x y z w = - y - z + w" "grad 70 x y z w = x - z - w"
  by (simp_all add: grad_def Let_def)

lemma perlin43: "perlin4D (initNoise 43 P_initial) (51 / 2) (7 / 2) (5 / 2) (23 / 2) = 17 / 16"
proof -
  have fl: "\<lfloor>51 / 2 :: real\<rfloor> = 25" "\<lfloor>7 / 2 :: real\<rfloor> = 3" "\<lfloor>5 / 2 :: real\<rfloor> = 2"
      "\<lfloor>23 / 2 :: real\<rfloor> = 11"
    by simp_all
  have fd: "fade (1 / 2) = 1 / 2"
    by (simp add: fade_def)
  have ix: "nat ((25::int) mod 256) = 25" "nat ((3::int) mod 256) = 3"
      "nat ((2::int) mod 256) = 2" "nat ((11::int) mod 256) = 11"
    by simp_all
  have fr: "51 / 2 - real_of_int 25 = 1 / 2" "7 / 2 - real_of_int 3 = 1 / 2"
      "5 / 2 - real_of_int 2 = 1 / 2" "23 / 2 - real_of_int 11 = 1 / 2"
    by simp_all
  show ?thesis
    unfolding perlin4D_def fl ix fr fd Let_def
    by (simp add: table43 grad_values lerp_def del: One_nat_def)
qed

lemma fbmNoise_within_two:
  assumes "1 \<le> octaves" "0 \<le> persistence"
  shows "\<exists>r. fbmNoise P x y z w octaves persistence lacunarity = Finite r \<and> \<bar>r\<bar> \<le> 2"
proof -
  obtain val' maxValue' where
    l: "fbmNoise_loop P x y z w octaves persistence lacunarity 0 0 1 1 0 = (val', maxValue')"
    by (cases "fbmNoise_loop P x y z w octaves persistence lacunarity 0 0 1 1 0")
  have b: "\<bar>val'\<bar> \<le> 2 * maxValue' \<and> 0 \<le> maxValue' \<and> (0 < octaves \<longrightarrow> 0 + 1 \<le> maxValue')"
    using assms(2) perlin4D_abs
    by (intro fbmNoise_loop_bound[OF _ _ _ _ _ l]) simp_all
  with assms(1) have m: "1 \<le> maxValue'" and v: "\<bar>val'\<bar> \<le> 2 * maxValue'"
    by simp_all
  from m v have "\<bar>val' / maxValue'\<bar> \<le> 2"
    by (simp add: field_simps)
  with m l show ?thesis
    by (simp add: fbmNoise_def jsDivide_def)
qed

section \<open>Noise determinism\<close>

lemma initNoise_table:
  assumes "0 \<le> sd" "length P = 512"
  shows "initNoise sd P = shuffle 255 sd [0..<256] @ shuffle 255 sd [0..<256]"
proof (rule nth_equalityI)
  show "length (initNoise sd P) = length (shuffle 255 sd [0..<256] @ shuffle 255 sd [0..<256])"
    using initializePermutation_table(1)[OF assms(2)] shuffle_is_permutation(1)[OF assms(1)]
    by (simp add: initNoise_def)
next
  fix i assume "i < length (initNoise sd P)"
  then have i: "i < 512"
    using initializePermutation_table(1)[OF assms(2)] by (simp add: initNoise_def)
  have m: "i mod 256 < 256" by simp
  have e: "initNoise sd P ! i = shuffle 255 sd [0..<256] ! (i mod 256)"
    using initNoise_entry[OF assms i] shuffle_entry[OF assms(1) m] by simp
  have "i mod 256 = (if i < 256 then i else i - 256)"
    using i by (simp add: mod_if)
  with e show "initNoise sd P ! i = (shuffle 255 sd [0..<256] @ shuffle 255 sd [0..<256]) ! i"
    using shuffle_is_permutation(1)[OF assms(1)] by (simp add: nth_append)
qed

text \<open>
  C8: the noise generator is deterministic in its seed. Whatever the table held before,
  \<open>initNoise\<close> with the same seed leaves the same table of 512 entries, also when it runs a
  second time; the table is the shuffled identity of 256 entries followed by a copy of
  itself, for a seed that is not negative a permutation of 0 to 255; \<open>fbmNoise\<close> reads the
  table and does not write it, so equal arguments give equal results after either
  initialisation.
\<close>

theorem noise_deterministic:
  assumes "length P1 = 512" "length P2 = 512"
  shows "initNoise sd P1 = initNoise sd P2
       \<and> initNoise sd (initNoise sd P1) = initNoise sd P1
       \<and> length (initNoise sd P1) = 512
       \<and> (\<forall>k<256. initNoise sd P1 ! k
                     = readUint8 (shuffle 255 sd [0..<256]) (int k) mod 256
                 \<and> initNoise sd P1 ! (k + 256) = initNoise sd P1 ! k)
       \<and> (0 \<le> sd \<longrightarrow>
            initNoise sd P1 = shuffle 255 sd [0..<256] @ shuffle 255 sd [0..<256]
            \<and> distinct (shuffle 255 sd [0..<256])
            \<and> set (shuffle 255 sd [0..<256]) = {0..<256})
       \<and> fbmNoise (initNoise sd P1) x y z w octaves persistence lacunarity
           = fbmNoise (initNoise sd P2) x y z w octaves persistence lacunarity"
proof -
  have same: "initNoise sd P1 = initNoise sd P2"
    using initializePermutation_independent[OF assms] by (simp add: initNoise_def)
  have len: "length (initNoise sd P1) = 512"
    using initializePermutation_table(1)[OF assms(1)] by (simp add: initNoise_def)
  have again: "initNoise sd (initNoise sd P1) = initNoise sd P1"
    using initializePermutation_independent[OF len assms(1)] by (simp add: initNoise_def)
  have entries: "\<forall>k<256. initNoise sd P1 ! k
                     = readUint8 (shuffle 255 sd [0..<256]) (int k) mod 256
                 \<and> initNoise sd P1 ! (k + 256) = initNoise sd P1 ! k"
  proof (intro allI impI)
    fix k :: nat assume k: "k < 256"
    then have "k < 512" "k + 256 < 512" by simp_all
    then show "initNoise sd P1 ! k = readUint8 (shuffle 255 sd [0..<256]) (int k) mod 256
                 \<and> initNoise sd P1 ! (k + 256) = initNoise sd P1 ! k"
      using initializePermutation_table(2)[OF assms(1), of sd] k
      by (simp add: initNoise_def)
  qed
  have perm: "0 \<le> sd \<longrightarrow>
            initNoise sd P1 = shuffle 255 sd [0..<256] @ shuffle 255 sd [0..<256]
            \<and> distinct (shuffle 255 sd [0..<256])
            \<and> set (shuffle 255 sd [0..<256]) = {0..<256}"
    using initNoise_table[OF _ assms(1)] shuffle_is_permutation(2,3) by blast
  from same len again entries perm show ?thesis
    by simp
qed

theorem noise_deterministic_witness:
  "length P_initial = 512 \<and> length (replicate 512 (7::nat)) = 512 \<and> 0 \<le> (43::int)
   \<and> initNoise 43 P_initial = initNoise 43 (replicate 512 7)
   \<and> initNoise 43 (initNoise 43 P_initial) = initNoise 43 P_initial
   \<and> length (initNoise 43 P_initial) = 512
   \<and> initNoise 43 P_initial = shuffle 255 43 [0..<256] @ shuffle 255 43 [0..<256]
   \<and> distinct (shuffle 255 43 [0..<256])
   \<and> fbmNoise (initNoise 43 P_initial) (51 / 2) (7 / 2) (5 / 2) (23 / 2) 1 (1 / 2) 2
       = fbmNoise (initNoise 43 (replicate 512 7)) (51 / 2) (7 / 2) (5 / 2) (23 / 2) 1 (1 / 2) 2"
proof -
  have h: "length P_initial = 512" "length (replicate 512 (7::nat)) = 512" "0 \<le> (43::int)"
    by (simp_all add: P_initial_def)
  note t = noise_deterministic[OF h(1,2), of 43 "51 / 2" "7 / 2" "5 / 2" "23 / 2" 1 "1 / 2" 2]
  from t h show ?thesis
    by blast
qed

text \<open>
  C9. \<open>fbmNoise\<close> is claimed to return a number within \<open>[-1, 1]\<close> for at least one octave,
  and the terrain generator maps its result to \<open>[0, 1]\<close> on that account. It does not: after
  \<open>initNoise\<close> with the seed 43, with one octave \<open>fbmNoise\<close> is \<open>perlin4D\<close>, and at the point
  \<open>(25.5, 3.5, 2.5, 11.5)\<close> the sixteen corner gradients interpolate to \<open>17/16\<close>, above 1.
  Every coordinate, fade value and gradient there is a multiple of a power of two, so the
  doubles of the source compute the same number, 1.0625. What holds is the bound 2 of
  \<open>fbmNoise_within_two\<close>.
\<close>

theorem fbm_exceeds_one:
  "fbmNoise (initNoise 43 P_initial) (51 / 2) (7 / 2) (5 / 2) (23 / 2) 1 (1 / 2) 2
     = Finite (17 / 16)"
  by (simp add: fbmNoise_def fbmNoise_loop.simps[of _ _ _ _ _ 1] perlin43 jsDivide_def)

end
